theory Spec2Isabelle
  imports Main
begin

section \<open>The jobs table\<close>

text \<open>
  \<^verbatim>\<open>src/src/job.js\<close> keeps every job as a row of the \<^verbatim>\<open>jobs\<close> table
  (\<^verbatim>\<open>src/supabase/migrations\<close>): \<^verbatim>\<open>id\<close> is the primary key, \<^verbatim>\<open>attempts\<close> and
  \<^verbatim>\<open>max_retries\<close> are integers, the four timestamp columns are points in time (here
  integers, milliseconds), and \<^verbatim>\<open>scheduled_at\<close>, \<^verbatim>\<open>last_error\<close>, \<^verbatim>\<open>output\<close>,
  \<^verbatim>\<open>locked_by\<close> and \<^verbatim>\<open>locked_at\<close> are nullable (\<open>None\<close> is SQL's \<^verbatim>\<open>NULL\<close>).
  The fields \<^verbatim>\<open>id\<close> and \<^verbatim>\<open>output\<close> are written \<open>id'\<close> and \<open>output'\<close>:
  \<open>id\<close> is the identity function of HOL and \<open>output\<close> a keyword of Isabelle.
\<close>

datatype JobState = PENDING | PROCESSING | COMPLETED | FAILED | DEAD

type_synonym timestamp = int

record job =
  id' :: string
  command :: string
  state :: JobState
  attempts :: int
  max_retries :: int
  created_at :: timestamp
  updated_at :: timestamp
  scheduled_at :: "timestamp option"
  last_error :: "string option"
  output' :: "string option"
  locked_by :: "string option"
  locked_at :: "timestamp option"

type_synonym jobs_table = "job list"

text \<open>
  What the client hands back in its \<^verbatim>\<open>error\<close> field, and the functions of
  \<^verbatim>\<open>job.js\<close> throw: a violated primary key on insert, a value that a column cannot
  hold (the data exceptions of the store: a number outside the range of the column, text
  that is not a number, a character that text cannot hold), a null in a column that is
  \<^verbatim>\<open>NOT NULL\<close>, \<^verbatim>\<open>.single()\<close> on a result that is not exactly one row,
  \<^verbatim>\<open>.maybeSingle()\<close> on more than one row, and any failure of the store itself
  (connection, timeout).
\<close>

datatype error =
  UniqueViolation | DataException | NotNullViolation | NoRows | MultipleRows | StoreError string

section \<open>What the columns hold\<close>

text \<open>
  The columns \<^verbatim>\<open>attempts\<close> and \<^verbatim>\<open>max_retries\<close> are \<^verbatim>\<open>integer\<close>, 32 bits with a sign;
  the columns \<^verbatim>\<open>id\<close>, \<^verbatim>\<open>command\<close>, \<^verbatim>\<open>last_error\<close>, \<^verbatim>\<open>output\<close> and \<^verbatim>\<open>locked_by\<close>
  are \<^verbatim>\<open>text\<close>, which holds every character but the one of code 0. A statement that
  carries a value its column cannot hold is rejected whole, whatever rows it would have
  touched.
\<close>

definition in_int32 :: "int \<Rightarrow> bool" where
  "in_int32 n \<longleftrightarrow> - 2147483648 \<le> n \<and> n \<le> 2147483647"

definition text_ok :: "string \<Rightarrow> bool" where
  "text_ok s \<longleftrightarrow> CHR 0x00 \<notin> set s"

text \<open>
  A value of JavaScript as \<^verbatim>\<open>JSON.parse\<close> and \<^verbatim>\<open>parseInt\<close> make them: \<^verbatim>\<open>undefined\<close>
  (an absent field), \<^verbatim>\<open>null\<close>, a boolean, a number that is an integer, \<^verbatim>\<open>NaN\<close>, a
  number that is not an integer, a string, and an array or an object. \<^verbatim>\<open>a || b\<close> is
  \<^verbatim>\<open>a\<close> when \<^verbatim>\<open>a\<close> is truthy and \<^verbatim>\<open>b\<close> otherwise; \<^verbatim>\<open>undefined\<close>, \<^verbatim>\<open>null\<close>,
  \<^verbatim>\<open>false\<close>, \<^verbatim>\<open>0\<close>, \<^verbatim>\<open>NaN\<close> and the empty string are falsy.
\<close>

datatype js_value =
  JUndefined | JNull | JBool bool | JNum int | JNaN | JFraction | JStr string | JObject

definition js_truthy :: "js_value \<Rightarrow> bool" where
  "js_truthy v =
     (case v of
        JUndefined \<Rightarrow> False | JNull \<Rightarrow> False | JBool b \<Rightarrow> b | JNum n \<Rightarrow> n \<noteq> 0
      | JNaN \<Rightarrow> False | JFraction \<Rightarrow> True | JStr s \<Rightarrow> s \<noteq> [] | JObject \<Rightarrow> True)"

definition js_or :: "js_value \<Rightarrow> js_value \<Rightarrow> js_value" where
  "js_or a b = (if js_truthy a then a else b)"

definition js_number :: "int option \<Rightarrow> js_value" where
  "js_number x = (case x of None \<Rightarrow> JNaN | Some n \<Rightarrow> JNum n)"

text \<open>White space and digits, as \<^verbatim>\<open>parseInt\<close> and the store read them in ASCII text.\<close>

definition isWhiteSpace :: "char \<Rightarrow> bool" where
  "isWhiteSpace c \<longleftrightarrow> c \<in> set [CHR 0x09, CHR 0x0A, CHR 0x0B, CHR 0x0C, CHR 0x0D, CHR '' '']"

definition digitValue :: "char \<Rightarrow> nat option" where
  "digitValue c =
     (let n = of_char c :: nat in
      if 48 \<le> n \<and> n \<le> 57 then Some (n - 48)
      else if 97 \<le> n \<and> n \<le> 122 then Some (n - 87)
      else if 65 \<le> n \<and> n \<le> 90 then Some (n - 55)
      else None)"

definition isDigit :: "nat \<Rightarrow> char \<Rightarrow> bool" where
  "isDigit R c = (case digitValue c of None \<Rightarrow> False | Some v \<Rightarrow> v < R)"

text \<open>
  How the store reads text for an \<^verbatim>\<open>integer\<close> column (the integer input of Postgres 16
  and later): white space, a sign, then decimal digits or \<^verbatim>\<open>0x\<close>, \<^verbatim>\<open>0o\<close>, \<^verbatim>\<open>0b\<close> and
  digits of that base, with single underscores between digits (after the prefix too),
  at least one digit, then white space to the end. \<open>scanDigits\<close> returns the value read
  and the text left, or nothing for a misplaced underscore.
\<close>

fun scanDigits :: "nat \<Rightarrow> bool \<Rightarrow> int \<Rightarrow> string \<Rightarrow> (int \<times> string) option" where
  "scanDigits R us acc [] = Some (acc, [])"
| "scanDigits R us acc (c # cs) =
     (if isDigit R c then scanDigits R True (acc * int R + int (the (digitValue c))) cs
      else if c = CHR ''_'' then
        (case cs of
           [] \<Rightarrow> None
         | d # ds \<Rightarrow> if us \<and> isDigit R d then scanDigits R True acc cs else None)
      else Some (acc, c # cs))"

definition stripSign :: "string \<Rightarrow> int \<times> string" where
  "stripSign S =
     (case S of
        c # r \<Rightarrow> if c = CHR ''-'' then (- 1, r) else if c = CHR ''+'' then (1, r) else (1, S)
      | [] \<Rightarrow> (1, S))"

definition intPrefix :: "string \<Rightarrow> nat \<times> bool \<times> string" where
  "intPrefix S =
     (case S of
        c # d # r \<Rightarrow>
          if c = CHR ''0'' \<and> (d = CHR ''x'' \<or> d = CHR ''X'') then (16, True, r)
          else if c = CHR ''0'' \<and> (d = CHR ''o'' \<or> d = CHR ''O'') then (8, True, r)
          else if c = CHR ''0'' \<and> (d = CHR ''b'' \<or> d = CHR ''B'') then (2, True, r)
          else (10, False, S)
      | _ \<Rightarrow> (10, False, S))"

definition text_to_int :: "string \<Rightarrow> int option" where
  "text_to_int s =
     (let (sign, S) = stripSign (dropWhile isWhiteSpace s);
          (R, us, S') = intPrefix S
      in case scanDigits R us 0 S' of
           None \<Rightarrow> None
         | Some (n, rest) \<Rightarrow>
             if length rest = length S' \<or> dropWhile isWhiteSpace rest \<noteq> [] then None
             else if in_int32 (sign * n) then Some (sign * n) else None)"

text \<open>
  What an \<^verbatim>\<open>integer NOT NULL DEFAULT 3\<close> column makes of a value in the body of an
  insert: an absent key takes the default; \<^verbatim>\<open>null\<close> is refused (\<^verbatim>\<open>NaN\<close> is sent as
  \<^verbatim>\<open>null\<close>); a number must be an integer in range; a string is read as above; a
  boolean, an array and an object are not integers.
\<close>

definition store_int :: "js_value \<Rightarrow> error + int" where
  "store_int v =
     (case v of
        JUndefined \<Rightarrow> Inr 3
      | JNull \<Rightarrow> Inl NotNullViolation
      | JNaN \<Rightarrow> Inl NotNullViolation
      | JNum n \<Rightarrow> if in_int32 n then Inr n else Inl DataException
      | JStr s \<Rightarrow> (case text_to_int s of None \<Rightarrow> Inl DataException | Some n \<Rightarrow> Inr n)
      | JBool b \<Rightarrow> Inl DataException
      | JFraction \<Rightarrow> Inl DataException
      | JObject \<Rightarrow> Inl DataException)"

text \<open>
  What a field \<^verbatim>\<open>scheduled_at\<close> is after \<^verbatim>\<open>|| null\<close>: nothing (the field was absent,
  \<^verbatim>\<open>null\<close> or otherwise falsy), text that the store reads as a point in time, or any
  other value, which the column, a \<^verbatim>\<open>timestamptz\<close>, refuses.
\<close>

datatype js_time = NoTime | Time timestamp | NotATime

definition store_time :: "js_time \<Rightarrow> error + timestamp option" where
  "store_time v =
     (case v of NoTime \<Rightarrow> Inr None | Time s \<Rightarrow> Inr (Some s) | NotATime \<Rightarrow> Inl DataException)"

section \<open>Statements on the table\<close>

text \<open>
  Every function of the registry is one round trip: it takes the table and returns the
  table after the call together with what the JavaScript function returns (\<open>Inr\<close>) or
  throws (\<open>Inl\<close>).
\<close>

type_synonym 'a outcome = "jobs_table \<times> (error + 'a)"

definition single :: "job list \<Rightarrow> error + job" where
  "single rows = (case rows of [] \<Rightarrow> Inl NoRows | [j] \<Rightarrow> Inr j | _ \<Rightarrow> Inl MultipleRows)"

definition maybeSingle :: "job list \<Rightarrow> error + job option" where
  "maybeSingle rows = (case rows of [] \<Rightarrow> Inr None | [j] \<Rightarrow> Inr (Some j) | _ \<Rightarrow> Inl MultipleRows)"

text \<open>
  \<^verbatim>\<open>UPDATE jobs SET ... WHERE P RETURNING *\<close>: every row that satisfies \<open>P\<close> is
  rewritten by \<open>f\<close>, and the rewritten rows are returned.
\<close>

definition update_where :: "(job \<Rightarrow> bool) \<Rightarrow> (job \<Rightarrow> job) \<Rightarrow> jobs_table \<Rightarrow> jobs_table \<times> job list" where
  "update_where P f t = (map (\<lambda>j. if P j then f j else j) t, map f (filter P t))"

text \<open>
  \<^verbatim>\<open>INSERT ... RETURNING *\<close> of one row: the primary key rejects an \<^verbatim>\<open>id\<close> that is
  already in the table, and the table stays as it was.
\<close>

definition insert_row :: "job \<Rightarrow> jobs_table \<Rightarrow> jobs_table \<times> (error + job list)" where
  "insert_row j t =
     (if id' j \<in> set (map id' t) then (t, Inl UniqueViolation) else (t @ [j], Inr [j]))"

section \<open>The job registry (\<^verbatim>\<open>src/src/job.js\<close>)\<close>

text \<open>
  The argument of \<^verbatim>\<open>enqueueJob\<close>: \<^verbatim>\<open>id\<close> and \<^verbatim>\<open>command\<close> are strings,
  \<^verbatim>\<open>max_retries\<close> and \<^verbatim>\<open>scheduled_at\<close> are whatever values the caller passes.
\<close>

record jobData =
  jd_id :: string
  jd_command :: string
  jd_max_retries :: js_value
  jd_scheduled_at :: js_time

text \<open>
  \<^verbatim>\<open>x || d\<close> on a number that may be \<^verbatim>\<open>NaN\<close> (\<open>None\<close>), as \<^verbatim>\<open>parseInt\<close> returns it:
  \<^verbatim>\<open>NaN\<close> and \<^verbatim>\<open>0\<close> are falsy. The calls of \<^verbatim>\<open>new Date()\<close> within one function
  are one instant, \<open>now\<close>.
\<close>

definition or_default :: "int option \<Rightarrow> int \<Rightarrow> int" where
  "or_default x d = (case x of None \<Rightarrow> d | Some n \<Rightarrow> if n = 0 then d else n)"

text \<open>
  The row that the store makes of the object \<^verbatim>\<open>job\<close> of \<^verbatim>\<open>enqueueJob\<close>, or the error
  with which it rejects a value of that object.
\<close>

definition new_job :: "timestamp \<Rightarrow> jobData \<Rightarrow> error + job" where
  "new_job now jobData =
     (case store_int (js_or (jd_max_retries jobData) (JNum 3)) of
        Inl e \<Rightarrow> Inl e
      | Inr m \<Rightarrow>
          (case store_time (jd_scheduled_at jobData) of
             Inl e \<Rightarrow> Inl e
           | Inr sch \<Rightarrow>
               if \<not> (text_ok (jd_id jobData) \<and> text_ok (jd_command jobData)) then Inl DataException
               else Inr
                 \<lparr> id' = jd_id jobData,
                   command = jd_command jobData,
                   state = PENDING,
                   attempts = 0,
                   max_retries = m,
                   created_at = now,
                   updated_at = now,
                   scheduled_at = sch,
                   last_error = None,
                   output' = None,
                   locked_by = None,
                   locked_at = None \<rparr>))"

definition enqueueJob :: "timestamp \<Rightarrow> jobData \<Rightarrow> jobs_table \<Rightarrow> job outcome" where
  "enqueueJob now jobData t =
     (case new_job now jobData of
        Inl e \<Rightarrow> (t, Inl e)
      | Inr job \<Rightarrow>
          (case insert_row job t of
             (t', Inl e) \<Rightarrow> (t', Inl e)
           | (t', Inr rows) \<Rightarrow> (t', single rows)))"

definition getJob :: "string \<Rightarrow> jobs_table \<Rightarrow> (job option) outcome" where
  "getJob jobId t = (t, maybeSingle (filter (\<lambda>j. id' j = jobId) t))"

text \<open>
  The object \<^verbatim>\<open>updates\<close> of \<^verbatim>\<open>updateJob\<close>: a key that is absent leaves the column
  alone (\<open>None\<close>); a key that is present carries the new value, which for a nullable
  column may be \<^verbatim>\<open>null\<close> (\<open>Some None\<close>).
\<close>

record updates =
  u_state :: "JobState option"
  u_attempts :: "int option"
  u_last_error :: "string option option"
  u_output :: "string option option"
  u_locked_by :: "string option option"
  u_locked_at :: "timestamp option option"

definition no_updates :: updates where
  "no_updates = \<lparr> u_state = None, u_attempts = None, u_last_error = None,
                  u_output = None, u_locked_by = None, u_locked_at = None \<rparr>"

definition set_col :: "'a option \<Rightarrow> 'a \<Rightarrow> 'a" where
  "set_col u old = (case u of None \<Rightarrow> old | Some v \<Rightarrow> v)"

definition apply_updates :: "updates \<Rightarrow> timestamp \<Rightarrow> job \<Rightarrow> job" where
  "apply_updates u now j =
     j\<lparr> state := set_col (u_state u) (state j),
        attempts := set_col (u_attempts u) (attempts j),
        last_error := set_col (u_last_error u) (last_error j),
        output' := set_col (u_output u) (output' j),
        locked_by := set_col (u_locked_by u) (locked_by j),
        locked_at := set_col (u_locked_at u) (locked_at j),
        updated_at := now \<rparr>"

text \<open>The values of \<^verbatim>\<open>updates\<close> are ones their columns hold.\<close>

definition updates_ok :: "updates \<Rightarrow> bool" where
  "updates_ok u \<longleftrightarrow>
     (case u_attempts u of None \<Rightarrow> True | Some a \<Rightarrow> in_int32 a) \<and>
     (case u_last_error u of Some (Some s) \<Rightarrow> text_ok s | _ \<Rightarrow> True) \<and>
     (case u_output u of Some (Some s) \<Rightarrow> text_ok s | _ \<Rightarrow> True) \<and>
     (case u_locked_by u of Some (Some s) \<Rightarrow> text_ok s | _ \<Rightarrow> True)"

definition updateJob :: "timestamp \<Rightarrow> string \<Rightarrow> updates \<Rightarrow> jobs_table \<Rightarrow> job outcome" where
  "updateJob now jobId u t =
     (if \<not> updates_ok u then (t, Inl DataException)
      else (let (t', rows) = update_where (\<lambda>j. id' j = jobId) (apply_updates u now) t
            in (t', single rows)))"

text \<open>
  \<^verbatim>\<open>lockJob\<close> is called with the id of a worker, which \<^verbatim>\<open>src/queuectl.js\<close> makes of
  \<^verbatim>\<open>worker-\<close> and a UUID: text that the column \<^verbatim>\<open>locked_by\<close> holds.
\<close>

definition lock_row :: "timestamp \<Rightarrow> string \<Rightarrow> job \<Rightarrow> job" where
  "lock_row now workerId j =
     j\<lparr> state := PROCESSING, locked_by := Some workerId, locked_at := Some now,
        updated_at := now \<rparr>"

definition lockJob :: "timestamp \<Rightarrow> string \<Rightarrow> string \<Rightarrow> jobs_table \<Rightarrow> (job option) outcome" where
  "lockJob now jobId workerId t =
     (let (t', rows) =
            update_where (\<lambda>j. id' j = jobId \<and> state j = PENDING \<and> locked_by j = None)
              (lock_row now workerId) t
      in (t', maybeSingle rows))"

text \<open>
  The filter of \<^verbatim>\<open>getNextPendingJob\<close>: \<^verbatim>\<open>state = 'pending'\<close>, \<^verbatim>\<open>locked_by IS NULL\<close>
  and \<^verbatim>\<open>scheduled_at IS NULL OR scheduled_at <= now\<close>.
\<close>

definition eligible :: "timestamp \<Rightarrow> job \<Rightarrow> bool" where
  "eligible now j \<longleftrightarrow>
     state j = PENDING \<and> locked_by j = None \<and>
     (case scheduled_at j of None \<Rightarrow> True | Some s \<Rightarrow> s \<le> now)"

definition getNextPendingJob :: "timestamp \<Rightarrow> jobs_table \<Rightarrow> (job option) outcome" where
  "getNextPendingJob now t =
     (t, maybeSingle (take 1 (sort_key created_at (filter (eligible now) t))))"

definition markJobCompleted :: "timestamp \<Rightarrow> string \<Rightarrow> string \<Rightarrow> jobs_table \<Rightarrow> job outcome" where
  "markJobCompleted now jobId out t =
     updateJob now jobId
       (no_updates\<lparr> u_state := Some COMPLETED, u_output := Some (Some out),
                    u_locked_by := Some None, u_locked_at := Some None \<rparr>) t"

definition markJobFailed :: "timestamp \<Rightarrow> string \<Rightarrow> string \<Rightarrow> int \<Rightarrow> int \<Rightarrow> jobs_table \<Rightarrow> job outcome" where
  "markJobFailed now jobId err attempts' maxRetries t =
     (let state' = (if attempts' \<ge> maxRetries then DEAD else FAILED)
      in updateJob now jobId
           (no_updates\<lparr> u_state := Some state', u_attempts := Some attempts',
                        u_last_error := Some (Some err),
                        u_locked_by := Some None, u_locked_at := Some None \<rparr>) t)"

definition requeueFailedJob :: "timestamp \<Rightarrow> string \<Rightarrow> jobs_table \<Rightarrow> job outcome" where
  "requeueFailedJob now jobId t =
     updateJob now jobId
       (no_updates\<lparr> u_state := Some PENDING,
                    u_locked_by := Some None, u_locked_at := Some None \<rparr>) t"

section \<open>Configuration (\<^verbatim>\<open>getConfig\<close> in \<^verbatim>\<open>src/unnamed/part_001\<close>)\<close>

text \<open>
  The \<^verbatim>\<open>config\<close> table maps a key to a text value; \<^verbatim>\<open>getConfig\<close> returns
  \<^verbatim>\<open>data?.value\<close>, that is \<^verbatim>\<open>undefined\<close> (\<open>None\<close>) when the key has no row.
\<close>

type_synonym config_table = "string \<rightharpoonup> string"

definition getConfig :: "string \<Rightarrow> config_table \<Rightarrow> error + string option" where
  "getConfig key cfg = Inr (cfg key)"

text \<open>
  JavaScript's \<^verbatim>\<open>parseInt\<close> with no radix, on ASCII text: leading white space is
  skipped, then a sign, then \<^verbatim>\<open>0x\<close> or \<^verbatim>\<open>0X\<close> selects base 16, and the longest run of
  digits is read; with no digit the result is \<^verbatim>\<open>NaN\<close> (\<open>None\<close>). \<^verbatim>\<open>parseInt(undefined)\<close>
  is \<^verbatim>\<open>NaN\<close>.
\<close>

definition digitsValue :: "nat \<Rightarrow> string \<Rightarrow> int" where
  "digitsValue R Z = foldl (\<lambda>a c. a * int R + int (the (digitValue c))) 0 Z"

definition stripPrefix :: "string \<Rightarrow> nat \<times> string" where
  "stripPrefix S =
     (case S of
        c # d # r \<Rightarrow> if c = CHR ''0'' \<and> (d = CHR ''x'' \<or> d = CHR ''X'') then (16, r) else (10, S)
      | _ \<Rightarrow> (10, S))"

definition parseInt :: "string option \<Rightarrow> int option" where
  "parseInt v =
     (case v of
        None \<Rightarrow> None
      | Some s \<Rightarrow>
          (let (sign, S) = stripSign (dropWhile isWhiteSpace s);
               (R, S') = stripPrefix S;
               Z = takeWhile (isDigit R) S'
           in if Z = [] then None else Some (sign * digitsValue R Z)))"

section \<open>The command line (\<^verbatim>\<open>src/queuectl.js\<close>)\<close>

text \<open>
  The object that \<^verbatim>\<open>JSON.parse\<close> makes of the argument of \<^verbatim>\<open>enqueue\<close>: \<^verbatim>\<open>id\<close> and
  \<^verbatim>\<open>command\<close> are strings or absent (\<open>None\<close>), \<^verbatim>\<open>max_retries\<close> is any value of
  JSON or absent, and so is \<^verbatim>\<open>scheduled_at\<close>. What the action prints before
  \<^verbatim>\<open>process.exit(1)\<close> is a \<open>cli_error\<close>.
\<close>

record jobSpec =
  js_id :: "string option"
  js_command :: "string option"
  js_max_retries :: js_value
  js_scheduled_at :: js_time

datatype cli_error = MissingCommand | JobNotFound | NotInDLQ JobState | Thrown error

text \<open>\<^verbatim>\<open>s || d\<close> on text that may be absent: \<^verbatim>\<open>undefined\<close> and the empty string are falsy.\<close>

definition str_or :: "string option \<Rightarrow> string \<Rightarrow> string" where
  "str_or x d = (case x of None \<Rightarrow> d | Some s \<Rightarrow> if s = [] then d else s)"

definition thrown :: "'a outcome \<Rightarrow> jobs_table \<times> (cli_error + 'a)" where
  "thrown r = (case r of (t, Inl e) \<Rightarrow> (t, Inl (Thrown e)) | (t, Inr x) \<Rightarrow> (t, Inr x))"

text \<open>
  The action of \<^verbatim>\<open>enqueue\<close>; \<open>uuid\<close> is what \<^verbatim>\<open>randomUUID()\<close> returns. The configuration
  is read only when the field \<^verbatim>\<open>max_retries\<close> of the specification is falsy:
  \<^verbatim>\<open>jobSpec.max_retries || parseInt(await getConfig('max_retries')) || 3\<close>.
\<close>

definition enqueue_action ::
  "timestamp \<Rightarrow> string \<Rightarrow> config_table \<Rightarrow> jobSpec \<Rightarrow> jobs_table \<Rightarrow> jobs_table \<times> (cli_error + job)" where
  "enqueue_action now uuid cfg spec t =
     (if str_or (js_command spec) [] = [] then (t, Inl MissingCommand)
      else
        (case (if js_truthy (js_max_retries spec) then Inr (js_max_retries spec)
               else map_sum (\<lambda>e. e) (\<lambda>v. js_number (parseInt v)) (getConfig ''max_retries'' cfg)) of
           Inl e \<Rightarrow> (t, Inl (Thrown e))
         | Inr a \<Rightarrow>
             thrown (enqueueJob now
               \<lparr> jd_id = str_or (js_id spec) uuid,
                 jd_command = str_or (js_command spec) [],
                 jd_max_retries = js_or a (JNum 3),
                 jd_scheduled_at = js_scheduled_at spec \<rparr> t)))"

text \<open>The action of \<^verbatim>\<open>dlq retry\<close>.\<close>

definition dlq_retry :: "timestamp \<Rightarrow> string \<Rightarrow> jobs_table \<Rightarrow> jobs_table \<times> (cli_error + job)" where
  "dlq_retry now jobId t =
     (case getJob jobId t of
        (t', Inl e) \<Rightarrow> (t', Inl (Thrown e))
      | (t', Inr None) \<Rightarrow> (t', Inl JobNotFound)
      | (t', Inr (Some job)) \<Rightarrow>
          if state job \<noteq> DEAD then (t', Inl (NotInDLQ (state job)))
          else thrown (requeueFailedJob now jobId t'))"

section \<open>The worker (\<^verbatim>\<open>class Worker\<close> in \<^verbatim>\<open>src/unnamed/part_001\<close>)\<close>

text \<open>
  The fields of a \<^verbatim>\<open>Worker\<close> that its methods read and write (the two interval handles
  are left out), and the world its methods act on: the two tables and the callbacks that
  \<^verbatim>\<open>setTimeout\<close> holds, each with the delay in milliseconds after which its timer
  fires and the job it will requeue.
\<close>

record worker =
  workerId :: string
  isRunning :: bool
  currentJob :: "job option"

record world =
  w_jobs :: jobs_table
  w_config :: config_table
  w_timers :: "(int \<times> string) list"

text \<open>
  What one run of \<^verbatim>\<open>processNextJob\<close> meets from outside: the clock at its round trips,
  how the command ends (\<^verbatim>\<open>execAsync\<close> resolves with \<^verbatim>\<open>stdout\<close> and \<^verbatim>\<open>stderr\<close>, or
  rejects with an error that has a message), and for each round trip whether the store
  fails there (\<open>Some e\<close>: the call throws \<open>e\<close> and the table stays as it was).
\<close>

datatype exec_result = Succeeded string string | ExecFailed string

record env =
  t_poll :: timestamp
  t_lock :: timestamp
  t_done :: timestamp
  exec_res :: exec_result
  f_getNext :: "error option"
  f_lock :: "error option"
  f_complete :: "error option"
  f_failed :: "error option"
  f_config :: "error option"

definition call :: "error option \<Rightarrow> (jobs_table \<Rightarrow> 'a outcome) \<Rightarrow> jobs_table \<Rightarrow> 'a outcome" where
  "call fault rpc t = (case fault of Some e \<Rightarrow> (t, Inl e) | None \<Rightarrow> rpc t)"

text \<open>\<^verbatim>\<open>error.message\<close> of an error of the store; the text is the store's.\<close>

definition message :: "error \<Rightarrow> string" where
  "message e =
     (case e of
        UniqueViolation \<Rightarrow> ''duplicate key value violates unique constraint''
      | DataException \<Rightarrow> ''value out of range or not valid for its column''
      | NotNullViolation \<Rightarrow> ''null value violates not-null constraint''
      | NoRows \<Rightarrow> ''JSON object requested, multiple (or no) rows returned''
      | MultipleRows \<Rightarrow> ''JSON object requested, multiple (or no) rows returned''
      | StoreError m \<Rightarrow> m)"

text \<open>
  The delay a timer of Node runs with: \<^verbatim>\<open>setTimeout\<close> sets a delay that is above
  \<open>2\<^sup>3\<^sup>1 - 1\<close> or below 1 to 1. The world keeps, for each pending callback, this delay.
\<close>

definition setTimeout_delay :: "int \<Rightarrow> int" where
  "setTimeout_delay ms = (if 1 \<le> ms \<and> ms \<le> 2147483647 then ms else 1)"

text \<open>
  \<^verbatim>\<open>handleJobFailure(job, error)\<close>, given \<^verbatim>\<open>error.message\<close>. The result is the world
  afterwards and the error the method throws, if any. \<^verbatim>\<open>backoffBase\<close> is an integer, and
  \<^verbatim>\<open>job.attempts\<close> of a job read from the store is not negative, so \<^verbatim>\<open>attempts\<close> is at
  least 1 and \<^verbatim>\<open>Math.pow(backoffBase, attempts) * 1000\<close> is a double for the integer
  \<open>1000 * backoffBase ^ attempts\<close>: equal to it wherever that is at most \<open>2\<^sup>3\<^sup>1 - 1\<close> in
  size (doubles hold every integer up to \<open>2\<^sup>5\<^sup>3\<close>, and \<^verbatim>\<open>Math.pow\<close> is taken to return
  a power that a double holds as it is), and beyond \<open>2\<^sup>3\<^sup>1 - 1\<close> in size, or infinite,
  wherever that is, so the timer runs with the same delay for the double as for the
  integer.
\<close>

definition handleJobFailure :: "env \<Rightarrow> job \<Rightarrow> string \<Rightarrow> world \<Rightarrow> world \<times> error option" where
  "handleJobFailure ev job msg W =
     (let attempts' = attempts job + 1;
          maxRetries = max_retries job;
          errorMessage = str_or (Some msg) ''Unknown error''
      in case call (f_failed ev)
                (markJobFailed (t_done ev) (id' job) errorMessage attempts' maxRetries) (w_jobs W) of
           (t', Inl e) \<Rightarrow> (W\<lparr>w_jobs := t'\<rparr>, Some e)
         | (t', Inr _) \<Rightarrow>
             if attempts' < maxRetries then
               (case (case f_config ev of Some e \<Rightarrow> Inl e
                      | None \<Rightarrow> getConfig ''backoff_base'' (w_config W)) of
                  Inl e \<Rightarrow> (W\<lparr>w_jobs := t'\<rparr>, Some e)
                | Inr v \<Rightarrow>
                    (let backoffBase = or_default (parseInt v) 2;
                         delaySeconds = backoffBase ^ nat attempts'
                     in (W\<lparr>w_jobs := t',
                            w_timers := w_timers W @
                              [(setTimeout_delay (delaySeconds * 1000), id' job)]\<rparr>, None)))
             else (W\<lparr>w_jobs := t'\<rparr>, None))"

text \<open>
  \<^verbatim>\<open>executeJob(job)\<close>: the \<^verbatim>\<open>catch\<close> covers the command and \<^verbatim>\<open>markJobCompleted\<close>
  alike, so an error of either goes to \<^verbatim>\<open>handleJobFailure\<close>.
\<close>

definition executeJob :: "env \<Rightarrow> job \<Rightarrow> world \<Rightarrow> world \<times> error option" where
  "executeJob ev job W =
     (case exec_res ev of
        Succeeded stdout stderr \<Rightarrow>
          (let out = str_or (Some stdout) (str_or (Some stderr) ''Command executed successfully'')
           in case call (f_complete ev) (markJobCompleted (t_done ev) (id' job) out) (w_jobs W) of
                (t', Inr _) \<Rightarrow> (W\<lparr>w_jobs := t'\<rparr>, None)
              | (t', Inl e) \<Rightarrow> handleJobFailure ev job (message e) (W\<lparr>w_jobs := t'\<rparr>))
      | ExecFailed msg \<Rightarrow> handleJobFailure ev job msg W)"

text \<open>
  The \<^verbatim>\<open>try\<close> block of \<^verbatim>\<open>processNextJob\<close>: the world and the worker when the block is
  left, and the error it is left with, if any.
\<close>

definition processNextJob_try :: "env \<Rightarrow> world \<times> worker \<Rightarrow> (world \<times> worker) \<times> error option" where
  "processNextJob_try ev Ww =
     (let (W, w) = Ww in
      case call (f_getNext ev) (getNextPendingJob (t_poll ev)) (w_jobs W) of
        (t1, Inl e) \<Rightarrow> ((W\<lparr>w_jobs := t1\<rparr>, w), Some e)
      | (t1, Inr None) \<Rightarrow> ((W\<lparr>w_jobs := t1\<rparr>, w), None)
      | (t1, Inr (Some job)) \<Rightarrow>
          (case call (f_lock ev) (lockJob (t_lock ev) (id' job) (workerId w)) t1 of
             (t2, Inl e) \<Rightarrow> ((W\<lparr>w_jobs := t2\<rparr>, w), Some e)
           | (t2, Inr None) \<Rightarrow> ((W\<lparr>w_jobs := t2\<rparr>, w), None)
           | (t2, Inr (Some lockedJob)) \<Rightarrow>
               (let w' = w\<lparr>currentJob := Some lockedJob\<rparr>;
                    (W', err) = executeJob ev lockedJob (W\<lparr>w_jobs := t2\<rparr>)
                in ((W', w'), err))))"

text \<open>
  \<^verbatim>\<open>processNextJob\<close>: the guard returns before the \<^verbatim>\<open>try\<close>; the \<^verbatim>\<open>catch\<close> logs the
  error and drops it; the \<^verbatim>\<open>finally\<close> runs however the block was left.
\<close>

definition processNextJob :: "env \<Rightarrow> world \<times> worker \<Rightarrow> world \<times> worker" where
  "processNextJob ev Ww =
     (let (W, w) = Ww in
      if \<not> isRunning w \<or> currentJob w \<noteq> None then (W, w)
      else (let ((W', w'), err) = processNextJob_try ev (W, w)
            in (W', w'\<lparr>currentJob := None\<rparr>)))"

text \<open>
  The constructor, and a worker's polls one after the other: each tick of the interval
  calls \<^verbatim>\<open>processNextJob\<close> on the store as it then is, whatever others did to it in
  between.
\<close>

definition Worker :: "string \<Rightarrow> worker" where
  "Worker wid = \<lparr>workerId = wid, isRunning = False, currentJob = None\<rparr>"

fun polls :: "(env \<times> world) list \<Rightarrow> worker \<Rightarrow> worker" where
  "polls [] w = w"
| "polls ((ev, W) # rest) w = polls rest (snd (processNextJob ev (W, w)))"

text \<open>
  The callback that \<^verbatim>\<open>handleJobFailure\<close> gives to \<^verbatim>\<open>setTimeout\<close>: it requeues the job
  and logs an error instead of throwing it.
\<close>

definition requeue_callback :: "timestamp \<Rightarrow> error option \<Rightarrow> string \<Rightarrow> world \<Rightarrow> world" where
  "requeue_callback now fault jobId W =
     (case call fault (requeueFailedJob now jobId) (w_jobs W) of (t', _) \<Rightarrow> W\<lparr>w_jobs := t'\<rparr>)"

section \<open>Sequences of operations\<close>

text \<open>
  The five mutating operations of the registry, with their arguments, and a table built
  from the empty one by any sequence of them.
\<close>

datatype registry_op =
    Create timestamp jobData
  | Claim timestamp string string
  | Complete timestamp string string
  | Fail timestamp string string int int
  | Requeue timestamp string

fun apply_op :: "registry_op \<Rightarrow> jobs_table \<Rightarrow> jobs_table" where
  "apply_op (Create now jobData) t = fst (enqueueJob now jobData t)"
| "apply_op (Claim now jobId wid) t = fst (lockJob now jobId wid t)"
| "apply_op (Complete now jobId out) t = fst (markJobCompleted now jobId out t)"
| "apply_op (Fail now jobId err a m) t = fst (markJobFailed now jobId err a m t)"
| "apply_op (Requeue now jobId) t = fst (requeueFailedJob now jobId t)"

fun is_Fail :: "registry_op \<Rightarrow> bool" where
  "is_Fail (Fail now jobId err a m) = True"
| "is_Fail _ = False"

definition run_ops :: "registry_op list \<Rightarrow> jobs_table \<Rightarrow> jobs_table" where
  "run_ops ops t = foldl (\<lambda>t' x. apply_op x t') t ops"

text \<open>
  Several workers and command lines on one store. The system keeps the executions in
  progress, each the id of a worker and the record that \<^verbatim>\<open>lockJob\<close> returned to it
  (a worker may have more than one, and a job may be in more than one); the ids that
  some \<^verbatim>\<open>dlq retry\<close> has read as \<^verbatim>\<open>dead\<close> (its check is passed, its write is still to
  come); and the ids that some \<^verbatim>\<open>dlq retry\<close> has requeued. A step is one of: an
  \<^verbatim>\<open>enqueue\<close> that creates a job, with any \<^verbatim>\<open>max_retries\<close>; a change of the
  configuration; a \<^verbatim>\<open>lockJob\<close> that succeeds, by any worker on any id, which starts an
  execution; the \<^verbatim>\<open>executeJob\<close> of an execution in progress, with any outcome of the
  command and of the store, which ends it (the calls of one \<^verbatim>\<open>executeJob\<close> are one
  step); a timer that fires, in any order and with any outcome of the store; the read
  of a \<^verbatim>\<open>dlq retry\<close> that finds the job \<^verbatim>\<open>dead\<close>; the write of a \<^verbatim>\<open>dlq retry\<close> whose
  read has passed, whatever the job has become since. A call that throws before it
  writes changes nothing and is no step.
\<close>

record system =
  s_world :: world
  executing :: "(string \<times> job) list"
  armed :: "string set"
  retried :: "string set"

inductive reachable :: "system \<Rightarrow> bool" where
  init: "reachable \<lparr> s_world = \<lparr> w_jobs = [], w_config = cfg, w_timers = [] \<rparr>,
                     executing = [], armed = {}, retried = {} \<rparr>"
| enqueue:
    "reachable s \<Longrightarrow>
     enqueue_action now uuid (w_config (s_world s)) spec (w_jobs (s_world s)) = (t', Inr j) \<Longrightarrow>
     reachable (s\<lparr>s_world := (s_world s)\<lparr>w_jobs := t'\<rparr>\<rparr>)"
| config:
    "reachable s \<Longrightarrow> reachable (s\<lparr>s_world := (s_world s)\<lparr>w_config := cfg\<rparr>\<rparr>)"
| claim:
    "reachable s \<Longrightarrow>
     lockJob now jobId wid (w_jobs (s_world s)) = (t', Inr (Some lockedJob)) \<Longrightarrow>
     reachable (s\<lparr>s_world := (s_world s)\<lparr>w_jobs := t'\<rparr>,
                  executing := (wid, lockedJob) # executing s\<rparr>)"
| execute:
    "reachable s \<Longrightarrow> (wid, lockedJob) \<in> set (executing s) \<Longrightarrow>
     executeJob ev lockedJob (s_world s) = (W', err) \<Longrightarrow>
     reachable (s\<lparr>s_world := W', executing := remove1 (wid, lockedJob) (executing s)\<rparr>)"
| timer:
    "reachable s \<Longrightarrow> (d, jobId) \<in> set (w_timers (s_world s)) \<Longrightarrow>
     reachable (s\<lparr>s_world := requeue_callback now fault jobId
                    ((s_world s)\<lparr>w_timers := remove1 (d, jobId) (w_timers (s_world s))\<rparr>)\<rparr>)"
| dlq_read:
    "reachable s \<Longrightarrow> getJob jobId (w_jobs (s_world s)) = (t', Inr (Some job)) \<Longrightarrow>
     state job = DEAD \<Longrightarrow>
     reachable (s\<lparr>armed := insert jobId (armed s)\<rparr>)"
| dlq_write:
    "reachable s \<Longrightarrow> jobId \<in> armed s \<Longrightarrow>
     requeueFailedJob now jobId (w_jobs (s_world s)) = (t', Inr job) \<Longrightarrow>
     reachable (s\<lparr>s_world := (s_world s)\<lparr>w_jobs := t'\<rparr>,
                  retried := insert jobId (retried s)\<rparr>)"

text \<open>
  What the steps above keep true of the jobs that no \<^verbatim>\<open>dlq retry\<close> has requeued (the
  ids outside \<open>R\<close>). Of a row with a positive \<^verbatim>\<open>max_retries\<close>: \<^verbatim>\<open>attempts\<close> is between
  0 and \<^verbatim>\<open>max_retries\<close>, and reaches \<^verbatim>\<open>max_retries\<close> exactly in the state \<^verbatim>\<open>dead\<close>. Of
  the system: ids are distinct; such a job has at most one execution in progress, whose
  row is \<^verbatim>\<open>processing\<close>, locked by that worker, with the attempts and the limit the
  worker was given; and it has at most one timer pending, which waits on a row that is
  \<^verbatim>\<open>failed\<close>.
\<close>

definition job_ok :: "job \<Rightarrow> bool" where
  "job_ok j \<longleftrightarrow>
     0 \<le> attempts j \<and> attempts j \<le> max_retries j \<and>
     (state j = DEAD \<longrightarrow> attempts j = max_retries j) \<and>
     (state j \<noteq> DEAD \<longrightarrow> attempts j < max_retries j)"

definition exec_ok :: "jobs_table \<Rightarrow> string set \<Rightarrow> (string \<times> job) list \<Rightarrow> bool" where
  "exec_ok t R ex \<longleftrightarrow>
     distinct (filter (\<lambda>k. k \<notin> R) (map (\<lambda>x. id' (snd x)) ex)) \<and>
     (\<forall>x\<in>set ex. id' (snd x) \<notin> R \<longrightarrow>
        (\<exists>j\<in>set t. id' j = id' (snd x) \<and> state j = PROCESSING \<and> locked_by j = Some (fst x) \<and>
                    attempts j = attempts (snd x) \<and> max_retries j = max_retries (snd x)))"

definition timers_ok :: "jobs_table \<Rightarrow> string set \<Rightarrow> (int \<times> string) list \<Rightarrow> bool" where
  "timers_ok t R tm \<longleftrightarrow>
     distinct (filter (\<lambda>k. k \<notin> R) (map snd tm)) \<and>
     (\<forall>k\<in>set (map snd tm). k \<notin> R \<longrightarrow> (\<exists>j\<in>set t. id' j = k \<and> state j = FAILED))"

definition sys_inv :: "system \<Rightarrow> bool" where
  "sys_inv s \<longleftrightarrow>
     distinct (map id' (w_jobs (s_world s))) \<and>
     (\<forall>j\<in>set (w_jobs (s_world s)). id' j \<notin> retried s \<and> 1 \<le> max_retries j \<longrightarrow> job_ok j) \<and>
     exec_ok (w_jobs (s_world s)) (retried s) (executing s) \<and>
     timers_ok (w_jobs (s_world s)) (retried s) (w_timers (s_world s))"

section \<open>Rows under a primary key\<close>

lemma rows_pk_unique:
  "distinct (map id' t) \<Longrightarrow> j \<in> set t \<Longrightarrow> r \<in> set t \<Longrightarrow> id' r = id' j \<Longrightarrow> r = j"
  by (meson distinct_map inj_onD)

lemma filter_pk_hit:
  assumes "distinct (map id' t)" "j \<in> set t" "Q j"
  shows "filter (\<lambda>r. id' r = id' j \<and> Q r) t = [j]"
  using assms
proof (induction t)
  case Nil
  then show ?case by simp
next
  case (Cons a t)
  show ?case
  proof (cases "a = j")
    case True
    with Cons.prems have "\<forall>r\<in>set t. id' r \<noteq> id' j" by (auto simp: image_iff)
    then have "filter (\<lambda>r. id' r = id' j \<and> Q r) t = []" by (simp add: filter_empty_conv)
    with True Cons.prems show ?thesis by simp
  next
    case False
    with Cons.prems have "j \<in> set t" "id' a \<noteq> id' j" by auto
    with Cons show ?thesis by simp
  qed
qed

lemma map_pk_hit:
  assumes "distinct (map id' t)" "j \<in> set t"
  shows "map (\<lambda>r. if id' r = id' j \<and> Q r then f r else r) t
         = map (\<lambda>r. if r = j then (if Q j then f j else j) else r) t"
proof (rule map_cong[OF refl])
  fix r assume "r \<in> set t"
  with assms rows_pk_unique[of t j r] show "(if id' r = id' j \<and> Q r then f r else r) = (if r = j then if Q j then f j else j else r)"
    by auto
qed

text \<open>
  Claim C1. \<^verbatim>\<open>lockJob\<close> on a table whose ids are distinct (the primary key): when
  the row with the given id is \<^verbatim>\<open>pending\<close> and has no \<^verbatim>\<open>locked_by\<close>, that row alone
  becomes \<^verbatim>\<open>processing\<close> with \<^verbatim>\<open>locked_by\<close> the worker's id and \<^verbatim>\<open>locked_at\<close> the
  time of the call, and the call returns the row as it now is; when no row with that id
  is \<^verbatim>\<open>pending\<close> and unlocked, the call returns nothing and the table is as it was.
\<close>

theorem lockJob_conditional:
  assumes pk: "distinct (map id' t)"
  shows "(\<forall>j\<in>set t. id' j = jobId \<and> state j = PENDING \<and> locked_by j = None \<longrightarrow>
            lockJob now jobId wid t =
              (map (\<lambda>r. if r = j then j\<lparr>state := PROCESSING, locked_by := Some wid,
                                         locked_at := Some now, updated_at := now\<rparr> else r) t,
               Inr (Some (j\<lparr>state := PROCESSING, locked_by := Some wid,
                            locked_at := Some now, updated_at := now\<rparr>))))
       \<and> ((\<forall>j\<in>set t. \<not> (id' j = jobId \<and> state j = PENDING \<and> locked_by j = None)) \<longrightarrow>
            lockJob now jobId wid t = (t, Inr None))"
proof (intro conjI ballI impI)
  fix j assume j: "j \<in> set t" and c: "id' j = jobId \<and> state j = PENDING \<and> locked_by j = None"
  let ?Q = "\<lambda>r. state r = PENDING \<and> locked_by r = None"
  have f: "filter (\<lambda>r. id' r = jobId \<and> state r = PENDING \<and> locked_by r = None) t = [j]"
    using filter_pk_hit[OF pk j, of ?Q] c by simp
  have m: "map (\<lambda>r. if id' r = jobId \<and> state r = PENDING \<and> locked_by r = None then lock_row now wid r else r) t
           = map (\<lambda>r. if r = j then lock_row now wid j else r) t"
    using map_pk_hit[OF pk j, of ?Q "lock_row now wid"] c by simp
  show "lockJob now jobId wid t =
              (map (\<lambda>r. if r = j then j\<lparr>state := PROCESSING, locked_by := Some wid,
                                         locked_at := Some now, updated_at := now\<rparr> else r) t,
               Inr (Some (j\<lparr>state := PROCESSING, locked_by := Some wid,
                            locked_at := Some now, updated_at := now\<rparr>)))"
    by (simp add: lockJob_def update_where_def f m maybeSingle_def lock_row_def)
next
  assume n: "\<forall>j\<in>set t. \<not> (id' j = jobId \<and> state j = PENDING \<and> locked_by j = None)"
  then have f: "filter (\<lambda>r. id' r = jobId \<and> state r = PENDING \<and> locked_by r = None) t = []"
    by (simp add: filter_empty_conv)
  have m: "map (\<lambda>r. if id' r = jobId \<and> state r = PENDING \<and> locked_by r = None then lock_row now wid r else r) t = t"
    using n by (intro map_idI) auto
  show "lockJob now jobId wid t = (t, Inr None)"
    by (simp add: lockJob_def update_where_def f m maybeSingle_def)
qed

theorem lockJob_conditional_witness:
  "lockJob 7 ''t1'' ''w1''
       [\<lparr>id' = ''t1'', command = ''true'', state = PENDING, attempts = 0, max_retries = 3,
          created_at = 1, updated_at = 1, scheduled_at = None, last_error = None,
          output' = None, locked_by = None, locked_at = None\<rparr>]
     = ([\<lparr>id' = ''t1'', command = ''true'', state = PROCESSING, attempts = 0, max_retries = 3,
          created_at = 1, updated_at = 7, scheduled_at = None, last_error = None,
          output' = None, locked_by = Some ''w1'', locked_at = Some 7\<rparr>],
        Inr (Some \<lparr>id' = ''t1'', command = ''true'', state = PROCESSING, attempts = 0, max_retries = 3,
          created_at = 1, updated_at = 7, scheduled_at = None, last_error = None,
          output' = None, locked_by = Some ''w1'', locked_at = Some 7\<rparr>))
   \<and> lockJob 9 ''t1'' ''w2''
       [\<lparr>id' = ''t1'', command = ''true'', state = PROCESSING, attempts = 0, max_retries = 3,
          created_at = 1, updated_at = 7, scheduled_at = None, last_error = None,
          output' = None, locked_by = Some ''w1'', locked_at = Some 7\<rparr>]
     = ([\<lparr>id' = ''t1'', command = ''true'', state = PROCESSING, attempts = 0, max_retries = 3,
          created_at = 1, updated_at = 7, scheduled_at = None, last_error = None,
          output' = None, locked_by = Some ''w1'', locked_at = Some 7\<rparr>], Inr None)"
  using lockJob_conditional [where t = "[\<lparr>id' = ''t1'', command = ''true'', state = PENDING, attempts = 0, max_retries = 3,
          created_at = 1, updated_at = 1, scheduled_at = None, last_error = None,
          output' = None, locked_by = None, locked_at = None\<rparr>]"
          and jobId = "''t1''" and now = 7 and wid = "''w1''"]
        lockJob_conditional [where t = "[\<lparr>id' = ''t1'', command = ''true'', state = PROCESSING, attempts = 0, max_retries = 3,
          created_at = 1, updated_at = 7, scheduled_at = None, last_error = None,
          output' = None, locked_by = Some ''w1'', locked_at = Some 7\<rparr>]"
          and jobId = "''t1''" and now = 9 and wid = "''w2''"]
  by simp

section \<open>The registry functions\<close>

lemma updateJob_hit:
  assumes pk: "distinct (map id' t)" and j: "j \<in> set t" and ok: "updates_ok u"
  shows "updateJob now (id' j) u t =
           (map (\<lambda>r. if r = j then apply_updates u now j else r) t, Inr (apply_updates u now j))"
proof -
  have f: "filter (\<lambda>r. id' r = id' j) t = [j]"
    using filter_pk_hit[OF pk j, of "\<lambda>r. True"] by simp
  have m: "map (\<lambda>r. if id' r = id' j then apply_updates u now r else r) t
           = map (\<lambda>r. if r = j then apply_updates u now j else r) t"
    using map_pk_hit[OF pk j, of "\<lambda>r. True" "apply_updates u now"] by simp
  show ?thesis
    using ok by (simp add: updateJob_def update_where_def f m single_def)
qed

lemma updateJob_rejects: "\<not> updates_ok u \<Longrightarrow> updateJob now jobId u t = (t, Inl DataException)"
  by (simp add: updateJob_def)

lemma updateJob_miss:
  assumes "jobId \<notin> id' ` set t" and ok: "updates_ok u"
  shows "updateJob now jobId u t = (t, Inl NoRows)"
proof -
  from assms have n: "\<forall>r\<in>set t. id' r \<noteq> jobId" by auto
  then have f: "filter (\<lambda>r. id' r = jobId) t = []" by (simp add: filter_empty_conv)
  have m: "map (\<lambda>r. if id' r = jobId then apply_updates u now r else r) t = t"
    using n by (intro map_idI) auto
  show ?thesis using ok by (simp add: updateJob_def update_where_def f m single_def)
qed

lemma updateJob_rows:
  "r \<in> set (fst (updateJob now jobId u t)) \<Longrightarrow> r \<in> set t \<or> (\<exists>j\<in>set t. r = apply_updates u now j)"
  by (auto simp: updateJob_def update_where_def split: if_splits prod.splits)

lemma new_job_row:
  assumes "new_job now jd = Inr j"
  shows "id' j = jd_id jd \<and> command j = jd_command jd \<and> state j = PENDING \<and> attempts j = 0 \<and>
         created_at j = now \<and> updated_at j = now \<and> store_time (jd_scheduled_at jd) = Inr (scheduled_at j) \<and>
         last_error j = None \<and> output' j = None \<and> locked_by j = None \<and> locked_at j = None \<and>
         store_int (js_or (jd_max_retries jd) (JNum 3)) = Inr (max_retries j) \<and>
         text_ok (jd_id jd) \<and> text_ok (jd_command jd)"
  using assms by (auto simp: new_job_def split: sum.splits if_splits)

lemma enqueueJob_rows:
  "r \<in> set (fst (enqueueJob now jd t)) \<Longrightarrow> r \<in> set t \<or> new_job now jd = Inr r"
  by (auto simp: enqueueJob_def insert_row_def split: if_splits sum.splits)

lemma lockJob_rows:
  "r \<in> set (fst (lockJob now jobId wid t)) \<Longrightarrow> r \<in> set t \<or> (\<exists>j\<in>set t. r = lock_row now wid j)"
  by (auto simp: lockJob_def update_where_def split: if_splits)

lemma not_Fail_keeps_dead:
  assumes "\<not> is_Fail x" "r \<in> set (apply_op x t)" "state r = DEAD"
  shows "r \<in> set t"
proof (cases x)
  case (Create now jd)
  with assms enqueueJob_rows[of r now jd t] show ?thesis by (auto dest: new_job_row)
next
  case (Claim now jobId wid)
  with assms lockJob_rows[of r now jobId wid t] show ?thesis by (auto simp: lock_row_def)
next
  case (Complete now jobId out)
  with assms show ?thesis
    by (auto simp: markJobCompleted_def apply_updates_def set_col_def no_updates_def
             dest!: updateJob_rows)
next
  case (Fail now jobId err a m)
  with assms show ?thesis by simp
next
  case (Requeue now jobId)
  with assms show ?thesis
    by (auto simp: requeueFailedJob_def apply_updates_def set_col_def no_updates_def
             dest!: updateJob_rows)
qed

text \<open>
  Claim C6, as amended. \<^verbatim>\<open>requeueFailedJob\<close> on the row with the given id sets
  \<^verbatim>\<open>state\<close> to \<^verbatim>\<open>pending\<close> and \<^verbatim>\<open>locked_by\<close> and \<^verbatim>\<open>locked_at\<close> to null, and leaves
  \<^verbatim>\<open>attempts\<close>, \<^verbatim>\<open>id\<close>, \<^verbatim>\<open>command\<close>, \<^verbatim>\<open>max_retries\<close>, \<^verbatim>\<open>last_error\<close> and every
  other column but \<^verbatim>\<open>updated_at\<close> as they were, whatever the state of the row was: the
  function does not look at it. The check is its caller's: \<^verbatim>\<open>dlq retry\<close> refuses a job
  that is not \<^verbatim>\<open>dead\<close> and leaves the table alone.
\<close>

theorem requeueFailedJob_effect:
  assumes pk: "distinct (map id' t)"
  shows "(\<forall>j\<in>set t. id' j = jobId \<longrightarrow>
            requeueFailedJob now jobId t =
              (map (\<lambda>r. if r = j
                         then j\<lparr>state := PENDING, locked_by := None, locked_at := None,
                                updated_at := now\<rparr>
                         else r) t,
               Inr (j\<lparr>state := PENDING, locked_by := None, locked_at := None,
                      updated_at := now\<rparr>)))
       \<and> (\<forall>j\<in>set t. id' j = jobId \<and> state j \<noteq> DEAD \<longrightarrow>
            dlq_retry now jobId t = (t, Inl (NotInDLQ (state j))))"
proof (intro conjI ballI impI)
  fix j assume j: "j \<in> set t" and i: "id' j = jobId"
  show "requeueFailedJob now jobId t =
              (map (\<lambda>r. if r = j
                         then j\<lparr>state := PENDING, locked_by := None, locked_at := None,
                                updated_at := now\<rparr>
                         else r) t,
               Inr (j\<lparr>state := PENDING, locked_by := None, locked_at := None,
                      updated_at := now\<rparr>))"
    using updateJob_hit[OF pk j, of _ now] i
    by (simp add: requeueFailedJob_def apply_updates_def set_col_def no_updates_def updates_ok_def)
next
  fix j assume j: "j \<in> set t" and c: "id' j = jobId \<and> state j \<noteq> DEAD"
  have f: "filter (\<lambda>r. id' r = jobId) t = [j]"
    using filter_pk_hit[OF pk j, of "\<lambda>r. True"] c by simp
  show "dlq_retry now jobId t = (t, Inl (NotInDLQ (state j)))"
    using c by (simp add: dlq_retry_def getJob_def f maybeSingle_def)
qed

theorem requeueFailedJob_effect_witness:
  "requeueFailedJob 20 ''t2''
       [\<lparr>id' = ''t2'', command = ''false'', state = DEAD, attempts = 2, max_retries = 2,
          created_at = 1, updated_at = 9, scheduled_at = None, last_error = Some ''Command failed: false'',
          output' = None, locked_by = None, locked_at = None\<rparr>]
     = ([\<lparr>id' = ''t2'', command = ''false'', state = PENDING, attempts = 2, max_retries = 2,
          created_at = 1, updated_at = 20, scheduled_at = None, last_error = Some ''Command failed: false'',
          output' = None, locked_by = None, locked_at = None\<rparr>],
        Inr \<lparr>id' = ''t2'', command = ''false'', state = PENDING, attempts = 2, max_retries = 2,
          created_at = 1, updated_at = 20, scheduled_at = None, last_error = Some ''Command failed: false'',
          output' = None, locked_by = None, locked_at = None\<rparr>)
   \<and> dlq_retry 20 ''t1''
       [\<lparr>id' = ''t1'', command = ''true'', state = COMPLETED, attempts = 0, max_retries = 3,
          created_at = 1, updated_at = 9, scheduled_at = None, last_error = None,
          output' = Some ''ok'', locked_by = None, locked_at = None\<rparr>]
     = ([\<lparr>id' = ''t1'', command = ''true'', state = COMPLETED, attempts = 0, max_retries = 3,
          created_at = 1, updated_at = 9, scheduled_at = None, last_error = None,
          output' = Some ''ok'', locked_by = None, locked_at = None\<rparr>], Inl (NotInDLQ COMPLETED))"
  using requeueFailedJob_effect [where t = "[\<lparr>id' = ''t2'', command = ''false'', state = DEAD, attempts = 2, max_retries = 2,
          created_at = 1, updated_at = 9, scheduled_at = None, last_error = Some ''Command failed: false'',
          output' = None, locked_by = None, locked_at = None\<rparr>]" and jobId = "''t2''" and now = 20]
    requeueFailedJob_effect [where t = "[\<lparr>id' = ''t1'', command = ''true'', state = COMPLETED, attempts = 0, max_retries = 3,
          created_at = 1, updated_at = 9, scheduled_at = None, last_error = None,
          output' = Some ''ok'', locked_by = None, locked_at = None\<rparr>]" and jobId = "''t1''" and now = 20]
  by simp

text \<open>
  Claim C6 as it is written says that \<^verbatim>\<open>requeue\<close> never moves a job to \<^verbatim>\<open>pending\<close> from
  a state other than \<^verbatim>\<open>failed\<close> or \<^verbatim>\<open>dead\<close>. Called on a \<^verbatim>\<open>completed\<close> job,
  \<^verbatim>\<open>requeueFailedJob\<close> makes it \<^verbatim>\<open>pending\<close>. And the check of \<^verbatim>\<open>dlq retry\<close> is a
  read of its own, before the write: one \<^verbatim>\<open>dlq retry\<close> reads the dead job \<^verbatim>\<open>t2\<close>; a
  second \<^verbatim>\<open>dlq retry\<close> requeues it; a worker locks it; the first \<^verbatim>\<open>dlq retry\<close>, whose
  check has passed, now calls \<^verbatim>\<open>requeueFailedJob\<close> and moves the job from
  \<^verbatim>\<open>processing\<close> to \<^verbatim>\<open>pending\<close>.
\<close>

theorem requeueFailedJob_unguarded_counterexample:
  "requeueFailedJob 20 ''t1''
       [\<lparr>id' = ''t1'', command = ''true'', state = COMPLETED, attempts = 0, max_retries = 3,
          created_at = 1, updated_at = 9, scheduled_at = None, last_error = None,
          output' = Some ''ok'', locked_by = None, locked_at = None\<rparr>]
     = ([\<lparr>id' = ''t1'', command = ''true'', state = PENDING, attempts = 0, max_retries = 3,
          created_at = 1, updated_at = 20, scheduled_at = None, last_error = None,
          output' = Some ''ok'', locked_by = None, locked_at = None\<rparr>],
        Inr \<lparr>id' = ''t1'', command = ''true'', state = PENDING, attempts = 0, max_retries = 3,
          created_at = 1, updated_at = 20, scheduled_at = None, last_error = None,
          output' = Some ''ok'', locked_by = None, locked_at = None\<rparr>)
   \<and> getJob ''t2''
       [\<lparr>id' = ''t2'', command = ''false'', state = DEAD, attempts = 2, max_retries = 2,
          created_at = 1, updated_at = 2007, scheduled_at = None, last_error = Some ''Command failed: false'',
          output' = None, locked_by = None, locked_at = None\<rparr>]
     = ([\<lparr>id' = ''t2'', command = ''false'', state = DEAD, attempts = 2, max_retries = 2,
          created_at = 1, updated_at = 2007, scheduled_at = None, last_error = Some ''Command failed: false'',
          output' = None, locked_by = None, locked_at = None\<rparr>],
        Inr (Some \<lparr>id' = ''t2'', command = ''false'', state = DEAD, attempts = 2, max_retries = 2,
          created_at = 1, updated_at = 2007, scheduled_at = None, last_error = Some ''Command failed: false'',
          output' = None, locked_by = None, locked_at = None\<rparr>))
   \<and> dlq_retry 3000 ''t2''
       [\<lparr>id' = ''t2'', command = ''false'', state = DEAD, attempts = 2, max_retries = 2,
          created_at = 1, updated_at = 2007, scheduled_at = None, last_error = Some ''Command failed: false'',
          output' = None, locked_by = None, locked_at = None\<rparr>]
     = ([\<lparr>id' = ''t2'', command = ''false'', state = PENDING, attempts = 2, max_retries = 2,
          created_at = 1, updated_at = 3000, scheduled_at = None, last_error = Some ''Command failed: false'',
          output' = None, locked_by = None, locked_at = None\<rparr>],
        Inr \<lparr>id' = ''t2'', command = ''false'', state = PENDING, attempts = 2, max_retries = 2,
          created_at = 1, updated_at = 3000, scheduled_at = None, last_error = Some ''Command failed: false'',
          output' = None, locked_by = None, locked_at = None\<rparr>)
   \<and> lockJob 3001 ''t2'' ''w1''
       [\<lparr>id' = ''t2'', command = ''false'', state = PENDING, attempts = 2, max_retries = 2,
          created_at = 1, updated_at = 3000, scheduled_at = None, last_error = Some ''Command failed: false'',
          output' = None, locked_by = None, locked_at = None\<rparr>]
     = ([\<lparr>id' = ''t2'', command = ''false'', state = PROCESSING, attempts = 2, max_retries = 2,
          created_at = 1, updated_at = 3001, scheduled_at = None, last_error = Some ''Command failed: false'',
          output' = None, locked_by = Some ''w1'', locked_at = Some 3001\<rparr>],
        Inr (Some \<lparr>id' = ''t2'', command = ''false'', state = PROCESSING, attempts = 2, max_retries = 2,
          created_at = 1, updated_at = 3001, scheduled_at = None, last_error = Some ''Command failed: false'',
          output' = None, locked_by = Some ''w1'', locked_at = Some 3001\<rparr>))
   \<and> requeueFailedJob 3002 ''t2''
       [\<lparr>id' = ''t2'', command = ''false'', state = PROCESSING, attempts = 2, max_retries = 2,
          created_at = 1, updated_at = 3001, scheduled_at = None, last_error = Some ''Command failed: false'',
          output' = None, locked_by = Some ''w1'', locked_at = Some 3001\<rparr>]
     = ([\<lparr>id' = ''t2'', command = ''false'', state = PENDING, attempts = 2, max_retries = 2,
          created_at = 1, updated_at = 3002, scheduled_at = None, last_error = Some ''Command failed: false'',
          output' = None, locked_by = None, locked_at = None\<rparr>],
        Inr \<lparr>id' = ''t2'', command = ''false'', state = PENDING, attempts = 2, max_retries = 2,
          created_at = 1, updated_at = 3002, scheduled_at = None, last_error = Some ''Command failed: false'',
          output' = None, locked_by = None, locked_at = None\<rparr>)"
  by (simp add: requeueFailedJob_def updateJob_def updates_ok_def update_where_def single_def
                maybeSingle_def apply_updates_def set_col_def no_updates_def getJob_def
                dlq_retry_def thrown_def lockJob_def lock_row_def)

lemma sorted_hd_least:
  "sorted (map f xs) \<Longrightarrow> x \<in> set xs \<Longrightarrow> f (hd xs) \<le> f x"
  by (cases xs) auto

lemma getNextPendingJob_None:
  "(\<forall>j\<in>set t. \<not> eligible now j) \<Longrightarrow> getNextPendingJob now t = (t, Inr None)"
  by (simp add: getNextPendingJob_def maybeSingle_def filter_empty_conv[THEN iffD2])

lemma getNextPendingJob_Some:
  assumes "j \<in> set t" "eligible now j"
  shows "\<exists>r. getNextPendingJob now t = (t, Inr (Some r)) \<and> r \<in> set t \<and> eligible now r \<and>
             (\<forall>j'\<in>set t. eligible now j' \<longrightarrow> created_at r \<le> created_at j')"
proof -
  let ?xs = "sort_key created_at (filter (eligible now) t)"
  have s: "set ?xs = {j \<in> set t. eligible now j}" by simp
  with assms have ne: "?xs \<noteq> []" by (metis (mono_tags, lifting) empty_iff mem_Collect_eq set_empty)
  then obtain r rs where xs: "?xs = r # rs" by (cases ?xs) auto
  then have r: "r \<in> set ?xs" by simp
  have least: "\<forall>j'\<in>set t. eligible now j' \<longrightarrow> created_at r \<le> created_at j'"
  proof (intro ballI impI)
    fix j' assume "j' \<in> set t" "eligible now j'"
    then have "j' \<in> set ?xs" by simp
    moreover have "sorted (map created_at ?xs)" by (rule sorted_sort_key)
    ultimately have "created_at (hd ?xs) \<le> created_at j'" by (rule sorted_hd_least[rotated])
    then show "created_at r \<le> created_at j'" by (simp add: xs)
  qed
  have "getNextPendingJob now t = (t, Inr (Some r))"
    by (simp add: getNextPendingJob_def xs maybeSingle_def)
  with r s least show ?thesis by auto
qed

text \<open>
  Claim C7. \<^verbatim>\<open>getNextPendingJob\<close> reads the table and throws nothing of its own. A
  row is eligible when it is \<^verbatim>\<open>pending\<close>, has no \<^verbatim>\<open>locked_by\<close>, and has no
  \<^verbatim>\<open>scheduled_at\<close> or one that is not after the time of the call. With no eligible row
  the result is null; otherwise it is an eligible row whose \<^verbatim>\<open>created_at\<close> no eligible
  row undercuts. So a row whose \<^verbatim>\<open>scheduled_at\<close> is after the time of the call is not
  the result; once that time is reached the row, if still \<^verbatim>\<open>pending\<close> and unlocked, is
  eligible, and it is the result as soon as every other eligible row is younger.
\<close>

theorem getNextPendingJob_oldest_eligible:
  "(\<forall>j. eligible now j \<longleftrightarrow>
         state j = PENDING \<and> locked_by j = None \<and> (\<forall>s. scheduled_at j = Some s \<longrightarrow> s \<le> now))
   \<and> (\<exists>r. getNextPendingJob now t = (t, Inr r) \<and>
          (case r of
             None \<Rightarrow> \<forall>j\<in>set t. \<not> eligible now j
           | Some j \<Rightarrow> j \<in> set t \<and> eligible now j \<and>
                       (\<forall>j'\<in>set t. eligible now j' \<longrightarrow> created_at j \<le> created_at j')))
   \<and> (\<forall>j s. scheduled_at j = Some s \<and> now < s \<longrightarrow> getNextPendingJob now t \<noteq> (t, Inr (Some j)))
   \<and> (\<forall>j s. j \<in> set t \<and> state j = PENDING \<and> locked_by j = None \<and> scheduled_at j = Some s \<and> s \<le> now \<and>
            (\<forall>j'\<in>set t. j' \<noteq> j \<and> eligible now j' \<longrightarrow> created_at j < created_at j')
          \<longrightarrow> getNextPendingJob now t = (t, Inr (Some j)))"
proof -
  have el: "\<forall>j. eligible now j \<longleftrightarrow>
         state j = PENDING \<and> locked_by j = None \<and> (\<forall>s. scheduled_at j = Some s \<longrightarrow> s \<le> now)"
    by (auto simp: eligible_def split: option.splits)
  have res: "\<exists>r. getNextPendingJob now t = (t, Inr r) \<and>
          (case r of
             None \<Rightarrow> \<forall>j\<in>set t. \<not> eligible now j
           | Some j \<Rightarrow> j \<in> set t \<and> eligible now j \<and>
                       (\<forall>j'\<in>set t. eligible now j' \<longrightarrow> created_at j \<le> created_at j'))"
  proof (cases "\<exists>j\<in>set t. eligible now j")
    case True
    then obtain j where "j \<in> set t" "eligible now j" by blast
    from getNextPendingJob_Some[OF this] show ?thesis by auto
  next
    case False
    then have "getNextPendingJob now t = (t, Inr None)" by (simp add: getNextPendingJob_None)
    with False show ?thesis by auto
  qed
  have fut: "\<forall>j s. scheduled_at j = Some s \<and> now < s \<longrightarrow> getNextPendingJob now t \<noteq> (t, Inr (Some j))"
  proof (intro allI impI notI)
    fix j s assume a: "scheduled_at j = Some s \<and> now < s" and g: "getNextPendingJob now t = (t, Inr (Some j))"
    from res g have "eligible now j" by auto
    with a el show False by auto
  qed
  have due: "\<forall>j s. j \<in> set t \<and> state j = PENDING \<and> locked_by j = None \<and> scheduled_at j = Some s \<and> s \<le> now \<and>
            (\<forall>j'\<in>set t. j' \<noteq> j \<and> eligible now j' \<longrightarrow> created_at j < created_at j')
          \<longrightarrow> getNextPendingJob now t = (t, Inr (Some j))"
  proof (intro allI impI)
    fix j s
    assume a: "j \<in> set t \<and> state j = PENDING \<and> locked_by j = None \<and> scheduled_at j = Some s \<and> s \<le> now \<and>
            (\<forall>j'\<in>set t. j' \<noteq> j \<and> eligible now j' \<longrightarrow> created_at j < created_at j')"
    then have ej: "eligible now j" using el by auto
    from a ej getNextPendingJob_Some[of j t now] obtain r where
      r: "getNextPendingJob now t = (t, Inr (Some r))" "r \<in> set t" "eligible now r"
         "\<forall>j'\<in>set t. eligible now j' \<longrightarrow> created_at r \<le> created_at j'" by blast
    have "r = j"
    proof (rule ccontr)
      assume "r \<noteq> j"
      with a r have "created_at j < created_at r" by blast
      moreover from a ej r have "created_at r \<le> created_at j" by blast
      ultimately show False by simp
    qed
    with r show "getNextPendingJob now t = (t, Inr (Some j))" by simp
  qed
  from el res fut due show ?thesis by blast
qed

theorem getNextPendingJob_oldest_eligible_witness:
  "getNextPendingJob 100
       [\<lparr>id' = ''b'', command = ''true'', state = PENDING, attempts = 0, max_retries = 3,
          created_at = 1, updated_at = 1, scheduled_at = Some 105, last_error = None,
          output' = None, locked_by = None, locked_at = None\<rparr>,
        \<lparr>id' = ''a'', command = ''true'', state = PENDING, attempts = 0, max_retries = 3,
          created_at = 2, updated_at = 2, scheduled_at = None, last_error = None,
          output' = None, locked_by = None, locked_at = None\<rparr>]
     = ([\<lparr>id' = ''b'', command = ''true'', state = PENDING, attempts = 0, max_retries = 3,
          created_at = 1, updated_at = 1, scheduled_at = Some 105, last_error = None,
          output' = None, locked_by = None, locked_at = None\<rparr>,
        \<lparr>id' = ''a'', command = ''true'', state = PENDING, attempts = 0, max_retries = 3,
          created_at = 2, updated_at = 2, scheduled_at = None, last_error = None,
          output' = None, locked_by = None, locked_at = None\<rparr>],
        Inr (Some \<lparr>id' = ''a'', command = ''true'', state = PENDING, attempts = 0, max_retries = 3,
          created_at = 2, updated_at = 2, scheduled_at = None, last_error = None,
          output' = None, locked_by = None, locked_at = None\<rparr>))
   \<and> getNextPendingJob 105
       [\<lparr>id' = ''b'', command = ''true'', state = PENDING, attempts = 0, max_retries = 3,
          created_at = 1, updated_at = 1, scheduled_at = Some 105, last_error = None,
          output' = None, locked_by = None, locked_at = None\<rparr>,
        \<lparr>id' = ''a'', command = ''true'', state = PENDING, attempts = 0, max_retries = 3,
          created_at = 2, updated_at = 2, scheduled_at = None, last_error = None,
          output' = None, locked_by = None, locked_at = None\<rparr>]
     = ([\<lparr>id' = ''b'', command = ''true'', state = PENDING, attempts = 0, max_retries = 3,
          created_at = 1, updated_at = 1, scheduled_at = Some 105, last_error = None,
          output' = None, locked_by = None, locked_at = None\<rparr>,
        \<lparr>id' = ''a'', command = ''true'', state = PENDING, attempts = 0, max_retries = 3,
          created_at = 2, updated_at = 2, scheduled_at = None, last_error = None,
          output' = None, locked_by = None, locked_at = None\<rparr>],
        Inr (Some \<lparr>id' = ''b'', command = ''true'', state = PENDING, attempts = 0, max_retries = 3,
          created_at = 1, updated_at = 1, scheduled_at = Some 105, last_error = None,
          output' = None, locked_by = None, locked_at = None\<rparr>))"
  using getNextPendingJob_oldest_eligible [where now = 100 and t = "[\<lparr>id' = ''b'', command = ''true'', state = PENDING, attempts = 0, max_retries = 3,
          created_at = 1, updated_at = 1, scheduled_at = Some 105, last_error = None,
          output' = None, locked_by = None, locked_at = None\<rparr>,
        \<lparr>id' = ''a'', command = ''true'', state = PENDING, attempts = 0, max_retries = 3,
          created_at = 2, updated_at = 2, scheduled_at = None, last_error = None,
          output' = None, locked_by = None, locked_at = None\<rparr>]"]
        getNextPendingJob_oldest_eligible [where now = 105 and t = "[\<lparr>id' = ''b'', command = ''true'', state = PENDING, attempts = 0, max_retries = 3,
          created_at = 1, updated_at = 1, scheduled_at = Some 105, last_error = None,
          output' = None, locked_by = None, locked_at = None\<rparr>,
        \<lparr>id' = ''a'', command = ''true'', state = PENDING, attempts = 0, max_retries = 3,
          created_at = 2, updated_at = 2, scheduled_at = None, last_error = None,
          output' = None, locked_by = None, locked_at = None\<rparr>]"]
  by (simp add: getNextPendingJob_def eligible_def maybeSingle_def)

lemma apply_op_lock_inv:
  assumes inv: "\<forall>j\<in>set t. (locked_by j \<noteq> None) = (state j = PROCESSING)"
    and r: "r \<in> set (apply_op x t)"
  shows "(locked_by r \<noteq> None) = (state r = PROCESSING)"
proof (cases x)
  case (Create now jd)
  with r inv show ?thesis by (auto dest!: enqueueJob_rows dest: new_job_row)
next
  case (Claim now jobId wid)
  with r inv show ?thesis by (auto simp: lock_row_def dest!: lockJob_rows)
next
  case (Complete now jobId out)
  with r inv show ?thesis
    by (auto simp: markJobCompleted_def apply_updates_def set_col_def no_updates_def
             dest!: updateJob_rows)
next
  case (Fail now jobId err a m)
  with r inv show ?thesis
    by (auto simp: markJobFailed_def apply_updates_def set_col_def no_updates_def
             dest!: updateJob_rows split: if_splits)
next
  case (Requeue now jobId)
  with r inv show ?thesis
    by (auto simp: requeueFailedJob_def apply_updates_def set_col_def no_updates_def
             dest!: updateJob_rows)
qed

lemma run_ops_lock_inv:
  "\<forall>j\<in>set t. (locked_by j \<noteq> None) = (state j = PROCESSING) \<Longrightarrow>
   \<forall>j\<in>set (run_ops ops t). (locked_by j \<noteq> None) = (state j = PROCESSING)"
proof (induction ops arbitrary: t)
  case Nil
  then show ?case by (simp add: run_ops_def)
next
  case (Cons x ops)
  have "\<forall>j\<in>set (apply_op x t). (locked_by j \<noteq> None) = (state j = PROCESSING)"
    using apply_op_lock_inv[OF Cons.prems] by blast
  from Cons.IH[OF this] show ?case by (simp add: run_ops_def)
qed

text \<open>
  Claim C4. In a table built from the empty one by any sequence of \<^verbatim>\<open>enqueueJob\<close>,
  \<^verbatim>\<open>lockJob\<close>, \<^verbatim>\<open>markJobCompleted\<close>, \<^verbatim>\<open>markJobFailed\<close> and \<^verbatim>\<open>requeueFailedJob\<close>,
  with any arguments and whether or not each call succeeds, every row has a
  \<^verbatim>\<open>locked_by\<close> exactly when its state is \<^verbatim>\<open>processing\<close>.
\<close>

theorem locked_iff_processing:
  "\<forall>j\<in>set (run_ops ops []). (locked_by j \<noteq> None) = (state j = PROCESSING)"
  by (rule run_ops_lock_inv) simp

theorem locked_iff_processing_witness:
  "run_ops [Create 1 \<lparr>jd_id = ''t1'', jd_command = ''true'', jd_max_retries = JUndefined, jd_scheduled_at = NoTime\<rparr>,
            Create 2 \<lparr>jd_id = ''t2'', jd_command = ''false'', jd_max_retries = JNum 2, jd_scheduled_at = NoTime\<rparr>,
            Claim 3 ''t1'' ''w1''] []
     = [\<lparr>id' = ''t1'', command = ''true'', state = PROCESSING, attempts = 0, max_retries = 3,
          created_at = 1, updated_at = 3, scheduled_at = None, last_error = None,
          output' = None, locked_by = Some ''w1'', locked_at = Some 3\<rparr>,
        \<lparr>id' = ''t2'', command = ''false'', state = PENDING, attempts = 0, max_retries = 2,
          created_at = 2, updated_at = 2, scheduled_at = None, last_error = None,
          output' = None, locked_by = None, locked_at = None\<rparr>]"
  using locked_iff_processing [where ops = "[Create 1 \<lparr>jd_id = ''t1'', jd_command = ''true'', jd_max_retries = JUndefined, jd_scheduled_at = NoTime\<rparr>,
            Create 2 \<lparr>jd_id = ''t2'', jd_command = ''false'', jd_max_retries = JNum 2, jd_scheduled_at = NoTime\<rparr>,
            Claim 3 ''t1'' ''w1'']"]
  by (simp add: run_ops_def enqueueJob_def insert_row_def single_def new_job_def store_time_def js_or_def
                js_truthy_def store_int_def in_int32_def text_ok_def
                lockJob_def update_where_def maybeSingle_def lock_row_def)

section \<open>The worker\<close>

lemma processNextJob_finally:
  assumes "isRunning w" "currentJob w = None" "processNextJob_try ev (W, w) = ((W', w'), err)"
  shows "processNextJob ev (W, w) = (W', w'\<lparr>currentJob := None\<rparr>)"
  using assms by (simp add: processNextJob_def)

lemma polls_idle: "currentJob w = None \<Longrightarrow> currentJob (polls steps w) = None"
proof (induction steps arbitrary: w)
  case Nil
  then show ?case by simp
next
  case (Cons a steps)
  obtain ev W where a: "a = (ev, W)" by (cases a)
  have "currentJob (snd (processNextJob ev (W, w))) = None"
  proof (cases "isRunning w")
    case True
    obtain W' w' err where "processNextJob_try ev (W, w) = ((W', w'), err)"
      by (metis prod.exhaust)
    from processNextJob_finally[OF True Cons.prems this] show ?thesis by simp
  next
    case False
    with Cons.prems show ?thesis by (simp add: processNextJob_def)
  qed
  from Cons.IH[OF this] show ?case by (simp add: a)
qed

text \<open>
  Claim C9. A worker that enters \<^verbatim>\<open>processNextJob\<close> with no current job leaves it
  with no current job, whatever the store returns or throws in \<^verbatim>\<open>getNextPendingJob\<close>,
  \<^verbatim>\<open>lockJob\<close>, \<^verbatim>\<open>markJobCompleted\<close>, \<^verbatim>\<open>markJobFailed\<close> and \<^verbatim>\<open>getConfig\<close> and however
  the command ends: if the worker is running, the step ends in the state in which the
  \<^verbatim>\<open>try\<close> block was left, with or without an error, and with the marker set to null.
  So a worker fresh from its constructor, started or not, has no current job after any
  number of polls, one after the other, on any stores and with any errors. (An
  invocation that finds a job in hand meets the guard and returns at once; the
  invocation that took that job is the one that releases it.)
\<close>

theorem processNextJob_releases_marker:
  "currentJob (polls steps ((Worker wid)\<lparr>isRunning := r\<rparr>)) = None
   \<and> (currentJob w = None \<longrightarrow>
        currentJob (snd (processNextJob ev (W, w))) = None
        \<and> (isRunning w \<longrightarrow>
             (\<forall>W' w' err. processNextJob_try ev (W, w) = ((W', w'), err) \<longrightarrow>
                 processNextJob ev (W, w) = (W', w'\<lparr>currentJob := None\<rparr>))))"
proof (intro conjI impI allI)
  show "currentJob (polls steps ((Worker wid)\<lparr>isRunning := r\<rparr>)) = None"
    by (rule polls_idle) (simp add: Worker_def)
next
  assume "currentJob w = None"
  from polls_idle[OF this, of "[(ev, W)]"]
  show "currentJob (snd (processNextJob ev (W, w))) = None" by simp
next
  fix W' w' err
  assume "currentJob w = None" "isRunning w" "processNextJob_try ev (W, w) = ((W', w'), err)"
  then show "processNextJob ev (W, w) = (W', w'\<lparr>currentJob := None\<rparr>)"
    by (simp add: processNextJob_def)
qed

theorem processNextJob_releases_marker_witness:
  "processNextJob_try
       \<lparr>t_poll = 5, t_lock = 6, t_done = 7, exec_res = ExecFailed ''Command failed: false'',
          f_getNext = None, f_lock = None, f_complete = None,
          f_failed = Some (StoreError ''fetch failed''), f_config = None\<rparr>
       (\<lparr>w_jobs = [\<lparr>id' = ''t2'', command = ''false'', state = PENDING, attempts = 0, max_retries = 2,
            created_at = 1, updated_at = 1, scheduled_at = None, last_error = None,
            output' = None, locked_by = None, locked_at = None\<rparr>],
          w_config = [''backoff_base'' \<mapsto> ''2''], w_timers = []\<rparr>,
        \<lparr>workerId = ''w1'', isRunning = True, currentJob = None\<rparr>)
     = ((\<lparr>w_jobs = [\<lparr>id' = ''t2'', command = ''false'', state = PROCESSING, attempts = 0, max_retries = 2,
            created_at = 1, updated_at = 6, scheduled_at = None, last_error = None,
            output' = None, locked_by = Some ''w1'', locked_at = Some 6\<rparr>],
          w_config = [''backoff_base'' \<mapsto> ''2''], w_timers = []\<rparr>,
         \<lparr>workerId = ''w1'', isRunning = True,
          currentJob = Some \<lparr>id' = ''t2'', command = ''false'', state = PROCESSING, attempts = 0, max_retries = 2,
            created_at = 1, updated_at = 6, scheduled_at = None, last_error = None,
            output' = None, locked_by = Some ''w1'', locked_at = Some 6\<rparr>\<rparr>),
        Some (StoreError ''fetch failed''))
   \<and> processNextJob
       \<lparr>t_poll = 5, t_lock = 6, t_done = 7, exec_res = ExecFailed ''Command failed: false'',
          f_getNext = None, f_lock = None, f_complete = None,
          f_failed = Some (StoreError ''fetch failed''), f_config = None\<rparr>
       (\<lparr>w_jobs = [\<lparr>id' = ''t2'', command = ''false'', state = PENDING, attempts = 0, max_retries = 2,
            created_at = 1, updated_at = 1, scheduled_at = None, last_error = None,
            output' = None, locked_by = None, locked_at = None\<rparr>],
          w_config = [''backoff_base'' \<mapsto> ''2''], w_timers = []\<rparr>,
        \<lparr>workerId = ''w1'', isRunning = True, currentJob = None\<rparr>)
     = (\<lparr>w_jobs = [\<lparr>id' = ''t2'', command = ''false'', state = PROCESSING, attempts = 0, max_retries = 2,
            created_at = 1, updated_at = 6, scheduled_at = None, last_error = None,
            output' = None, locked_by = Some ''w1'', locked_at = Some 6\<rparr>],
          w_config = [''backoff_base'' \<mapsto> ''2''], w_timers = []\<rparr>,
        \<lparr>workerId = ''w1'', isRunning = True, currentJob = None\<rparr>)"
  using processNextJob_releases_marker [where w = "\<lparr>workerId = ''w1'', isRunning = True, currentJob = None\<rparr>"
          and ev = "\<lparr>t_poll = 5, t_lock = 6, t_done = 7, exec_res = ExecFailed ''Command failed: false'',
          f_getNext = None, f_lock = None, f_complete = None,
          f_failed = Some (StoreError ''fetch failed''), f_config = None\<rparr>"
          and W = "\<lparr>w_jobs = [\<lparr>id' = ''t2'', command = ''false'', state = PENDING, attempts = 0, max_retries = 2,
            created_at = 1, updated_at = 1, scheduled_at = None, last_error = None,
            output' = None, locked_by = None, locked_at = None\<rparr>],
          w_config = [''backoff_base'' \<mapsto> ''2''], w_timers = []\<rparr>"]
  by (simp add: processNextJob_def processNextJob_try_def call_def getNextPendingJob_def
                eligible_def maybeSingle_def lockJob_def update_where_def lock_row_def
                executeJob_def handleJobFailure_def)

section \<open>Marking a job failed\<close>

text \<open>
  Claim C3, as amended. \<^verbatim>\<open>markJobFailed\<close> with an attempts count in the range of the
  32-bit column and a message without the character of code 0: on the row with the given
  id it sets \<^verbatim>\<open>state\<close> to \<^verbatim>\<open>dead\<close> when \<^verbatim>\<open>attempts >= maxRetries\<close> and to \<^verbatim>\<open>failed\<close>
  otherwise, stores the attempts it was given and the message as \<^verbatim>\<open>last_error\<close>, and
  sets \<^verbatim>\<open>locked_by\<close> and \<^verbatim>\<open>locked_at\<close> to null; no other row and no other column but
  \<^verbatim>\<open>updated_at\<close> changes; with no such row the call throws. With a count outside that
  range or a message with that character the store rejects the update: the call throws
  and the table is as it was. Of the five operations \<^verbatim>\<open>markJobFailed\<close> alone makes a
  row \<^verbatim>\<open>dead\<close>: a \<^verbatim>\<open>dead\<close> row found after any other operation was in the table, as it
  is, before.
\<close>

theorem markJobFailed_effect:
  assumes pk: "distinct (map id' t)"
  shows "(\<forall>j\<in>set t. id' j = jobId \<and> - 2147483648 \<le> a \<and> a \<le> 2147483647 \<and> CHR 0x00 \<notin> set err \<longrightarrow>
            markJobFailed now jobId err a m t =
              (map (\<lambda>r. if r = j
                         then j\<lparr>state := (if a \<ge> m then DEAD else FAILED), attempts := a,
                                last_error := Some err, locked_by := None, locked_at := None,
                                updated_at := now\<rparr>
                         else r) t,
               Inr (j\<lparr>state := (if a \<ge> m then DEAD else FAILED), attempts := a,
                      last_error := Some err, locked_by := None, locked_at := None,
                      updated_at := now\<rparr>)))
       \<and> (jobId \<notin> id' ` set t \<and> - 2147483648 \<le> a \<and> a \<le> 2147483647 \<and> CHR 0x00 \<notin> set err \<longrightarrow>
            markJobFailed now jobId err a m t = (t, Inl NoRows))
       \<and> (a < - 2147483648 \<or> 2147483647 < a \<or> CHR 0x00 \<in> set err \<longrightarrow>
            markJobFailed now jobId err a m t = (t, Inl DataException))
       \<and> (\<forall>x t0 r. \<not> is_Fail x \<and> r \<in> set (apply_op x t0) \<and> state r = DEAD \<longrightarrow> r \<in> set t0)"
proof (intro conjI ballI impI allI)
  fix j
  assume j: "j \<in> set t"
    and c: "id' j = jobId \<and> - 2147483648 \<le> a \<and> a \<le> 2147483647 \<and> CHR 0x00 \<notin> set err"
  let ?u = "no_updates\<lparr>u_state := Some (if a \<ge> m then DEAD else FAILED), u_attempts := Some a,
                        u_last_error := Some (Some err),
                        u_locked_by := Some None, u_locked_at := Some None\<rparr>"
  from c have ok: "updates_ok ?u"
    by (simp add: updates_ok_def no_updates_def in_int32_def text_ok_def)
  show "markJobFailed now jobId err a m t =
              (map (\<lambda>r. if r = j
                         then j\<lparr>state := (if a \<ge> m then DEAD else FAILED), attempts := a,
                                last_error := Some err, locked_by := None, locked_at := None,
                                updated_at := now\<rparr>
                         else r) t,
               Inr (j\<lparr>state := (if a \<ge> m then DEAD else FAILED), attempts := a,
                      last_error := Some err, locked_by := None, locked_at := None,
                      updated_at := now\<rparr>))"
    using updateJob_hit[OF pk j ok, of now] c
    by (simp add: markJobFailed_def apply_updates_def set_col_def no_updates_def)
next
  assume c: "jobId \<notin> id' ` set t \<and> - 2147483648 \<le> a \<and> a \<le> 2147483647 \<and> CHR 0x00 \<notin> set err"
  let ?u = "no_updates\<lparr>u_state := Some (if a \<ge> m then DEAD else FAILED), u_attempts := Some a,
                        u_last_error := Some (Some err),
                        u_locked_by := Some None, u_locked_at := Some None\<rparr>"
  from c have ok: "updates_ok ?u"
    by (simp add: updates_ok_def no_updates_def in_int32_def text_ok_def)
  from c have "jobId \<notin> id' ` set t" by simp
  from updateJob_miss[OF this ok, of now]
  show "markJobFailed now jobId err a m t = (t, Inl NoRows)"
    by (simp add: markJobFailed_def)
next
  assume c: "a < - 2147483648 \<or> 2147483647 < a \<or> CHR 0x00 \<in> set err"
  let ?u = "no_updates\<lparr>u_state := Some (if a \<ge> m then DEAD else FAILED), u_attempts := Some a,
                        u_last_error := Some (Some err),
                        u_locked_by := Some None, u_locked_at := Some None\<rparr>"
  from c have "\<not> updates_ok ?u"
    by (auto simp: updates_ok_def no_updates_def in_int32_def text_ok_def)
  from updateJob_rejects[OF this, of now jobId t]
  show "markJobFailed now jobId err a m t = (t, Inl DataException)"
    by (simp add: markJobFailed_def)
next
  fix x t0 r assume "\<not> is_Fail x \<and> r \<in> set (apply_op x t0) \<and> state r = DEAD"
  then show "r \<in> set t0" using not_Fail_keeps_dead by blast
qed

theorem markJobFailed_effect_witness:
  "markJobFailed 9 ''t2'' ''Command failed: false'' 2 2
       [\<lparr>id' = ''t2'', command = ''false'', state = PROCESSING, attempts = 1, max_retries = 2,
          created_at = 1, updated_at = 7, scheduled_at = None, last_error = Some ''Command failed: false'',
          output' = None, locked_by = Some ''w1'', locked_at = Some 7\<rparr>]
     = ([\<lparr>id' = ''t2'', command = ''false'', state = DEAD, attempts = 2, max_retries = 2,
          created_at = 1, updated_at = 9, scheduled_at = None, last_error = Some ''Command failed: false'',
          output' = None, locked_by = None, locked_at = None\<rparr>],
        Inr \<lparr>id' = ''t2'', command = ''false'', state = DEAD, attempts = 2, max_retries = 2,
          created_at = 1, updated_at = 9, scheduled_at = None, last_error = Some ''Command failed: false'',
          output' = None, locked_by = None, locked_at = None\<rparr>)"
  using markJobFailed_effect [where t = "[\<lparr>id' = ''t2'', command = ''false'', state = PROCESSING, attempts = 1, max_retries = 2,
          created_at = 1, updated_at = 7, scheduled_at = None, last_error = Some ''Command failed: false'',
          output' = None, locked_by = Some ''w1'', locked_at = Some 7\<rparr>]"
        and jobId = "''t2''" and now = 9 and err = "''Command failed: false''" and a = 2 and m = 2]
  by simp

text \<open>
  Claim C3 as it is written speaks of every attempts count and every error message.
  With the count \<open>2\<^sup>3\<^sup>1\<close>, and with a message that holds the character of code 0,
  \<^verbatim>\<open>markJobFailed\<close> throws and the row stays \<^verbatim>\<open>processing\<close> and locked. A command that
  fails after writing that character to its standard error gives \<^verbatim>\<open>exec\<close> such a
  message, and the step of the worker leaves the job \<^verbatim>\<open>processing\<close> and locked.
\<close>

theorem markJobFailed_rejected_counterexample:
  "markJobFailed 9 ''t2'' ''Command failed: false'' 2147483648 2147483648
       [\<lparr>id' = ''t2'', command = ''false'', state = PROCESSING, attempts = 1, max_retries = 2,
          created_at = 1, updated_at = 7, scheduled_at = None, last_error = Some ''Command failed: false'',
          output' = None, locked_by = Some ''w1'', locked_at = Some 7\<rparr>]
     = ([\<lparr>id' = ''t2'', command = ''false'', state = PROCESSING, attempts = 1, max_retries = 2,
          created_at = 1, updated_at = 7, scheduled_at = None, last_error = Some ''Command failed: false'',
          output' = None, locked_by = Some ''w1'', locked_at = Some 7\<rparr>],
        Inl DataException)
   \<and> markJobFailed 9 ''t2'' (''Command failed: head -c 1 /dev/zero >&2; false'' @ [CHR 0x0A, CHR 0x00]) 2 2
       [\<lparr>id' = ''t2'', command = ''false'', state = PROCESSING, attempts = 1, max_retries = 2,
          created_at = 1, updated_at = 7, scheduled_at = None, last_error = Some ''Command failed: false'',
          output' = None, locked_by = Some ''w1'', locked_at = Some 7\<rparr>]
     = ([\<lparr>id' = ''t2'', command = ''false'', state = PROCESSING, attempts = 1, max_retries = 2,
          created_at = 1, updated_at = 7, scheduled_at = None, last_error = Some ''Command failed: false'',
          output' = None, locked_by = Some ''w1'', locked_at = Some 7\<rparr>],
        Inl DataException)
   \<and> processNextJob
       \<lparr>t_poll = 2, t_lock = 3, t_done = 4, exec_res = ExecFailed (''Command failed: head -c 1 /dev/zero >&2; false'' @ [CHR 0x0A, CHR 0x00]),
          f_getNext = None, f_lock = None, f_complete = None, f_failed = None, f_config = None\<rparr>
       (\<lparr>w_jobs = [\<lparr>id' = ''t2'', command = ''head -c 1 /dev/zero >&2; false'', state = PENDING, attempts = 0, max_retries = 2,
          created_at = 1, updated_at = 1, scheduled_at = None, last_error = None,
          output' = None, locked_by = None, locked_at = None\<rparr>],
        w_config = [''backoff_base'' \<mapsto> ''2''], w_timers = []\<rparr>,
        \<lparr>workerId = ''w1'', isRunning = True, currentJob = None\<rparr>)
     = (\<lparr>w_jobs = [\<lparr>id' = ''t2'', command = ''head -c 1 /dev/zero >&2; false'', state = PROCESSING, attempts = 0, max_retries = 2,
          created_at = 1, updated_at = 3, scheduled_at = None, last_error = None,
          output' = None, locked_by = Some ''w1'', locked_at = Some 3\<rparr>],
        w_config = [''backoff_base'' \<mapsto> ''2''], w_timers = []\<rparr>,
        \<lparr>workerId = ''w1'', isRunning = True, currentJob = None\<rparr>)"
  by (simp add: markJobFailed_def updateJob_def updates_ok_def no_updates_def in_int32_def
                text_ok_def processNextJob_def processNextJob_try_def call_def
                getNextPendingJob_def eligible_def maybeSingle_def lockJob_def update_where_def
                lock_row_def executeJob_def handleJobFailure_def str_or_def)

section \<open>Creating a job from the command line\<close>

lemma enqueueJob_fresh:
  "new_job now jd = Inr j \<Longrightarrow> id' j \<notin> id' ` set t \<Longrightarrow> enqueueJob now jd t = (t @ [j], Inr j)"
  by (simp add: enqueueJob_def insert_row_def single_def)

lemma enqueueJob_duplicate:
  "new_job now jd = Inr j \<Longrightarrow> id' j \<in> id' ` set t \<Longrightarrow> enqueueJob now jd t = (t, Inl UniqueViolation)"
  by (simp add: enqueueJob_def insert_row_def)

lemma enqueueJob_rejects:
  "new_job now jd = Inl e \<Longrightarrow> enqueueJob now jd t = (t, Inl e)"
  by (simp add: enqueueJob_def)

lemma enqueueJob_returns:
  "enqueueJob now jd t = (t', Inr j) \<Longrightarrow> new_job now jd = Inr j \<and> t' = t @ [j] \<and> id' j \<notin> id' ` set t"
  by (auto simp: enqueueJob_def insert_row_def single_def split: sum.splits if_splits)

lemma enqueueJob_throws:
  "enqueueJob now jd t = (t', Inl e) \<Longrightarrow> t' = t"
  by (auto simp: enqueueJob_def insert_row_def single_def split: sum.splits if_splits)

lemma new_job_accepts:
  assumes "store_int (js_or (jd_max_retries jd) (JNum 3)) = Inr m" "jd_scheduled_at jd \<noteq> NotATime"
    "text_ok (jd_id jd)" "text_ok (jd_command jd)"
  shows "new_job now jd =
           Inr \<lparr>id' = jd_id jd, command = jd_command jd, state = PENDING, attempts = 0,
                max_retries = m, created_at = now, updated_at = now,
                scheduled_at = (case jd_scheduled_at jd of Time s \<Rightarrow> Some s | _ \<Rightarrow> None),
                last_error = None, output' = None, locked_by = None, locked_at = None\<rparr>"
  using assms by (cases "jd_scheduled_at jd") (simp_all add: new_job_def store_time_def)

lemma store_int_error: "js_truthy v \<Longrightarrow> store_int v = Inl e \<Longrightarrow> e = DataException"
  by (cases v) (auto simp: store_int_def js_truthy_def split: if_splits option.splits)

lemma new_job_rejects:
  "store_int (js_or (jd_max_retries jd) (JNum 3)) = Inl e \<Longrightarrow> new_job now jd = Inl DataException"
  "jd_scheduled_at jd = NotATime \<or> \<not> (text_ok (jd_id jd) \<and> text_ok (jd_command jd)) \<Longrightarrow>
     new_job now jd = Inl DataException"
proof -
  have t: "js_truthy (js_or (jd_max_retries jd) (JNum 3))"
    by (simp add: js_or_def js_truthy_def)
  show "store_int (js_or (jd_max_retries jd) (JNum 3)) = Inl e \<Longrightarrow> new_job now jd = Inl DataException"
    using store_int_error[OF t, of e] by (simp add: new_job_def)
  show "jd_scheduled_at jd = NotATime \<or> \<not> (text_ok (jd_id jd) \<and> text_ok (jd_command jd)) \<Longrightarrow>
     new_job now jd = Inl DataException"
    using store_int_error[OF t]
    by (cases "store_int (js_or (jd_max_retries jd) (JNum 3))"; cases "jd_scheduled_at jd")
       (auto simp: new_job_def store_time_def)
qed

text \<open>
  The value that the \<^verbatim>\<open>enqueue\<close> command passes to \<^verbatim>\<open>enqueueJob\<close> as \<^verbatim>\<open>max_retries\<close>,
  and the call it makes.
\<close>

lemma enqueue_action_call:
  assumes "js_command spec = Some c" "c \<noteq> []"
  shows "enqueue_action now uuid cfg spec t =
           thrown (enqueueJob now
             \<lparr>jd_id = (case js_id spec of None \<Rightarrow> uuid | Some x \<Rightarrow> if x = [] then uuid else x),
              jd_command = c,
              jd_max_retries =
                (if js_truthy (js_max_retries spec) then js_max_retries spec
                 else (case parseInt (cfg ''max_retries'') of None \<Rightarrow> JNum 3
                       | Some n \<Rightarrow> if n = 0 then JNum 3 else JNum n)),
              jd_scheduled_at = js_scheduled_at spec\<rparr> t)"
  using assms
  by (auto simp: enqueue_action_def str_or_def getConfig_def js_or_def js_number_def js_truthy_def
           split: option.splits)

lemma js_or_truthy: "js_truthy v \<Longrightarrow> js_or v d = v"
  by (simp add: js_or_def)

text \<open>
  Claim C8, as amended. The \<^verbatim>\<open>enqueue\<close> command on a specification with a command
  calls \<^verbatim>\<open>enqueueJob\<close> with the given id, or a fresh one, and with \<open>v\<close> as
  \<^verbatim>\<open>max_retries\<close>: the given value when it is truthy, otherwise the configured value,
  which is what \<^verbatim>\<open>parseInt\<close> reads in the \<^verbatim>\<open>max_retries\<close> row of the configuration, or
  3 when there is no such row, no number in it, or the number 0. When the store reads
  \<open>v\<close> as the integer \<open>m\<close>, \<^verbatim>\<open>scheduled_at\<close> is nothing or a time, and the id and the
  command hold no character of code 0: with
  an id that no row has, one row is appended, \<^verbatim>\<open>pending\<close>, with \<^verbatim>\<open>attempts = 0\<close>, the
  given command and \<^verbatim>\<open>scheduled_at\<close>, \<^verbatim>\<open>max_retries = m\<close>, no lock, error or output,
  and that row is returned; with an id that a row has, the call throws the violation of
  the primary key and the table is as it was. When the store cannot hold a value (the
  store does not read \<open>v\<close> as an integer, \<^verbatim>\<open>scheduled_at\<close> is not a time, or the id or the
  command holds that character), the call throws the error of the store and the table
  is as it was. The store reads a number as itself when it is an integer of 32 bits, and
  not at all otherwise.
\<close>

theorem enqueueJob_creates:
  assumes c: "js_command spec = Some c" "c \<noteq> []"
    and i: "i = (case js_id spec of None \<Rightarrow> uuid | Some x \<Rightarrow> if x = [] then uuid else x)"
    and v: "v = (if js_truthy (js_max_retries spec) then js_max_retries spec
                 else (case parseInt (cfg ''max_retries'') of None \<Rightarrow> JNum 3
                       | Some n \<Rightarrow> if n = 0 then JNum 3 else JNum n))"
  shows "(store_int v = Inr m \<and> js_scheduled_at spec \<noteq> NotATime \<and>
          CHR 0x00 \<notin> set i \<and> CHR 0x00 \<notin> set c \<and> i \<notin> id' ` set t \<longrightarrow>
            enqueue_action now uuid cfg spec t =
              (t @ [\<lparr>id' = i, command = c, state = PENDING, attempts = 0, max_retries = m,
                     created_at = now, updated_at = now,
                     scheduled_at = (case js_scheduled_at spec of Time s \<Rightarrow> Some s | _ \<Rightarrow> None),
                     last_error = None, output' = None, locked_by = None, locked_at = None\<rparr>],
               Inr \<lparr>id' = i, command = c, state = PENDING, attempts = 0, max_retries = m,
                     created_at = now, updated_at = now,
                     scheduled_at = (case js_scheduled_at spec of Time s \<Rightarrow> Some s | _ \<Rightarrow> None),
                     last_error = None, output' = None, locked_by = None, locked_at = None\<rparr>))
       \<and> (store_int v = Inr m \<and> js_scheduled_at spec \<noteq> NotATime \<and>
          CHR 0x00 \<notin> set i \<and> CHR 0x00 \<notin> set c \<and> i \<in> id' ` set t \<longrightarrow>
            enqueue_action now uuid cfg spec t = (t, Inl (Thrown UniqueViolation)))
       \<and> (store_int v = Inl e \<or> js_scheduled_at spec = NotATime \<or>
          CHR 0x00 \<in> set i \<or> CHR 0x00 \<in> set c \<longrightarrow>
            enqueue_action now uuid cfg spec t = (t, Inl (Thrown DataException)))
       \<and> (\<forall>n. store_int (JNum n) =
                (if - 2147483648 \<le> n \<and> n \<le> 2147483647 then Inr n else Inl DataException))"
proof -
  let ?jd = "\<lparr>jd_id = i, jd_command = c, jd_max_retries = v, jd_scheduled_at = js_scheduled_at spec\<rparr>"
  let ?j = "\<lparr>id' = i, command = c, state = PENDING, attempts = 0, max_retries = m,
                     created_at = now, updated_at = now,
                     scheduled_at = (case js_scheduled_at spec of Time s \<Rightarrow> Some s | _ \<Rightarrow> None),
                     last_error = None, output' = None, locked_by = None, locked_at = None\<rparr>"
  have call: "enqueue_action now uuid cfg spec t = thrown (enqueueJob now ?jd t)"
    using enqueue_action_call[OF c] i v by simp
  have tv: "js_truthy v"
    using v by (auto simp: js_truthy_def split: option.splits)
  then have si: "store_int (js_or (jd_max_retries ?jd) (JNum 3)) = store_int v"
    by (simp add: js_or_truthy)
  show ?thesis
  proof (intro conjI impI allI)
    assume a: "store_int v = Inr m \<and> js_scheduled_at spec \<noteq> NotATime \<and>
          CHR 0x00 \<notin> set i \<and> CHR 0x00 \<notin> set c \<and> i \<notin> id' ` set t"
    from a si have "new_job now ?jd = Inr ?j"
      using new_job_accepts[of ?jd m now] by (simp add: text_ok_def)
    from enqueueJob_fresh[OF this, of t] a have "enqueueJob now ?jd t = (t @ [?j], Inr ?j)" by simp
    then show "enqueue_action now uuid cfg spec t = (t @ [?j], Inr ?j)"
      by (simp add: call thrown_def)
  next
    assume a: "store_int v = Inr m \<and> js_scheduled_at spec \<noteq> NotATime \<and>
          CHR 0x00 \<notin> set i \<and> CHR 0x00 \<notin> set c \<and> i \<in> id' ` set t"
    from a si have "new_job now ?jd = Inr ?j"
      using new_job_accepts[of ?jd m now] by (simp add: text_ok_def)
    from enqueueJob_duplicate[OF this, of t] a
    have "enqueueJob now ?jd t = (t, Inl UniqueViolation)" by simp
    then show "enqueue_action now uuid cfg spec t = (t, Inl (Thrown UniqueViolation))"
      by (simp add: call thrown_def)
  next
    assume a: "store_int v = Inl e \<or> js_scheduled_at spec = NotATime \<or>
          CHR 0x00 \<in> set i \<or> CHR 0x00 \<in> set c"
    have "new_job now ?jd = Inl DataException"
    proof (cases "store_int v = Inl e")
      case True
      with si show ?thesis using new_job_rejects(1)[of ?jd e now] by simp
    next
      case False
      with a show ?thesis using new_job_rejects(2)[of ?jd now] by (auto simp: text_ok_def)
    qed
    from enqueueJob_rejects[OF this, of t]
    show "enqueue_action now uuid cfg spec t = (t, Inl (Thrown DataException))"
      by (simp add: call thrown_def)
  next
    fix n show "store_int (JNum n) =
                (if - 2147483648 \<le> n \<and> n \<le> 2147483647 then Inr n else Inl DataException)"
      by (simp add: store_int_def in_int32_def)
  qed
qed

lemma parseInt_5: "parseInt (Some ''5'') = Some 5"
  by (simp add: parseInt_def stripSign_def stripPrefix_def isWhiteSpace_def isDigit_def
                digitValue_def digitsValue_def)

lemma parseInt_0: "parseInt (Some ''0'') = Some 0"
  by (simp add: parseInt_def stripSign_def stripPrefix_def isWhiteSpace_def isDigit_def
                digitValue_def digitsValue_def)

lemma parseInt_big: "parseInt (Some ''99999999999'') = Some 99999999999"
  by (simp add: parseInt_def stripSign_def stripPrefix_def isWhiteSpace_def isDigit_def
                digitValue_def digitsValue_def)

lemma text_to_int_0: "text_to_int ''0'' = Some 0"
  by (simp add: text_to_int_def stripSign_def intPrefix_def isWhiteSpace_def isDigit_def
                digitValue_def in_int32_def)

theorem enqueueJob_creates_witness:
  "enqueue_action 1 ''uuid-1'' [''max_retries'' \<mapsto> ''5'']
       \<lparr>js_id = Some ''t1'', js_command = Some ''true'', js_max_retries = JUndefined,
        js_scheduled_at = Time 9\<rparr> []
     = ([\<lparr>id' = ''t1'', command = ''true'', state = PENDING, attempts = 0, max_retries = 5,
          created_at = 1, updated_at = 1, scheduled_at = Some 9, last_error = None,
          output' = None, locked_by = None, locked_at = None\<rparr>],
        Inr \<lparr>id' = ''t1'', command = ''true'', state = PENDING, attempts = 0, max_retries = 5,
          created_at = 1, updated_at = 1, scheduled_at = Some 9, last_error = None,
          output' = None, locked_by = None, locked_at = None\<rparr>)
   \<and> enqueue_action 2 ''uuid-2'' [''max_retries'' \<mapsto> ''5'']
       \<lparr>js_id = Some ''t1'', js_command = Some ''echo again'', js_max_retries = JNum 7,
        js_scheduled_at = NoTime\<rparr>
       [\<lparr>id' = ''t1'', command = ''true'', state = PENDING, attempts = 0, max_retries = 5,
          created_at = 1, updated_at = 1, scheduled_at = Some 9, last_error = None,
          output' = None, locked_by = None, locked_at = None\<rparr>]
     = ([\<lparr>id' = ''t1'', command = ''true'', state = PENDING, attempts = 0, max_retries = 5,
          created_at = 1, updated_at = 1, scheduled_at = Some 9, last_error = None,
          output' = None, locked_by = None, locked_at = None\<rparr>], Inl (Thrown UniqueViolation))
   \<and> enqueue_action 3 ''uuid-3'' [''max_retries'' \<mapsto> ''5'']
       \<lparr>js_id = None, js_command = Some ''sleep 1'', js_max_retries = JNum 7,
        js_scheduled_at = NoTime\<rparr> []
     = ([\<lparr>id' = ''uuid-3'', command = ''sleep 1'', state = PENDING, attempts = 0, max_retries = 7,
          created_at = 3, updated_at = 3, scheduled_at = None, last_error = None,
          output' = None, locked_by = None, locked_at = None\<rparr>],
        Inr \<lparr>id' = ''uuid-3'', command = ''sleep 1'', state = PENDING, attempts = 0, max_retries = 7,
          created_at = 3, updated_at = 3, scheduled_at = None, last_error = None,
          output' = None, locked_by = None, locked_at = None\<rparr>)"
  using enqueueJob_creates [where t = "[]" and now = 1 and uuid = "''uuid-1''"
          and cfg = "[''max_retries'' \<mapsto> ''5'']" and c = "''true''" and i = "''t1''"
          and v = "JNum 5" and m = 5
          and spec = "\<lparr>js_id = Some ''t1'', js_command = Some ''true'', js_max_retries = JUndefined,
                        js_scheduled_at = Time 9\<rparr>"]
        enqueueJob_creates [where t = "[\<lparr>id' = ''t1'', command = ''true'', state = PENDING, attempts = 0, max_retries = 5,
          created_at = 1, updated_at = 1, scheduled_at = Some 9, last_error = None,
          output' = None, locked_by = None, locked_at = None\<rparr>]" and now = 2 and uuid = "''uuid-2''"
          and cfg = "[''max_retries'' \<mapsto> ''5'']" and c = "''echo again''" and i = "''t1''"
          and v = "JNum 7" and m = 7
          and spec = "\<lparr>js_id = Some ''t1'', js_command = Some ''echo again'', js_max_retries = JNum 7,
                        js_scheduled_at = NoTime\<rparr>"]
        enqueueJob_creates [where t = "[]" and now = 3 and uuid = "''uuid-3''"
          and cfg = "[''max_retries'' \<mapsto> ''5'']" and c = "''sleep 1''" and i = "''uuid-3''"
          and v = "JNum 7" and m = 7
          and spec = "\<lparr>js_id = None, js_command = Some ''sleep 1'', js_max_retries = JNum 7,
                        js_scheduled_at = NoTime\<rparr>"]
  by (simp add: parseInt_5 js_truthy_def store_int_def in_int32_def)

text \<open>
  Claim C8 as it is written promises a new job for every job spec. The column
  \<^verbatim>\<open>max_retries\<close> is a 32-bit integer: for \<^verbatim>\<open>{"id":"t1","command":"true","max_retries":2147483648}\<close>
  the insert throws, and so it does for a spec without \<^verbatim>\<open>max_retries\<close> when the configured
  value is \<^verbatim>\<open>99999999999\<close>, and for a \<^verbatim>\<open>scheduled_at\<close> that is not a time; no job is
  stored. Nor is one for a spec without a command, which the action refuses before it
  calls \<^verbatim>\<open>enqueueJob\<close>.
\<close>

theorem enqueueJob_out_of_range_counterexample:
  "enqueue_action 1 ''uuid-1'' Map.empty
       \<lparr>js_id = Some ''t1'', js_command = Some ''true'', js_max_retries = JNum 2147483648,
        js_scheduled_at = NoTime\<rparr> []
     = ([], Inl (Thrown DataException))
   \<and> enqueue_action 1 ''uuid-1'' [''max_retries'' \<mapsto> ''99999999999'']
       \<lparr>js_id = Some ''t1'', js_command = Some ''true'', js_max_retries = JUndefined,
        js_scheduled_at = NoTime\<rparr> []
     = ([], Inl (Thrown DataException))
   \<and> enqueue_action 1 ''uuid-1'' Map.empty
       \<lparr>js_id = Some ''t1'', js_command = Some ''true'', js_max_retries = JNum 2,
        js_scheduled_at = NotATime\<rparr> []
     = ([], Inl (Thrown DataException))
   \<and> enqueue_action 1 ''uuid-1'' Map.empty
       \<lparr>js_id = Some ''t1'', js_command = None, js_max_retries = JNum 2,
        js_scheduled_at = NoTime\<rparr> []
     = ([], Inl MissingCommand)"
  by (simp add: enqueue_action_def str_or_def getConfig_def js_truthy_def js_or_def js_number_def
                parseInt_big thrown_def enqueueJob_def new_job_def store_int_def store_time_def
                in_int32_def)

lemma enqueue_action_returns:
  assumes "enqueue_action now uuid cfg spec t = (t', Inr j)"
  shows "js_truthy (js_max_retries spec) \<and> store_int (js_max_retries spec) = Inr (max_retries j)
       \<or> \<not> js_truthy (js_max_retries spec) \<and>
           max_retries j = (case parseInt (cfg ''max_retries'') of None \<Rightarrow> 3
                            | Some n \<Rightarrow> if n = 0 then 3 else n)"
proof -
  from assms have c: "str_or (js_command spec) [] \<noteq> []"
    by (auto simp: enqueue_action_def split: if_splits)
  then obtain c where c': "js_command spec = Some c" "c \<noteq> []"
    by (auto simp: str_or_def split: option.splits if_splits)
  let ?v = "(if js_truthy (js_max_retries spec) then js_max_retries spec
                 else (case parseInt (cfg ''max_retries'') of None \<Rightarrow> JNum 3
                       | Some n \<Rightarrow> if n = 0 then JNum 3 else JNum n))"
  let ?jd = "\<lparr>jd_id = (case js_id spec of None \<Rightarrow> uuid | Some x \<Rightarrow> if x = [] then uuid else x),
              jd_command = c, jd_max_retries = ?v, jd_scheduled_at = js_scheduled_at spec\<rparr>"
  from assms have "thrown (enqueueJob now ?jd t) = (t', Inr j)"
    unfolding enqueue_action_call[OF c'] .
  then have "enqueueJob now ?jd t = (t', Inr j)"
    by (cases "enqueueJob now ?jd t") (auto simp: thrown_def split: sum.splits)
  from enqueueJob_returns[OF this] have nj: "new_job now ?jd = Inr j" by simp
  have tv: "js_truthy ?v" by (auto simp: js_truthy_def split: option.splits)
  from new_job_row[OF nj] have "store_int (js_or ?v (JNum 3)) = Inr (max_retries j)" by simp
  then have "store_int ?v = Inr (max_retries j)" using tv by (simp add: js_or_truthy)
  then show ?thesis
    by (auto simp: store_int_def in_int32_def split: option.splits if_splits)
qed

lemma store_int_nonzero:
  assumes "store_int v = Inr 0" "js_truthy v" shows "\<exists>s. v = JStr s"
  using assms by (cases v) (auto simp: store_int_def js_truthy_def split: if_splits)

text \<open>
  Claim C10, as amended. \<open>d\<close> is the configured value as the \<^verbatim>\<open>enqueue\<close> command reads
  it: what \<^verbatim>\<open>parseInt\<close> finds in the \<^verbatim>\<open>max_retries\<close> row of the configuration, or 3 when
  there is no such row, no number in it, or the number 0. For a specification with a
  command, an id that no row has, no character of code 0 in either, and a
  \<^verbatim>\<open>scheduled_at\<close> that is nothing or a time:
  a \<^verbatim>\<open>max_retries\<close> that is falsy, which is to be absent, \<^verbatim>\<open>null\<close>, \<^verbatim>\<open>false\<close>, 0 or the
  empty string, is replaced by \<open>d\<close>, and the job is created with it when \<open>d\<close> fits the
  column; a number other than 0 that fits the column is stored as given, negative or not;
  a number that does not fit is refused by the store, which is the only check there is;
  a string that is not empty is truthy and is stored as the store reads it, so a string
  that the store reads as 0 creates a job with \<^verbatim>\<open>max_retries = 0\<close>; and whatever the table
  and the specification, a job created from a \<^verbatim>\<open>max_retries\<close> that is not a string
  never has \<^verbatim>\<open>max_retries = 0\<close>. \<^verbatim>\<open>enqueueJob\<close> called on its own replaces a falsy
  \<^verbatim>\<open>max_retries\<close> by 3.
\<close>

theorem max_retries_never_zero:
  assumes c: "js_command spec = Some c" "c \<noteq> []"
    and i: "i = (case js_id spec of None \<Rightarrow> uuid | Some x \<Rightarrow> if x = [] then uuid else x)"
    and ok: "CHR 0x00 \<notin> set i" "CHR 0x00 \<notin> set c" "i \<notin> id' ` set t"
      "js_scheduled_at spec \<noteq> NotATime"
    and d: "d = (case parseInt (cfg ''max_retries'') of None \<Rightarrow> 3
                 | Some n \<Rightarrow> if n = 0 then 3 else n)"
  shows "(js_max_retries spec \<in> {JUndefined, JNull, JBool False, JNum 0, JStr []} \<and>
          - 2147483648 \<le> d \<and> d \<le> 2147483647 \<longrightarrow>
            (\<exists>j. enqueue_action now uuid cfg spec t = (t @ [j], Inr j) \<and> max_retries j = d))
       \<and> (js_max_retries spec = JNum n \<and> n \<noteq> 0 \<and> - 2147483648 \<le> n \<and> n \<le> 2147483647 \<longrightarrow>
            (\<exists>j. enqueue_action now uuid cfg spec t = (t @ [j], Inr j) \<and> max_retries j = n))
       \<and> (js_max_retries spec = JNum n \<and> (n < - 2147483648 \<or> 2147483647 < n) \<longrightarrow>
            enqueue_action now uuid cfg spec t = (t, Inl (Thrown DataException)))
       \<and> (js_max_retries spec = JStr s \<and> s \<noteq> [] \<and> text_to_int s = Some n \<longrightarrow>
            (\<exists>j. enqueue_action now uuid cfg spec t = (t @ [j], Inr j) \<and> max_retries j = n))
       \<and> (\<forall>now' uuid' cfg' spec' t0 t' j.
             enqueue_action now' uuid' cfg' spec' t0 = (t', Inr j) \<and>
             (\<forall>s'. js_max_retries spec' \<noteq> JStr s') \<longrightarrow> max_retries j \<noteq> 0)
       \<and> (\<forall>jd::jobData. jd_max_retries jd \<in> {JUndefined, JNull, JBool False, JNum 0, JStr []} \<and>
             CHR 0x00 \<notin> set (jd_id jd) \<and> CHR 0x00 \<notin> set (jd_command jd) \<and>
             jd_id jd \<notin> id' ` set t \<and> jd_scheduled_at jd \<noteq> NotATime \<longrightarrow>
               (\<exists>j. enqueueJob now jd t = (t @ [j], Inr j) \<and> max_retries j = 3))"
proof -
  let ?v = "(if js_truthy (js_max_retries spec) then js_max_retries spec
                 else (case parseInt (cfg ''max_retries'') of None \<Rightarrow> JNum 3
                       | Some n \<Rightarrow> if n = 0 then JNum 3 else JNum n))"
  let ?jd = "\<lparr>jd_id = i, jd_command = c, jd_max_retries = ?v, jd_scheduled_at = js_scheduled_at spec\<rparr>"
  have call: "enqueue_action now uuid cfg spec t = thrown (enqueueJob now ?jd t)"
    using enqueue_action_call[OF c] i by simp
  have tv: "js_truthy ?v" by (auto simp: js_truthy_def split: option.splits)
  have si: "store_int (js_or (jd_max_retries ?jd) (JNum 3)) = store_int ?v"
    using tv by (simp add: js_or_truthy)
  have created: "\<exists>j. enqueue_action now uuid cfg spec t = (t @ [j], Inr j) \<and> max_retries j = m"
    if "store_int ?v = Inr m" for m
  proof -
    from that si ok have "new_job now ?jd =
           Inr \<lparr>id' = i, command = c, state = PENDING, attempts = 0,
                max_retries = m, created_at = now, updated_at = now,
                scheduled_at = (case js_scheduled_at spec of Time s \<Rightarrow> Some s | _ \<Rightarrow> None),
                last_error = None, output' = None,
                locked_by = None, locked_at = None\<rparr>"
      using new_job_accepts[of ?jd m now] by (simp add: text_ok_def)
    from enqueueJob_fresh[OF this, of t] ok show ?thesis
      by (simp add: call thrown_def)
  qed
  have dv: "(case parseInt (cfg ''max_retries'') of None \<Rightarrow> JNum 3
             | Some n \<Rightarrow> if n = 0 then JNum 3 else JNum n) = JNum d"
    using d by (simp split: option.splits)
  show ?thesis
  proof (intro conjI impI allI)
    assume a: "js_max_retries spec \<in> {JUndefined, JNull, JBool False, JNum 0, JStr []} \<and>
          - 2147483648 \<le> d \<and> d \<le> 2147483647"
    then have "\<not> js_truthy (js_max_retries spec)" by (auto simp: js_truthy_def)
    then have "?v = JNum d" using dv by simp
    then have "store_int ?v = Inr d" using a by (simp add: store_int_def in_int32_def)
    from created[OF this]
    show "\<exists>j. enqueue_action now uuid cfg spec t = (t @ [j], Inr j) \<and> max_retries j = d" .
  next
    assume a: "js_max_retries spec = JNum n \<and> n \<noteq> 0 \<and> - 2147483648 \<le> n \<and> n \<le> 2147483647"
    then have "store_int ?v = Inr n" by (simp add: js_truthy_def store_int_def in_int32_def)
    from created[OF this]
    show "\<exists>j. enqueue_action now uuid cfg spec t = (t @ [j], Inr j) \<and> max_retries j = n" .
  next
    assume a: "js_max_retries spec = JNum n \<and> (n < - 2147483648 \<or> 2147483647 < n)"
    then have "store_int ?v = Inl DataException"
      by (auto simp: js_truthy_def store_int_def in_int32_def)
    with si have "new_job now ?jd = Inl DataException" by (simp add: new_job_rejects(1))
    from enqueueJob_rejects[OF this, of t]
    show "enqueue_action now uuid cfg spec t = (t, Inl (Thrown DataException))"
      by (simp add: call thrown_def)
  next
    assume a: "js_max_retries spec = JStr s \<and> s \<noteq> [] \<and> text_to_int s = Some n"
    then have "store_int ?v = Inr n" by (simp add: js_truthy_def store_int_def)
    from created[OF this]
    show "\<exists>j. enqueue_action now uuid cfg spec t = (t @ [j], Inr j) \<and> max_retries j = n" .
  next
    fix now' uuid' cfg' spec' t0 t' j
    assume a: "enqueue_action now' uuid' cfg' spec' t0 = (t', Inr j) \<and>
             (\<forall>s'. js_max_retries spec' \<noteq> JStr s')"
    show "max_retries j \<noteq> 0"
    proof
      assume z: "max_retries j = 0"
      from enqueue_action_returns[of now' uuid' cfg' spec' t0 t' j] a z
      have "js_truthy (js_max_retries spec') \<and> store_int (js_max_retries spec') = Inr 0"
        by (auto split: option.splits if_splits)
      with store_int_nonzero[of "js_max_retries spec'"] a show False by auto
    qed
  next
    fix jd :: jobData
    assume a: "jd_max_retries jd \<in> {JUndefined, JNull, JBool False, JNum 0, JStr []} \<and>
             CHR 0x00 \<notin> set (jd_id jd) \<and> CHR 0x00 \<notin> set (jd_command jd) \<and>
             jd_id jd \<notin> id' ` set t \<and> jd_scheduled_at jd \<noteq> NotATime"
    then have "\<not> js_truthy (jd_max_retries jd)" by (auto simp: js_truthy_def)
    then have "store_int (js_or (jd_max_retries jd) (JNum 3)) = Inr 3"
      by (simp add: js_or_def store_int_def in_int32_def)
    with a have "new_job now jd =
           Inr \<lparr>id' = jd_id jd, command = jd_command jd, state = PENDING, attempts = 0,
                max_retries = 3, created_at = now, updated_at = now,
                scheduled_at = (case jd_scheduled_at jd of Time s \<Rightarrow> Some s | _ \<Rightarrow> None),
                last_error = None, output' = None,
                locked_by = None, locked_at = None\<rparr>"
      using new_job_accepts[of jd 3 now] by (simp add: text_ok_def)
    from enqueueJob_fresh[OF this, of t] a
    show "\<exists>j. enqueueJob now jd t = (t @ [j], Inr j) \<and> max_retries j = 3" by simp
  qed
qed

theorem max_retries_never_zero_witness:
  "enqueue_action 1 ''uuid-1'' [''max_retries'' \<mapsto> ''0'']
       \<lparr>js_id = Some ''b'', js_command = Some ''true'', js_max_retries = JNum 0, js_scheduled_at = NoTime\<rparr> []
     = ([\<lparr>id' = ''b'', command = ''true'', state = PENDING, attempts = 0, max_retries = 3,
          created_at = 1, updated_at = 1, scheduled_at = None, last_error = None,
          output' = None, locked_by = None, locked_at = None\<rparr>],
        Inr \<lparr>id' = ''b'', command = ''true'', state = PENDING, attempts = 0, max_retries = 3,
          created_at = 1, updated_at = 1, scheduled_at = None, last_error = None,
          output' = None, locked_by = None, locked_at = None\<rparr>)
   \<and> enqueue_action 1 ''uuid-1'' [''max_retries'' \<mapsto> ''5'']
       \<lparr>js_id = Some ''b'', js_command = Some ''true'', js_max_retries = JStr [], js_scheduled_at = NoTime\<rparr> []
     = ([\<lparr>id' = ''b'', command = ''true'', state = PENDING, attempts = 0, max_retries = 5,
          created_at = 1, updated_at = 1, scheduled_at = None, last_error = None,
          output' = None, locked_by = None, locked_at = None\<rparr>],
        Inr \<lparr>id' = ''b'', command = ''true'', state = PENDING, attempts = 0, max_retries = 5,
          created_at = 1, updated_at = 1, scheduled_at = None, last_error = None,
          output' = None, locked_by = None, locked_at = None\<rparr>)
   \<and> enqueue_action 1 ''uuid-1'' [''max_retries'' \<mapsto> ''5'']
       \<lparr>js_id = Some ''c'', js_command = Some ''true'', js_max_retries = JNum (- 1), js_scheduled_at = NoTime\<rparr> []
     = ([\<lparr>id' = ''c'', command = ''true'', state = PENDING, attempts = 0, max_retries = - 1,
          created_at = 1, updated_at = 1, scheduled_at = None, last_error = None,
          output' = None, locked_by = None, locked_at = None\<rparr>],
        Inr \<lparr>id' = ''c'', command = ''true'', state = PENDING, attempts = 0, max_retries = - 1,
          created_at = 1, updated_at = 1, scheduled_at = None, last_error = None,
          output' = None, locked_by = None, locked_at = None\<rparr>)
   \<and> enqueue_action 1 ''uuid-1'' [''max_retries'' \<mapsto> ''5'']
       \<lparr>js_id = Some ''c'', js_command = Some ''true'', js_max_retries = JNum (- 2147483649),
        js_scheduled_at = NoTime\<rparr> []
     = ([], Inl (Thrown DataException))
   \<and> enqueueJob 1 \<lparr>jd_id = ''a'', jd_command = ''true'', jd_max_retries = JNum 0, jd_scheduled_at = NoTime\<rparr> []
     = ([\<lparr>id' = ''a'', command = ''true'', state = PENDING, attempts = 0, max_retries = 3,
          created_at = 1, updated_at = 1, scheduled_at = None, last_error = None,
          output' = None, locked_by = None, locked_at = None\<rparr>],
        Inr \<lparr>id' = ''a'', command = ''true'', state = PENDING, attempts = 0, max_retries = 3,
          created_at = 1, updated_at = 1, scheduled_at = None, last_error = None,
          output' = None, locked_by = None, locked_at = None\<rparr>)"
  using max_retries_never_zero [where t = "[]" and now = 1 and uuid = "''uuid-1''"
          and cfg = "[''max_retries'' \<mapsto> ''0'']" and c = "''true''" and i = "''b''" and d = 3
          and spec = "\<lparr>js_id = Some ''b'', js_command = Some ''true'', js_max_retries = JNum 0, js_scheduled_at = NoTime\<rparr>",
          THEN conjunct1]
        max_retries_never_zero [where t = "[]" and now = 1 and uuid = "''uuid-1''"
          and cfg = "[''max_retries'' \<mapsto> ''5'']" and c = "''true''" and i = "''b''" and d = 5
          and spec = "\<lparr>js_id = Some ''b'', js_command = Some ''true'', js_max_retries = JStr [], js_scheduled_at = NoTime\<rparr>",
          THEN conjunct1]
        max_retries_never_zero [where t = "[]" and now = 1 and uuid = "''uuid-1''"
          and cfg = "[''max_retries'' \<mapsto> ''5'']" and c = "''true''" and i = "''c''" and n = "- 1" and d = 5
          and spec = "\<lparr>js_id = Some ''c'', js_command = Some ''true'', js_max_retries = JNum (- 1), js_scheduled_at = NoTime\<rparr>",
          THEN conjunct2, THEN conjunct1]
  by (simp add: enqueue_action_def str_or_def getConfig_def thrown_def parseInt_0 parseInt_5
                js_truthy_def js_or_def js_number_def store_int_def in_int32_def text_ok_def
                new_job_def store_time_def enqueueJob_def insert_row_def single_def)

text \<open>
  Claim C10 as it is written says that a created job never has \<^verbatim>\<open>max_retries = 0\<close>. The
  specification is parsed from JSON, and \<^verbatim>\<open>{"id":"z","command":"true","max_retries":"0"}\<close>
  gives the string \<^verbatim>\<open>"0"\<close>, which is truthy for both \<^verbatim>\<open>||\<close> and which the integer column
  reads as 0: the job is created with \<^verbatim>\<open>max_retries = 0\<close>.
\<close>

theorem max_retries_zero_counterexample:
  "enqueue_action 1 ''uuid-1'' [''max_retries'' \<mapsto> ''5'']
       \<lparr>js_id = Some ''z'', js_command = Some ''true'', js_max_retries = JStr ''0'',
        js_scheduled_at = NoTime\<rparr> []
     = ([\<lparr>id' = ''z'', command = ''true'', state = PENDING, attempts = 0, max_retries = 0,
          created_at = 1, updated_at = 1, scheduled_at = None, last_error = None,
          output' = None, locked_by = None, locked_at = None\<rparr>],
        Inr \<lparr>id' = ''z'', command = ''true'', state = PENDING, attempts = 0, max_retries = 0,
          created_at = 1, updated_at = 1, scheduled_at = None, last_error = None,
          output' = None, locked_by = None, locked_at = None\<rparr>)"
  by (simp add: enqueue_action_def str_or_def getConfig_def thrown_def
                js_truthy_def js_or_def store_int_def text_to_int_0 text_ok_def
                new_job_def store_time_def enqueueJob_def insert_row_def single_def)

section \<open>Failure and backoff\<close>

lemma markJobFailed_hit:
  assumes pk: "distinct (map id' t)" and j: "j \<in> set t"
    and a: "in_int32 a" and e: "text_ok err"
  shows "markJobFailed now (id' j) err a m t =
           (map (\<lambda>r. if r = j
                      then j\<lparr>state := (if a \<ge> m then DEAD else FAILED), attempts := a,
                             last_error := Some err, locked_by := None, locked_at := None,
                             updated_at := now\<rparr>
                      else r) t,
            Inr (j\<lparr>state := (if a \<ge> m then DEAD else FAILED), attempts := a,
                   last_error := Some err, locked_by := None, locked_at := None,
                   updated_at := now\<rparr>))"
proof -
  let ?u = "no_updates\<lparr>u_state := Some (if a \<ge> m then DEAD else FAILED), u_attempts := Some a,
                        u_last_error := Some (Some err),
                        u_locked_by := Some None, u_locked_at := Some None\<rparr>"
  from a e have ok: "updates_ok ?u" by (simp add: updates_ok_def no_updates_def)
  show ?thesis
    using updateJob_hit[OF pk j ok, of now]
    by (simp add: markJobFailed_def apply_updates_def set_col_def no_updates_def)
qed

lemma markJobFailed_cases:
  assumes pk: "distinct (map id' t)"
  shows "(\<exists>e. markJobFailed now jobId err a m t = (t, Inl e))
       \<or> (\<exists>j\<in>set t. id' j = jobId \<and> in_int32 a \<and> text_ok err \<and>
             markJobFailed now jobId err a m t =
               (map (\<lambda>r. if r = j
                      then j\<lparr>state := (if a \<ge> m then DEAD else FAILED), attempts := a,
                             last_error := Some err, locked_by := None, locked_at := None,
                             updated_at := now\<rparr>
                      else r) t,
                Inr (j\<lparr>state := (if a \<ge> m then DEAD else FAILED), attempts := a,
                   last_error := Some err, locked_by := None, locked_at := None,
                   updated_at := now\<rparr>)))"
proof -
  let ?u = "no_updates\<lparr>u_state := Some (if a \<ge> m then DEAD else FAILED), u_attempts := Some a,
                        u_last_error := Some (Some err),
                        u_locked_by := Some None, u_locked_at := Some None\<rparr>"
  show ?thesis
  proof (cases "in_int32 a \<and> text_ok err")
    case False
    then have "\<not> updates_ok ?u" by (auto simp: updates_ok_def no_updates_def)
    from updateJob_rejects[OF this, of now jobId t] show ?thesis by (simp add: markJobFailed_def)
  next
    case True
    then have ok: "updates_ok ?u" by (simp add: updates_ok_def no_updates_def)
    show ?thesis
    proof (cases "jobId \<in> id' ` set t")
      case False
      from updateJob_miss[OF False ok, of now] show ?thesis by (simp add: markJobFailed_def)
    next
      case t: True
      then obtain j where j: "j \<in> set t" "id' j = jobId" by auto
      from markJobFailed_hit[OF pk j(1), of a err now m] True j show ?thesis by blast
    qed
  qed
qed

lemma requeueFailedJob_hit:
  assumes pk: "distinct (map id' t)" and j: "j \<in> set t"
  shows "requeueFailedJob now (id' j) t =
           (map (\<lambda>r. if r = j
                      then j\<lparr>state := PENDING, locked_by := None, locked_at := None, updated_at := now\<rparr>
                      else r) t,
            Inr (j\<lparr>state := PENDING, locked_by := None, locked_at := None, updated_at := now\<rparr>))"
proof -
  let ?u = "no_updates\<lparr>u_state := Some PENDING, u_locked_by := Some None, u_locked_at := Some None\<rparr>"
  have ok: "updates_ok ?u" by (simp add: updates_ok_def no_updates_def)
  show ?thesis
    using updateJob_hit[OF pk j ok, of now]
    by (simp add: requeueFailedJob_def apply_updates_def set_col_def no_updates_def)
qed

lemma replace_ids:
  "id' j' = id' j \<Longrightarrow> map id' (map (\<lambda>r. if r = j then j' else r) t) = map id' t"
  by (induction t) auto

lemma replace_set:
  "j \<in> set t \<Longrightarrow> set (map (\<lambda>r. if r = j then j' else r) t) = insert j' (set t - {j})"
  by auto




lemma parseInt_2: "parseInt (Some ''2'') = Some 2"
  by (simp add: parseInt_def stripSign_def stripPrefix_def isWhiteSpace_def isDigit_def
                digitValue_def digitsValue_def)





section \<open>The invariant of the running system\<close>

lemma replace_rows:
  assumes j: "j \<in> set t" and i: "id' j' = id' j" and pk: "distinct (map id' t)"
  shows "distinct (map id' (map (\<lambda>r. if r = j then j' else r) t))"
    and "\<forall>r\<in>set t. id' r \<notin> {id' j} \<longrightarrow> r \<in> set (map (\<lambda>r. if r = j then j' else r) t)"
    and "\<forall>r\<in>set (map (\<lambda>r. if r = j then j' else r) t). r \<in> set t \<or> r = j'"
    and "j' \<in> set (map (\<lambda>r. if r = j then j' else r) t)"
proof -
  show "distinct (map id' (map (\<lambda>r. if r = j then j' else r) t))"
    unfolding replace_ids[OF i] by (rule pk)
  have s: "set (map (\<lambda>r. if r = j then j' else r) t) = insert j' (set t - {j})"
    using j by (rule replace_set)
  show "\<forall>r\<in>set t. id' r \<notin> {id' j} \<longrightarrow> r \<in> set (map (\<lambda>r. if r = j then j' else r) t)"
    unfolding s by auto
  show "\<forall>r\<in>set (map (\<lambda>r. if r = j then j' else r) t). r \<in> set t \<or> r = j'"
    unfolding s by auto
  show "j' \<in> set (map (\<lambda>r. if r = j then j' else r) t)"
    unfolding s by simp
qed

lemma updateJob_cases:
  assumes pk: "distinct (map id' t)"
  shows "(\<exists>e. updateJob now jobId u t = (t, Inl e))
       \<or> (\<exists>j\<in>set t. id' j = jobId \<and>
             updateJob now jobId u t =
               (map (\<lambda>r. if r = j then apply_updates u now j else r) t, Inr (apply_updates u now j)))"
proof (cases "updates_ok u")
  case False
  from updateJob_rejects[OF this, of now jobId t] show ?thesis by simp
next
  case ok: True
  show ?thesis
  proof (cases "jobId \<in> id' ` set t")
    case False
    from updateJob_miss[OF False ok, of now] show ?thesis by simp
  next
    case True
    then obtain j where j: "j \<in> set t" "id' j = jobId" by auto
    from updateJob_hit[OF pk j(1) ok, of now] j show ?thesis by blast
  qed
qed

lemma lockJob_Some:
  assumes pk: "distinct (map id' t)" and l: "lockJob now jobId wid t = (t', Inr (Some lj))"
  shows "\<exists>j\<in>set t. id' j = jobId \<and> state j = PENDING \<and> locked_by j = None \<and>
                  lj = lock_row now wid j \<and> t' = map (\<lambda>r. if r = j then lj else r) t"
proof (cases "\<exists>j\<in>set t. id' j = jobId \<and> state j = PENDING \<and> locked_by j = None")
  case True
  then obtain j where j: "j \<in> set t" and c: "id' j = jobId" "state j = PENDING" "locked_by j = None"
    by blast
  let ?Q = "\<lambda>r. state r = PENDING \<and> locked_by r = None"
  have f: "filter (\<lambda>r. id' r = jobId \<and> state r = PENDING \<and> locked_by r = None) t = [j]"
    using filter_pk_hit[OF pk j, of ?Q] c by simp
  have m: "map (\<lambda>r. if id' r = jobId \<and> state r = PENDING \<and> locked_by r = None
                     then lock_row now wid r else r) t
           = map (\<lambda>r. if r = j then lock_row now wid j else r) t"
    using map_pk_hit[OF pk j, of ?Q "lock_row now wid"] c by simp
  have "lockJob now jobId wid t =
          (map (\<lambda>r. if r = j then lock_row now wid j else r) t, Inr (Some (lock_row now wid j)))"
    by (simp add: lockJob_def update_where_def f m maybeSingle_def)
  with l j c show ?thesis by auto
next
  case False
  then have f: "filter (\<lambda>r. id' r = jobId \<and> state r = PENDING \<and> locked_by r = None) t = []"
    by (auto simp: filter_empty_conv)
  have "snd (lockJob now jobId wid t) = Inr None"
    by (simp add: lockJob_def update_where_def f maybeSingle_def)
  with l show ?thesis by simp
qed

lemma distinct_filter_mono:
  assumes "distinct (filter (\<lambda>k. k \<notin> R) xs)" "R \<subseteq> R'"
  shows "distinct (filter (\<lambda>k. k \<notin> R') xs)"
proof -
  have "filter (\<lambda>k. k \<notin> R') xs = filter (\<lambda>k. k \<notin> R') (filter (\<lambda>k. k \<notin> R) xs)"
    using assms(2) by (auto intro: filter_cong)
  then show ?thesis using assms(1) by (simp only: distinct_filter)
qed

lemma distinct_filter_remove1:
  "distinct (filter P (map f xs)) \<Longrightarrow> distinct (filter P (map f (remove1 x xs)))"
  by (induction xs) (auto split: if_splits dest!: set_remove1_subset[THEN subsetD])

lemma remove1_other_key:
  "distinct (filter P (map f xs)) \<Longrightarrow> x \<in> set xs \<Longrightarrow> P (f x) \<Longrightarrow>
   y \<in> set (remove1 x xs) \<Longrightarrow> f y \<noteq> f x"
proof (induction xs)
  case Nil
  then show ?case by simp
next
  case (Cons a xs)
  show ?case
  proof (cases "a = x")
    case True
    with Cons.prems show ?thesis by (auto simp: image_iff)
  next
    case False
    with Cons.prems have x: "x \<in> set xs" by simp
    from Cons.prems have d: "distinct (filter P (map f xs))" by (simp split: if_splits)
    from Cons.prems(4) False have "y = a \<or> y \<in> set (remove1 x xs)" by simp
    then show ?thesis
    proof
      assume "y = a"
      show ?thesis
      proof
        assume e: "f y = f x"
        with \<open>y = a\<close> Cons.prems(3) have "P (f a)" by simp
        with Cons.prems(1) have "f a \<notin> set (filter P (map f xs))" by simp
        with x Cons.prems(3) e \<open>y = a\<close> show False by (auto simp: image_iff)
      qed
    next
      assume "y \<in> set (remove1 x xs)"
      from Cons.IH[OF d x Cons.prems(3) this] show ?thesis .
    qed
  qed
qed

text \<open>
  One step: the rows whose id is outside \<open>C\<close> are kept, every row is an old one or one
  that is as the invariant asks, and every execution and timer is an old one on an id
  outside \<open>C\<close> or has its row.
\<close>

lemma sys_inv_step:
  assumes inv: "sys_inv s"
    and pk': "distinct (map id' (w_jobs (s_world s')))"
    and keep: "\<forall>r\<in>set (w_jobs (s_world s)). id' r \<notin> C \<longrightarrow> r \<in> set (w_jobs (s_world s'))"
    and new: "\<forall>r\<in>set (w_jobs (s_world s')). r \<in> set (w_jobs (s_world s)) \<or>
                (id' r \<notin> retried s' \<and> 1 \<le> max_retries r \<longrightarrow> job_ok r)"
    and R: "retried s \<subseteq> retried s'"
    and exd: "distinct (filter (\<lambda>k. k \<notin> retried s') (map (\<lambda>x. id' (snd x)) (executing s')))"
    and exr: "\<forall>x\<in>set (executing s'). id' (snd x) \<notin> retried s' \<longrightarrow>
                (x \<in> set (executing s) \<and> id' (snd x) \<notin> C) \<or>
                (\<exists>r\<in>set (w_jobs (s_world s')). id' r = id' (snd x) \<and> state r = PROCESSING \<and>
                    locked_by r = Some (fst x) \<and> attempts r = attempts (snd x) \<and>
                    max_retries r = max_retries (snd x))"
    and tmd: "distinct (filter (\<lambda>k. k \<notin> retried s') (map snd (w_timers (s_world s'))))"
    and tmr: "\<forall>k\<in>set (map snd (w_timers (s_world s'))). k \<notin> retried s' \<longrightarrow>
                (k \<in> set (map snd (w_timers (s_world s))) \<and> k \<notin> C) \<or>
                (\<exists>r\<in>set (w_jobs (s_world s')). id' r = k \<and> state r = FAILED)"
  shows "sys_inv s'"
proof -
  let ?t = "w_jobs (s_world s)" and ?t' = "w_jobs (s_world s')"
  from inv have ok: "\<forall>j\<in>set ?t. id' j \<notin> retried s \<and> 1 \<le> max_retries j \<longrightarrow> job_ok j"
    and ex: "exec_ok ?t (retried s) (executing s)"
    and tm: "timers_ok ?t (retried s) (w_timers (s_world s))"
    by (simp_all add: sys_inv_def)
  have ok': "\<forall>j\<in>set ?t'. id' j \<notin> retried s' \<and> 1 \<le> max_retries j \<longrightarrow> job_ok j"
  proof (intro ballI impI)
    fix j assume j: "j \<in> set ?t'" and c: "id' j \<notin> retried s' \<and> 1 \<le> max_retries j"
    from new j have "j \<in> set ?t \<or> (id' j \<notin> retried s' \<and> 1 \<le> max_retries j \<longrightarrow> job_ok j)" by blast
    then show "job_ok j"
    proof
      assume "j \<in> set ?t"
      moreover from c R have "id' j \<notin> retried s" by blast
      ultimately show ?thesis using ok c by blast
    next
      assume "id' j \<notin> retried s' \<and> 1 \<le> max_retries j \<longrightarrow> job_ok j"
      with c show ?thesis by blast
    qed
  qed
  have ex': "exec_ok ?t' (retried s') (executing s')"
    unfolding exec_ok_def
  proof (intro conjI ballI impI)
    show "distinct (filter (\<lambda>k. k \<notin> retried s') (map (\<lambda>x. id' (snd x)) (executing s')))"
      by (rule exd)
  next
    fix x assume x: "x \<in> set (executing s')" and n: "id' (snd x) \<notin> retried s'"
    from exr x n have "(x \<in> set (executing s) \<and> id' (snd x) \<notin> C) \<or>
                (\<exists>r\<in>set ?t'. id' r = id' (snd x) \<and> state r = PROCESSING \<and>
                    locked_by r = Some (fst x) \<and> attempts r = attempts (snd x) \<and>
                    max_retries r = max_retries (snd x))" by blast
    then show "\<exists>j\<in>set ?t'. id' j = id' (snd x) \<and> state j = PROCESSING \<and>
                 locked_by j = Some (fst x) \<and> attempts j = attempts (snd x) \<and>
                 max_retries j = max_retries (snd x)"
    proof
      assume a: "x \<in> set (executing s) \<and> id' (snd x) \<notin> C"
      from n R have "id' (snd x) \<notin> retried s" by blast
      with ex a obtain j where j: "j \<in> set ?t" "id' j = id' (snd x)" "state j = PROCESSING"
        "locked_by j = Some (fst x)" "attempts j = attempts (snd x)"
        "max_retries j = max_retries (snd x)"
        unfolding exec_ok_def by blast
      from keep j(1,2) a have "j \<in> set ?t'" by simp
      with j show ?thesis by blast
    qed
  qed
  have tm': "timers_ok ?t' (retried s') (w_timers (s_world s'))"
    unfolding timers_ok_def
  proof (intro conjI ballI impI)
    show "distinct (filter (\<lambda>k. k \<notin> retried s') (map snd (w_timers (s_world s'))))"
      by (rule tmd)
  next
    fix k assume k: "k \<in> set (map snd (w_timers (s_world s')))" and n: "k \<notin> retried s'"
    from tmr k n have "(k \<in> set (map snd (w_timers (s_world s))) \<and> k \<notin> C) \<or>
                (\<exists>r\<in>set ?t'. id' r = k \<and> state r = FAILED)" by blast
    then show "\<exists>j\<in>set ?t'. id' j = k \<and> state j = FAILED"
    proof
      assume a: "k \<in> set (map snd (w_timers (s_world s))) \<and> k \<notin> C"
      from n R have "k \<notin> retried s" by blast
      with tm a obtain j where j: "j \<in> set ?t" "id' j = k" "state j = FAILED"
        unfolding timers_ok_def by blast
      from keep j(1,2) a have "j \<in> set ?t'" by simp
      with j show ?thesis by blast
    qed
  qed
  from pk' ok' ex' tm' show ?thesis by (simp add: sys_inv_def)
qed

lemma exec_row:
  assumes inv: "sys_inv s" and x: "(wid, lj) \<in> set (executing s)" and n: "id' lj \<notin> retried s"
    and j: "j \<in> set (w_jobs (s_world s))" "id' j = id' lj"
  shows "state j = PROCESSING \<and> locked_by j = Some wid \<and>
         attempts j = attempts lj \<and> max_retries j = max_retries lj"
proof -
  from inv have pk: "distinct (map id' (w_jobs (s_world s)))"
    and ex: "exec_ok (w_jobs (s_world s)) (retried s) (executing s)"
    by (simp_all add: sys_inv_def)
  from ex x n obtain j0 where j0: "j0 \<in> set (w_jobs (s_world s))" "id' j0 = id' lj"
      "state j0 = PROCESSING" "locked_by j0 = Some wid"
      "attempts j0 = attempts lj" "max_retries j0 = max_retries lj"
    unfolding exec_ok_def by force
  from rows_pk_unique[OF pk j0(1) j(1)] j(2) j0(2) have "j = j0" by simp
  with j0 show ?thesis by simp
qed

lemma timer_row:
  assumes inv: "sys_inv s" and x: "k \<in> snd ` set (w_timers (s_world s))" and n: "k \<notin> retried s"
    and j: "j \<in> set (w_jobs (s_world s))" "id' j = k"
  shows "state j = FAILED"
proof -
  from inv have pk: "distinct (map id' (w_jobs (s_world s)))"
    and tm: "timers_ok (w_jobs (s_world s)) (retried s) (w_timers (s_world s))"
    by (simp_all add: sys_inv_def)
  from tm x n obtain j0 where j0: "j0 \<in> set (w_jobs (s_world s))" "id' j0 = k" "state j0 = FAILED"
    unfolding timers_ok_def by force
  from rows_pk_unique[OF pk j0(1) j(1)] j(2) j0(2) have "j = j0" by simp
  with j0 show ?thesis by simp
qed

lemma row_ok:
  assumes inv: "sys_inv s" and j: "j \<in> set (w_jobs (s_world s))"
    and n: "id' j \<notin> retried s" and m: "1 \<le> max_retries j"
  shows "job_ok j"
  using assms by (simp add: sys_inv_def)

lemma enqueue_action_fresh:
  assumes "enqueue_action now uuid cfg spec t = (t', Inr j)"
  shows "t' = t @ [j] \<and> id' j \<notin> id' ` set t \<and> state j = PENDING \<and> attempts j = 0"
proof -
  from assms obtain jd where "thrown (enqueueJob now jd t) = (t', Inr j)"
    by (auto simp: enqueue_action_def split: if_splits sum.splits)
  then have "enqueueJob now jd t = (t', Inr j)"
    by (cases "enqueueJob now jd t") (auto simp: thrown_def split: sum.splits)
  from enqueueJob_returns[OF this] new_job_row[of now jd j] show ?thesis by simp
qed

lemma sys_inv_enqueue:
  assumes inv: "sys_inv s"
    and e: "enqueue_action now uuid (w_config (s_world s)) spec (w_jobs (s_world s)) = (t', Inr j)"
  shows "sys_inv (s\<lparr>s_world := (s_world s)\<lparr>w_jobs := t'\<rparr>\<rparr>)"
proof -
  from enqueue_action_fresh[OF e] have t': "t' = w_jobs (s_world s) @ [j]"
    and f: "id' j \<notin> id' ` set (w_jobs (s_world s))" and st: "state j = PENDING" "attempts j = 0"
    by simp_all
  from inv have pk: "distinct (map id' (w_jobs (s_world s)))"
    and ex: "exec_ok (w_jobs (s_world s)) (retried s) (executing s)"
    and tm: "timers_ok (w_jobs (s_world s)) (retried s) (w_timers (s_world s))"
    by (simp_all add: sys_inv_def)
  from st have okj: "1 \<le> max_retries j \<longrightarrow> job_ok j" by (simp add: job_ok_def)
  show ?thesis
  proof (rule sys_inv_step[OF inv, where C = "{}"])
    show "distinct (map id' (w_jobs (s_world (s\<lparr>s_world := (s_world s)\<lparr>w_jobs := t'\<rparr>\<rparr>))))"
      using pk f by (simp add: t')
    show "\<forall>r\<in>set (w_jobs (s_world s)). id' r \<notin> {} \<longrightarrow>
            r \<in> set (w_jobs (s_world (s\<lparr>s_world := (s_world s)\<lparr>w_jobs := t'\<rparr>\<rparr>)))"
      by (simp add: t')
    show "\<forall>r\<in>set (w_jobs (s_world (s\<lparr>s_world := (s_world s)\<lparr>w_jobs := t'\<rparr>\<rparr>))).
            r \<in> set (w_jobs (s_world s)) \<or>
            (id' r \<notin> retried (s\<lparr>s_world := (s_world s)\<lparr>w_jobs := t'\<rparr>\<rparr>) \<and> 1 \<le> max_retries r \<longrightarrow> job_ok r)"
      using okj by (auto simp: t')
    show "retried s \<subseteq> retried (s\<lparr>s_world := (s_world s)\<lparr>w_jobs := t'\<rparr>\<rparr>)" by simp
    show "distinct (filter (\<lambda>k. k \<notin> retried (s\<lparr>s_world := (s_world s)\<lparr>w_jobs := t'\<rparr>\<rparr>))
            (map (\<lambda>x. id' (snd x)) (executing (s\<lparr>s_world := (s_world s)\<lparr>w_jobs := t'\<rparr>\<rparr>))))"
      using ex by (simp add: exec_ok_def)
    show "\<forall>x\<in>set (executing (s\<lparr>s_world := (s_world s)\<lparr>w_jobs := t'\<rparr>\<rparr>)).
            id' (snd x) \<notin> retried (s\<lparr>s_world := (s_world s)\<lparr>w_jobs := t'\<rparr>\<rparr>) \<longrightarrow>
            (x \<in> set (executing s) \<and> id' (snd x) \<notin> {}) \<or>
            (\<exists>r\<in>set (w_jobs (s_world (s\<lparr>s_world := (s_world s)\<lparr>w_jobs := t'\<rparr>\<rparr>))).
                id' r = id' (snd x) \<and> state r = PROCESSING \<and>
                locked_by r = Some (fst x) \<and> attempts r = attempts (snd x) \<and>
                max_retries r = max_retries (snd x))"
      by simp
    show "distinct (filter (\<lambda>k. k \<notin> retried (s\<lparr>s_world := (s_world s)\<lparr>w_jobs := t'\<rparr>\<rparr>))
            (map snd (w_timers (s_world (s\<lparr>s_world := (s_world s)\<lparr>w_jobs := t'\<rparr>\<rparr>)))))"
      using tm by (simp add: timers_ok_def)
    show "\<forall>k\<in>set (map snd (w_timers (s_world (s\<lparr>s_world := (s_world s)\<lparr>w_jobs := t'\<rparr>\<rparr>)))).
            k \<notin> retried (s\<lparr>s_world := (s_world s)\<lparr>w_jobs := t'\<rparr>\<rparr>) \<longrightarrow>
            (k \<in> set (map snd (w_timers (s_world s))) \<and> k \<notin> {}) \<or>
            (\<exists>r\<in>set (w_jobs (s_world (s\<lparr>s_world := (s_world s)\<lparr>w_jobs := t'\<rparr>\<rparr>))).
                id' r = k \<and> state r = FAILED)"
      by simp
  qed
qed

lemma sys_inv_claim:
  assumes inv: "sys_inv s"
    and l: "lockJob now jobId wid (w_jobs (s_world s)) = (t', Inr (Some lj))"
  shows "sys_inv (s\<lparr>s_world := (s_world s)\<lparr>w_jobs := t'\<rparr>,
                    executing := (wid, lj) # executing s\<rparr>)"
proof -
  let ?t = "w_jobs (s_world s)" and ?tm = "w_timers (s_world s)"
  let ?s' = "s\<lparr>s_world := (s_world s)\<lparr>w_jobs := t'\<rparr>, executing := (wid, lj) # executing s\<rparr>"
  from inv have pk: "distinct (map id' ?t)"
    and ex: "exec_ok ?t (retried s) (executing s)"
    and tm: "timers_ok ?t (retried s) ?tm"
    by (simp_all add: sys_inv_def)
  from lockJob_Some[OF pk l] obtain j where j: "j \<in> set ?t" "id' j = jobId" "state j = PENDING"
      "locked_by j = None" and lj: "lj = lock_row now wid j"
      and t': "t' = map (\<lambda>r. if r = j then lj else r) ?t" by blast
  have idlj: "id' lj = id' j" by (simp add: lj lock_row_def)
  note rr = replace_rows[OF j(1) idlj pk]
  have other: "id' (snd x) \<noteq> id' j" if "x \<in> set (executing s)" "id' (snd x) \<notin> retried s" for x
  proof
    assume e: "id' (snd x) = id' j"
    from that(1) have x': "(fst x, snd x) \<in> set (executing s)" by simp
    from exec_row[OF inv x' that(2) j(1) e[symmetric]] have "state j = PROCESSING" by blast
    with j(3) show False by simp
  qed
  have othert: "k \<noteq> id' j" if "k \<in> snd ` set ?tm" "k \<notin> retried s" for k
  proof
    assume e: "k = id' j"
    from timer_row[OF inv that j(1) e[symmetric]] have "state j = FAILED" .
    with j(3) show False by simp
  qed
  show ?thesis
  proof (rule sys_inv_step[OF inv, where C = "{id' j}"])
    show "distinct (map id' (w_jobs (s_world ?s')))" using rr(1) by (simp add: t')
    show "\<forall>r\<in>set ?t. id' r \<notin> {id' j} \<longrightarrow> r \<in> set (w_jobs (s_world ?s'))"
      using rr(2) by (simp add: t')
    show "\<forall>r\<in>set (w_jobs (s_world ?s')). r \<in> set ?t \<or>
            (id' r \<notin> retried ?s' \<and> 1 \<le> max_retries r \<longrightarrow> job_ok r)"
    proof
      fix r assume "r \<in> set (w_jobs (s_world ?s'))"
      with rr(3) have "r \<in> set ?t \<or> r = lj" by (simp add: t')
      then show "r \<in> set ?t \<or> (id' r \<notin> retried ?s' \<and> 1 \<le> max_retries r \<longrightarrow> job_ok r)"
      proof
        assume "r = lj"
        have "id' j \<notin> retried s \<and> 1 \<le> max_retries j \<longrightarrow> job_ok lj"
        proof
          assume "id' j \<notin> retried s \<and> 1 \<le> max_retries j"
          with row_ok[OF inv j(1)] have "job_ok j" by simp
          with j(3) show "job_ok lj" by (simp add: lj lock_row_def job_ok_def)
        qed
        then show ?thesis using \<open>r = lj\<close> idlj by (simp add: lj lock_row_def)
      qed simp
    qed
    show "retried s \<subseteq> retried ?s'" by simp
    show "distinct (filter (\<lambda>k. k \<notin> retried ?s') (map (\<lambda>x. id' (snd x)) (executing ?s')))"
    proof -
      from ex have d: "distinct (filter (\<lambda>k. k \<notin> retried s) (map (\<lambda>x. id' (snd x)) (executing s)))"
        by (simp add: exec_ok_def)
      have "id' lj \<notin> set (filter (\<lambda>k. k \<notin> retried s) (map (\<lambda>x. id' (snd x)) (executing s)))"
      proof
        assume "id' lj \<in> set (filter (\<lambda>k. k \<notin> retried s) (map (\<lambda>x. id' (snd x)) (executing s)))"
        then obtain x where "x \<in> set (executing s)" "id' (snd x) \<notin> retried s" "id' (snd x) = id' lj"
          by auto
        with other[of x] idlj show False by simp
      qed
      with d show ?thesis by auto
    qed
    show "\<forall>x\<in>set (executing ?s'). id' (snd x) \<notin> retried ?s' \<longrightarrow>
            (x \<in> set (executing s) \<and> id' (snd x) \<notin> {id' j}) \<or>
            (\<exists>r\<in>set (w_jobs (s_world ?s')). id' r = id' (snd x) \<and> state r = PROCESSING \<and>
                locked_by r = Some (fst x) \<and> attempts r = attempts (snd x) \<and>
                max_retries r = max_retries (snd x))"
    proof (intro ballI impI)
      fix x assume x: "x \<in> set (executing ?s')" and n: "id' (snd x) \<notin> retried ?s'"
      from x have "x = (wid, lj) \<or> x \<in> set (executing s)" by simp
      then show "(x \<in> set (executing s) \<and> id' (snd x) \<notin> {id' j}) \<or>
            (\<exists>r\<in>set (w_jobs (s_world ?s')). id' r = id' (snd x) \<and> state r = PROCESSING \<and>
                locked_by r = Some (fst x) \<and> attempts r = attempts (snd x) \<and>
                max_retries r = max_retries (snd x))"
      proof
        assume e: "x = (wid, lj)"
        have "lj \<in> set (w_jobs (s_world ?s'))" using rr(4) by (simp add: t')
        moreover have "state lj = PROCESSING" "locked_by lj = Some wid"
          by (simp_all add: lj lock_row_def)
        ultimately show ?thesis using e by auto
      next
        assume e: "x \<in> set (executing s)"
        with other[of x] n show ?thesis by simp
      qed
    qed
    show "distinct (filter (\<lambda>k. k \<notin> retried ?s') (map snd (w_timers (s_world ?s'))))"
      using tm by (simp add: timers_ok_def)
    show "\<forall>k\<in>set (map snd (w_timers (s_world ?s'))). k \<notin> retried ?s' \<longrightarrow>
            (k \<in> set (map snd (w_timers (s_world s))) \<and> k \<notin> {id' j}) \<or>
            (\<exists>r\<in>set (w_jobs (s_world ?s')). id' r = k \<and> state r = FAILED)"
    proof (intro ballI impI)
      fix k assume k: "k \<in> set (map snd (w_timers (s_world ?s')))" and n: "k \<notin> retried ?s'"
      then have "k \<in> snd ` set ?tm" "k \<notin> retried s" by simp_all
      from othert[OF this] k
      show "(k \<in> set (map snd (w_timers (s_world s))) \<and> k \<notin> {id' j}) \<or>
            (\<exists>r\<in>set (w_jobs (s_world ?s')). id' r = k \<and> state r = FAILED)" by simp
    qed
  qed
qed

lemma handleJobFailure_cases:
  assumes pk: "distinct (map id' (w_jobs W))" and h: "handleJobFailure ev lj msg W = (W', err)"
  shows "(w_jobs W' = w_jobs W \<and> w_timers W' = w_timers W)
       \<or> (\<exists>j\<in>set (w_jobs W). id' j = id' lj \<and>
            (\<exists>j'. id' j' = id' j \<and> max_retries j' = max_retries j \<and>
                  attempts j' = attempts lj + 1 \<and>
                  state j' = (if max_retries lj \<le> attempts lj + 1 then DEAD else FAILED) \<and>
                  w_jobs W' = map (\<lambda>r. if r = j then j' else r) (w_jobs W) \<and>
                  (w_timers W' = w_timers W \<or>
                   state j' = FAILED \<and> (\<exists>d. w_timers W' = w_timers W @ [(d, id' lj)]))))"
proof (cases "f_failed ev")
  case (Some e)
  with h have "W' = W" by (simp add: handleJobFailure_def call_def)
  then show ?thesis by simp
next
  case None
  let ?e = "str_or (Some msg) ''Unknown error''"
  let ?a = "attempts lj + 1" and ?m = "max_retries lj"
  from markJobFailed_cases[OF pk, of "t_done ev" "id' lj" ?e ?a ?m]
  show ?thesis
  proof
    assume "\<exists>e. markJobFailed (t_done ev) (id' lj) ?e ?a ?m (w_jobs W) = (w_jobs W, Inl e)"
    then obtain e where "markJobFailed (t_done ev) (id' lj) ?e ?a ?m (w_jobs W) = (w_jobs W, Inl e)" ..
    with h None have "W' = W" by (simp add: handleJobFailure_def call_def)
    then show ?thesis by simp
  next
    assume "\<exists>j\<in>set (w_jobs W). id' j = id' lj \<and> in_int32 ?a \<and> text_ok ?e \<and>
             markJobFailed (t_done ev) (id' lj) ?e ?a ?m (w_jobs W) =
               (map (\<lambda>r. if r = j
                      then j\<lparr>state := (if ?a \<ge> ?m then DEAD else FAILED), attempts := ?a,
                             last_error := Some ?e, locked_by := None, locked_at := None,
                             updated_at := t_done ev\<rparr>
                      else r) (w_jobs W),
                Inr (j\<lparr>state := (if ?a \<ge> ?m then DEAD else FAILED), attempts := ?a,
                   last_error := Some ?e, locked_by := None, locked_at := None,
                   updated_at := t_done ev\<rparr>))"
    then obtain j where j: "j \<in> set (w_jobs W)" "id' j = id' lj"
      and mf: "markJobFailed (t_done ev) (id' lj) ?e ?a ?m (w_jobs W) =
               (map (\<lambda>r. if r = j
                      then j\<lparr>state := (if ?a \<ge> ?m then DEAD else FAILED), attempts := ?a,
                             last_error := Some ?e, locked_by := None, locked_at := None,
                             updated_at := t_done ev\<rparr>
                      else r) (w_jobs W),
                Inr (j\<lparr>state := (if ?a \<ge> ?m then DEAD else FAILED), attempts := ?a,
                   last_error := Some ?e, locked_by := None, locked_at := None,
                   updated_at := t_done ev\<rparr>))" by blast
    let ?j' = "j\<lparr>state := (if ?a \<ge> ?m then DEAD else FAILED), attempts := ?a,
                   last_error := Some ?e, locked_by := None, locked_at := None,
                   updated_at := t_done ev\<rparr>"
    have jobs: "w_jobs W' = map (\<lambda>r. if r = j then ?j' else r) (w_jobs W)"
      using h None mf
      by (auto simp: handleJobFailure_def call_def Let_def split: if_splits sum.splits option.splits)
    have tms: "w_timers W' = w_timers W \<or>
               state ?j' = FAILED \<and> (\<exists>d. w_timers W' = w_timers W @ [(d, id' lj)])"
      using h None mf
      by (auto simp: handleJobFailure_def call_def Let_def split: if_splits sum.splits option.splits)
    have "id' ?j' = id' j \<and> max_retries ?j' = max_retries j \<and> attempts ?j' = ?a \<and>
          state ?j' = (if ?m \<le> ?a then DEAD else FAILED)" by simp
    with j jobs tms show ?thesis by blast
  qed
qed

lemma executeJob_cases:
  assumes pk: "distinct (map id' (w_jobs W))" and x: "executeJob ev lj W = (W', err)"
  shows "(w_jobs W' = w_jobs W \<and> w_timers W' = w_timers W)
       \<or> (\<exists>j\<in>set (w_jobs W). id' j = id' lj \<and>
            (\<exists>j'. id' j' = id' j \<and> max_retries j' = max_retries j \<and>
                  (state j' = COMPLETED \<and> attempts j' = attempts j \<or>
                   attempts j' = attempts lj + 1 \<and>
                   state j' = (if max_retries lj \<le> attempts lj + 1 then DEAD else FAILED)) \<and>
                  w_jobs W' = map (\<lambda>r. if r = j then j' else r) (w_jobs W) \<and>
                  (w_timers W' = w_timers W \<or>
                   state j' = FAILED \<and> (\<exists>d. w_timers W' = w_timers W @ [(d, id' lj)]))))"
proof (cases "exec_res ev")
  case (ExecFailed msg)
  with x have "handleJobFailure ev lj msg W = (W', err)" by (simp add: executeJob_def)
  from handleJobFailure_cases[OF pk this] show ?thesis by blast
next
  case (Succeeded stdout stderr)
  let ?out = "str_or (Some stdout) (str_or (Some stderr) ''Command executed successfully'')"
  let ?u = "no_updates\<lparr>u_state := Some COMPLETED, u_output := Some (Some ?out),
                        u_locked_by := Some None, u_locked_at := Some None\<rparr>"
  have W: "W\<lparr>w_jobs := w_jobs W\<rparr> = W" by simp
  show ?thesis
  proof (cases "f_complete ev")
    case (Some e)
    with x Succeeded have "handleJobFailure ev lj (message e) W = (W', err)"
      by (simp add: executeJob_def call_def)
    from handleJobFailure_cases[OF pk this] show ?thesis by blast
  next
    case None
    from updateJob_cases[OF pk, of "t_done ev" "id' lj" ?u]
    show ?thesis
    proof
      assume "\<exists>e. updateJob (t_done ev) (id' lj) ?u (w_jobs W) = (w_jobs W, Inl e)"
      then obtain e where "updateJob (t_done ev) (id' lj) ?u (w_jobs W) = (w_jobs W, Inl e)" ..
      with x Succeeded None have "handleJobFailure ev lj (message e) W = (W', err)"
        by (simp add: executeJob_def call_def markJobCompleted_def)
      from handleJobFailure_cases[OF pk this] show ?thesis by blast
    next
      assume "\<exists>j\<in>set (w_jobs W). id' j = id' lj \<and>
               updateJob (t_done ev) (id' lj) ?u (w_jobs W) =
                 (map (\<lambda>r. if r = j then apply_updates ?u (t_done ev) j else r) (w_jobs W),
                  Inr (apply_updates ?u (t_done ev) j))"
      then obtain j where j: "j \<in> set (w_jobs W)" "id' j = id' lj"
        and u: "updateJob (t_done ev) (id' lj) ?u (w_jobs W) =
                 (map (\<lambda>r. if r = j then apply_updates ?u (t_done ev) j else r) (w_jobs W),
                  Inr (apply_updates ?u (t_done ev) j))" by blast
      let ?j' = "apply_updates ?u (t_done ev) j"
      from x Succeeded None u
      have W': "W' = W\<lparr>w_jobs := map (\<lambda>r. if r = j then ?j' else r) (w_jobs W)\<rparr>"
        by (simp add: executeJob_def call_def markJobCompleted_def)
      have p: "id' ?j' = id' j \<and> max_retries ?j' = max_retries j \<and> state ?j' = COMPLETED \<and>
            attempts ?j' = attempts j"
        by (simp add: apply_updates_def set_col_def no_updates_def)
      from W' have q: "w_jobs W' = map (\<lambda>r. if r = j then ?j' else r) (w_jobs W)"
        "w_timers W' = w_timers W" by simp_all
      from j p q show ?thesis by blast
    qed
  qed
qed

lemma requeueFailedJob_cases:
  assumes pk: "distinct (map id' t)" and r: "call fault (requeueFailedJob now jobId) t = (t', res)"
  shows "t' = t
       \<or> (\<exists>j\<in>set t. id' j = jobId \<and>
            (\<exists>j'. id' j' = id' j \<and> max_retries j' = max_retries j \<and> attempts j' = attempts j \<and>
                  state j' = PENDING \<and> t' = map (\<lambda>r. if r = j then j' else r) t))"
proof (cases fault)
  case (Some e)
  with r show ?thesis by (simp add: call_def)
next
  case None
  let ?u = "no_updates\<lparr>u_state := Some PENDING, u_locked_by := Some None, u_locked_at := Some None\<rparr>"
  from updateJob_cases[OF pk, of now jobId ?u]
  show ?thesis
  proof
    assume "\<exists>e. updateJob now jobId ?u t = (t, Inl e)"
    with r None show ?thesis by (auto simp: call_def requeueFailedJob_def)
  next
    assume "\<exists>j\<in>set t. id' j = jobId \<and>
               updateJob now jobId ?u t =
                 (map (\<lambda>r. if r = j then apply_updates ?u now j else r) t,
                  Inr (apply_updates ?u now j))"
    then obtain j where j: "j \<in> set t" "id' j = jobId"
      and u: "updateJob now jobId ?u t =
                 (map (\<lambda>r. if r = j then apply_updates ?u now j else r) t,
                  Inr (apply_updates ?u now j))" by blast
    let ?j' = "apply_updates ?u now j"
    from r None u have t': "t' = map (\<lambda>r. if r = j then ?j' else r) t"
      by (simp add: call_def requeueFailedJob_def)
    have "id' ?j' = id' j \<and> max_retries ?j' = max_retries j \<and> attempts ?j' = attempts j \<and>
          state ?j' = PENDING"
      by (simp add: apply_updates_def set_col_def no_updates_def)
    with j t' show ?thesis by blast
  qed
qed

lemma sys_inv_execute:
  assumes inv: "sys_inv s" and x: "(wid, lj) \<in> set (executing s)"
    and e: "executeJob ev lj (s_world s) = (W', err)"
  shows "sys_inv (s\<lparr>s_world := W', executing := remove1 (wid, lj) (executing s)\<rparr>)"
proof -
  let ?t = "w_jobs (s_world s)" and ?tm = "w_timers (s_world s)" and ?R = "retried s"
  let ?ex' = "remove1 (wid, lj) (executing s)"
  let ?s' = "s\<lparr>s_world := W', executing := ?ex'\<rparr>"
  from inv have pk: "distinct (map id' ?t)"
    and ex: "exec_ok ?t ?R (executing s)"
    and tm: "timers_ok ?t ?R ?tm"
    by (simp_all add: sys_inv_def)
  from ex have exd: "distinct (filter (\<lambda>k. k \<notin> ?R) (map (\<lambda>x. id' (snd x)) (executing s)))"
    by (simp add: exec_ok_def)
  from tm have tmd: "distinct (filter (\<lambda>k. k \<notin> ?R) (map snd ?tm))"
    by (simp add: timers_ok_def)
  have exd': "distinct (filter (\<lambda>k. k \<notin> ?R) (map (\<lambda>x. id' (snd x)) ?ex'))"
    using exd by (rule distinct_filter_remove1)
  have other: "id' (snd y) \<noteq> id' lj" if "y \<in> set ?ex'" "id' (snd y) \<notin> ?R" for y
  proof (cases "id' lj \<in> ?R")
    case True
    with that show ?thesis by auto
  next
    case False
    from remove1_other_key[of "\<lambda>k. k \<notin> ?R" "\<lambda>x. id' (snd x)" "executing s" "(wid, lj)" y]
      exd x False that(1)
    show ?thesis by simp
  qed
  have exr: "y \<in> set (executing s) \<and> id' (snd y) \<notin> {id' lj}"
    if "y \<in> set ?ex'" "id' (snd y) \<notin> ?R" for y
    using other[OF that] that(1) set_remove1_subset[of "(wid, lj)" "executing s"] by auto
  have row: "state j = PROCESSING \<and> attempts j = attempts lj \<and> max_retries j = max_retries lj"
    if "j \<in> set ?t" "id' j = id' lj" "id' lj \<notin> ?R" for j
    using exec_row[OF inv x that(3) that(1) that(2)] by simp
  have tmo: "k \<noteq> id' lj" if "k \<in> snd ` set ?tm" "k \<notin> ?R" for k
  proof
    assume k: "k = id' lj"
    with that have n: "id' lj \<notin> ?R" by simp
    from ex x n obtain j where j: "j \<in> set ?t" "id' j = id' lj" "state j = PROCESSING"
      unfolding exec_ok_def by force
    from timer_row[OF inv that j(1)] j(2) k have "state j = FAILED" by simp
    with j(3) show False by simp
  qed
  from executeJob_cases[OF pk e]
  show ?thesis
  proof
    assume same: "w_jobs W' = ?t \<and> w_timers W' = ?tm"
    show ?thesis
    proof (rule sys_inv_step[OF inv, where C = "{id' lj}"])
      show "distinct (map id' (w_jobs (s_world ?s')))" using pk same by simp
      show "\<forall>r\<in>set ?t. id' r \<notin> {id' lj} \<longrightarrow> r \<in> set (w_jobs (s_world ?s'))"
        using same by simp
      show "\<forall>r\<in>set (w_jobs (s_world ?s')). r \<in> set ?t \<or>
              (id' r \<notin> retried ?s' \<and> 1 \<le> max_retries r \<longrightarrow> job_ok r)"
        using same by simp
      show "?R \<subseteq> retried ?s'" by simp
      show "distinct (filter (\<lambda>k. k \<notin> retried ?s') (map (\<lambda>x. id' (snd x)) (executing ?s')))"
        using exd' by simp
      show "\<forall>x\<in>set (executing ?s'). id' (snd x) \<notin> retried ?s' \<longrightarrow>
              (x \<in> set (executing s) \<and> id' (snd x) \<notin> {id' lj}) \<or>
              (\<exists>r\<in>set (w_jobs (s_world ?s')). id' r = id' (snd x) \<and> state r = PROCESSING \<and>
                  locked_by r = Some (fst x) \<and> attempts r = attempts (snd x) \<and>
                  max_retries r = max_retries (snd x))"
        using exr by simp
      show "distinct (filter (\<lambda>k. k \<notin> retried ?s') (map snd (w_timers (s_world ?s'))))"
        using tmd same by simp
      show "\<forall>k\<in>set (map snd (w_timers (s_world ?s'))). k \<notin> retried ?s' \<longrightarrow>
              (k \<in> set (map snd ?tm) \<and> k \<notin> {id' lj}) \<or>
              (\<exists>r\<in>set (w_jobs (s_world ?s')). id' r = k \<and> state r = FAILED)"
        using tmo same by simp
    qed
  next
    assume "\<exists>j\<in>set ?t. id' j = id' lj \<and>
            (\<exists>j'. id' j' = id' j \<and> max_retries j' = max_retries j \<and>
                  (state j' = COMPLETED \<and> attempts j' = attempts j \<or>
                   attempts j' = attempts lj + 1 \<and>
                   state j' = (if max_retries lj \<le> attempts lj + 1 then DEAD else FAILED)) \<and>
                  w_jobs W' = map (\<lambda>r. if r = j then j' else r) ?t \<and>
                  (w_timers W' = ?tm \<or>
                   state j' = FAILED \<and> (\<exists>d. w_timers W' = ?tm @ [(d, id' lj)])))"
    then obtain j j' where j: "j \<in> set ?t" "id' j = id' lj"
      and j': "id' j' = id' j" "max_retries j' = max_retries j"
      and st: "state j' = COMPLETED \<and> attempts j' = attempts j \<or>
               attempts j' = attempts lj + 1 \<and>
               state j' = (if max_retries lj \<le> attempts lj + 1 then DEAD else FAILED)"
      and t': "w_jobs W' = map (\<lambda>r. if r = j then j' else r) ?t"
      and tm': "w_timers W' = ?tm \<or> state j' = FAILED \<and> (\<exists>d. w_timers W' = ?tm @ [(d, id' lj)])"
      by blast
    note rr = replace_rows[OF j(1) j'(1) pk]
    have okj': "job_ok j'" if "id' lj \<notin> ?R" "1 \<le> max_retries j'"
    proof -
      from row[OF j that(1)] have r: "state j = PROCESSING" "attempts j = attempts lj"
        "max_retries j = max_retries lj" by simp_all
      from row_ok[OF inv j(1)] that j(2) j'(2) have "job_ok j" by simp
      with r st j'(2) show ?thesis by (auto simp: job_ok_def split: if_splits)
    qed
    show ?thesis
    proof (rule sys_inv_step[OF inv, where C = "{id' lj}"])
      show "distinct (map id' (w_jobs (s_world ?s')))" using rr(1) by (simp add: t')
      show "\<forall>r\<in>set ?t. id' r \<notin> {id' lj} \<longrightarrow> r \<in> set (w_jobs (s_world ?s'))"
        using rr(2) j(2) by (simp add: t')
      show "\<forall>r\<in>set (w_jobs (s_world ?s')). r \<in> set ?t \<or>
              (id' r \<notin> retried ?s' \<and> 1 \<le> max_retries r \<longrightarrow> job_ok r)"
      proof
        fix r assume "r \<in> set (w_jobs (s_world ?s'))"
        with rr(3) have "r \<in> set ?t \<or> r = j'" by (simp add: t')
        then show "r \<in> set ?t \<or> (id' r \<notin> retried ?s' \<and> 1 \<le> max_retries r \<longrightarrow> job_ok r)"
          using okj' j'(1) j(2) by auto
      qed
      show "?R \<subseteq> retried ?s'" by simp
      show "distinct (filter (\<lambda>k. k \<notin> retried ?s') (map (\<lambda>x. id' (snd x)) (executing ?s')))"
        using exd' by simp
      show "\<forall>x\<in>set (executing ?s'). id' (snd x) \<notin> retried ?s' \<longrightarrow>
              (x \<in> set (executing s) \<and> id' (snd x) \<notin> {id' lj}) \<or>
              (\<exists>r\<in>set (w_jobs (s_world ?s')). id' r = id' (snd x) \<and> state r = PROCESSING \<and>
                  locked_by r = Some (fst x) \<and> attempts r = attempts (snd x) \<and>
                  max_retries r = max_retries (snd x))"
        using exr by simp
      from tm' show "distinct (filter (\<lambda>k. k \<notin> retried ?s') (map snd (w_timers (s_world ?s'))))"
      proof
        assume "w_timers W' = ?tm"
        with tmd show ?thesis by simp
      next
        assume "state j' = FAILED \<and> (\<exists>d. w_timers W' = ?tm @ [(d, id' lj)])"
        then obtain d where d: "w_timers W' = ?tm @ [(d, id' lj)]" by blast
        have "id' lj \<notin> ?R \<longrightarrow> id' lj \<notin> snd ` set ?tm" using tmo by blast
        with tmd show ?thesis by (auto simp: d)
      qed
      from tm' show "\<forall>k\<in>set (map snd (w_timers (s_world ?s'))). k \<notin> retried ?s' \<longrightarrow>
              (k \<in> set (map snd ?tm) \<and> k \<notin> {id' lj}) \<or>
              (\<exists>r\<in>set (w_jobs (s_world ?s')). id' r = k \<and> state r = FAILED)"
      proof
        assume "w_timers W' = ?tm"
        with tmo show ?thesis by simp
      next
        assume a: "state j' = FAILED \<and> (\<exists>d. w_timers W' = ?tm @ [(d, id' lj)])"
        then obtain d where d: "w_timers W' = ?tm @ [(d, id' lj)]" by blast
        have in': "j' \<in> set (w_jobs (s_world ?s'))" using rr(4) by (simp add: t')
        show ?thesis
        proof (intro ballI impI)
          fix k assume k: "k \<in> set (map snd (w_timers (s_world ?s')))" and n: "k \<notin> retried ?s'"
          from k d have "k = id' lj \<or> k \<in> snd ` set ?tm" by auto
          then show "(k \<in> set (map snd ?tm) \<and> k \<notin> {id' lj}) \<or>
              (\<exists>r\<in>set (w_jobs (s_world ?s')). id' r = k \<and> state r = FAILED)"
          proof
            assume "k = id' lj"
            with in' a j'(1) j(2) show ?thesis by auto
          next
            assume "k \<in> snd ` set ?tm"
            with tmo[of k] n show ?thesis by simp
          qed
        qed
      qed
    qed
  qed
qed

lemma sys_inv_timer:
  assumes inv: "sys_inv s" and x: "(d, jobId) \<in> set (w_timers (s_world s))"
  shows "sys_inv (s\<lparr>s_world := requeue_callback now fault jobId
                     ((s_world s)\<lparr>w_timers := remove1 (d, jobId) (w_timers (s_world s))\<rparr>)\<rparr>)"
proof -
  let ?t = "w_jobs (s_world s)" and ?tm = "w_timers (s_world s)" and ?R = "retried s"
  let ?tm' = "remove1 (d, jobId) ?tm"
  let ?W' = "requeue_callback now fault jobId ((s_world s)\<lparr>w_timers := ?tm'\<rparr>)"
  let ?s' = "s\<lparr>s_world := ?W'\<rparr>"
  obtain t' res where c: "call fault (requeueFailedJob now jobId) ?t = (t', res)"
    by (cases "call fault (requeueFailedJob now jobId) ?t") auto
  then have W': "w_jobs ?W' = t'" "w_timers ?W' = ?tm'"
    by (simp_all add: requeue_callback_def)
  from inv have pk: "distinct (map id' ?t)"
    and ex: "exec_ok ?t ?R (executing s)"
    and tm: "timers_ok ?t ?R ?tm"
    by (simp_all add: sys_inv_def)
  from ex have exd: "distinct (filter (\<lambda>k. k \<notin> ?R) (map (\<lambda>x. id' (snd x)) (executing s)))"
    by (simp add: exec_ok_def)
  from tm have tmd: "distinct (filter (\<lambda>k. k \<notin> ?R) (map snd ?tm))"
    by (simp add: timers_ok_def)
  have tmd': "distinct (filter (\<lambda>k. k \<notin> ?R) (map snd ?tm'))"
    using tmd by (rule distinct_filter_remove1)
  from x have xin: "jobId \<in> snd ` set ?tm" by force
  have tmr: "k \<in> set (map snd ?tm) \<and> k \<notin> {jobId}" if "k \<in> set (map snd ?tm')" "k \<notin> ?R" for k
  proof -
    from that(1) obtain y where y: "y \<in> set ?tm'" "snd y = k" by auto
    from y(1) set_remove1_subset[of "(d, jobId)" ?tm] have yin: "y \<in> set ?tm" by auto
    have "k \<noteq> jobId"
    proof (cases "jobId \<in> ?R")
      case True
      with that show ?thesis by auto
    next
      case False
      from remove1_other_key[of "\<lambda>k. k \<notin> ?R" snd ?tm "(d, jobId)" y] tmd x False y
      show ?thesis by simp
    qed
    with yin y(2) show ?thesis by auto
  qed
  have exo: "id' (snd y) \<noteq> jobId" if "y \<in> set (executing s)" "id' (snd y) \<notin> ?R" for y
  proof
    assume k: "id' (snd y) = jobId"
    from ex that obtain j where j: "j \<in> set ?t" "id' j = id' (snd y)" "state j = PROCESSING"
      unfolding exec_ok_def by force
    from k that(2) have n: "jobId \<notin> ?R" by simp
    from j(2) k have "id' j = jobId" by simp
    from timer_row[OF inv xin n j(1) this] j(3) show False by simp
  qed
  from requeueFailedJob_cases[OF pk c]
  show ?thesis
  proof
    assume same: "t' = ?t"
    show ?thesis
    proof (rule sys_inv_step[OF inv, where C = "{jobId}"])
      show "distinct (map id' (w_jobs (s_world ?s')))" using pk same W' by simp
      show "\<forall>r\<in>set ?t. id' r \<notin> {jobId} \<longrightarrow> r \<in> set (w_jobs (s_world ?s'))"
        using same W' by simp
      show "\<forall>r\<in>set (w_jobs (s_world ?s')). r \<in> set ?t \<or>
              (id' r \<notin> retried ?s' \<and> 1 \<le> max_retries r \<longrightarrow> job_ok r)"
        using same W' by simp
      show "?R \<subseteq> retried ?s'" by simp
      show "distinct (filter (\<lambda>k. k \<notin> retried ?s') (map (\<lambda>x. id' (snd x)) (executing ?s')))"
        using exd by simp
      show "\<forall>x\<in>set (executing ?s'). id' (snd x) \<notin> retried ?s' \<longrightarrow>
              (x \<in> set (executing s) \<and> id' (snd x) \<notin> {jobId}) \<or>
              (\<exists>r\<in>set (w_jobs (s_world ?s')). id' r = id' (snd x) \<and> state r = PROCESSING \<and>
                  locked_by r = Some (fst x) \<and> attempts r = attempts (snd x) \<and>
                  max_retries r = max_retries (snd x))"
        using exo by simp
      show "distinct (filter (\<lambda>k. k \<notin> retried ?s') (map snd (w_timers (s_world ?s'))))"
        using tmd' W' by simp
      show "\<forall>k\<in>set (map snd (w_timers (s_world ?s'))). k \<notin> retried ?s' \<longrightarrow>
              (k \<in> set (map snd ?tm) \<and> k \<notin> {jobId}) \<or>
              (\<exists>r\<in>set (w_jobs (s_world ?s')). id' r = k \<and> state r = FAILED)"
        using tmr W' by simp
    qed
  next
    assume "\<exists>j\<in>set ?t. id' j = jobId \<and>
            (\<exists>j'. id' j' = id' j \<and> max_retries j' = max_retries j \<and> attempts j' = attempts j \<and>
                  state j' = PENDING \<and> t' = map (\<lambda>r. if r = j then j' else r) ?t)"
    then obtain j j' where j: "j \<in> set ?t" "id' j = jobId"
      and j': "id' j' = id' j" "max_retries j' = max_retries j" "attempts j' = attempts j"
        "state j' = PENDING"
      and t': "t' = map (\<lambda>r. if r = j then j' else r) ?t" by blast
    note rr = replace_rows[OF j(1) j'(1) pk]
    have okj': "job_ok j'" if "jobId \<notin> ?R" "1 \<le> max_retries j'"
    proof -
      from timer_row[OF inv xin that(1) j] have f: "state j = FAILED" .
      from row_ok[OF inv j(1)] that j(2) j'(2) have "job_ok j" by simp
      with f j' show ?thesis by (auto simp: job_ok_def)
    qed
    show ?thesis
    proof (rule sys_inv_step[OF inv, where C = "{jobId}"])
      show "distinct (map id' (w_jobs (s_world ?s')))" using rr(1) W' by (simp add: t')
      show "\<forall>r\<in>set ?t. id' r \<notin> {jobId} \<longrightarrow> r \<in> set (w_jobs (s_world ?s'))"
        using rr(2) j(2) W' by (simp add: t')
      show "\<forall>r\<in>set (w_jobs (s_world ?s')). r \<in> set ?t \<or>
              (id' r \<notin> retried ?s' \<and> 1 \<le> max_retries r \<longrightarrow> job_ok r)"
      proof
        fix r assume "r \<in> set (w_jobs (s_world ?s'))"
        with rr(3) W' have "r \<in> set ?t \<or> r = j'" by (simp add: t')
        then show "r \<in> set ?t \<or> (id' r \<notin> retried ?s' \<and> 1 \<le> max_retries r \<longrightarrow> job_ok r)"
          using okj' j'(1) j(2) by auto
      qed
      show "?R \<subseteq> retried ?s'" by simp
      show "distinct (filter (\<lambda>k. k \<notin> retried ?s') (map (\<lambda>x. id' (snd x)) (executing ?s')))"
        using exd by simp
      show "\<forall>x\<in>set (executing ?s'). id' (snd x) \<notin> retried ?s' \<longrightarrow>
              (x \<in> set (executing s) \<and> id' (snd x) \<notin> {jobId}) \<or>
              (\<exists>r\<in>set (w_jobs (s_world ?s')). id' r = id' (snd x) \<and> state r = PROCESSING \<and>
                  locked_by r = Some (fst x) \<and> attempts r = attempts (snd x) \<and>
                  max_retries r = max_retries (snd x))"
        using exo by simp
      show "distinct (filter (\<lambda>k. k \<notin> retried ?s') (map snd (w_timers (s_world ?s'))))"
        using tmd' W' by simp
      show "\<forall>k\<in>set (map snd (w_timers (s_world ?s'))). k \<notin> retried ?s' \<longrightarrow>
              (k \<in> set (map snd ?tm) \<and> k \<notin> {jobId}) \<or>
              (\<exists>r\<in>set (w_jobs (s_world ?s')). id' r = k \<and> state r = FAILED)"
        using tmr W' by simp
    qed
  qed
qed

lemma sys_inv_dlq_write:
  assumes inv: "sys_inv s"
    and r: "requeueFailedJob now jobId (w_jobs (s_world s)) = (t', Inr job)"
  shows "sys_inv (s\<lparr>s_world := (s_world s)\<lparr>w_jobs := t'\<rparr>, retried := insert jobId (retried s)\<rparr>)"
proof -
  let ?t = "w_jobs (s_world s)" and ?tm = "w_timers (s_world s)" and ?R = "retried s"
  let ?s' = "s\<lparr>s_world := (s_world s)\<lparr>w_jobs := t'\<rparr>, retried := insert jobId (retried s)\<rparr>"
  from inv have pk: "distinct (map id' ?t)"
    and ex: "exec_ok ?t ?R (executing s)"
    and tm: "timers_ok ?t ?R ?tm"
    by (simp_all add: sys_inv_def)
  have sub: "?R \<subseteq> insert jobId ?R" by auto
  from ex have exd: "distinct (filter (\<lambda>k. k \<notin> insert jobId ?R) (map (\<lambda>x. id' (snd x)) (executing s)))"
    unfolding exec_ok_def using distinct_filter_mono[OF _ sub] by blast
  from tm have tmd: "distinct (filter (\<lambda>k. k \<notin> insert jobId ?R) (map snd ?tm))"
    unfolding timers_ok_def using distinct_filter_mono[OF _ sub] by blast
  from r have c: "call None (requeueFailedJob now jobId) ?t = (t', Inr job)" by (simp add: call_def)
  have rows: "distinct (map id' t') \<and> (\<forall>r\<in>set ?t. id' r \<notin> {jobId} \<longrightarrow> r \<in> set t') \<and>
              (\<forall>r\<in>set t'. r \<in> set ?t \<or> id' r = jobId)"
    using requeueFailedJob_cases[OF pk c]
  proof
    assume "t' = ?t"
    with pk show ?thesis by simp
  next
    assume "\<exists>j\<in>set ?t. id' j = jobId \<and>
            (\<exists>j'. id' j' = id' j \<and> max_retries j' = max_retries j \<and> attempts j' = attempts j \<and>
                  state j' = PENDING \<and> t' = map (\<lambda>r. if r = j then j' else r) ?t)"
    then obtain j j' where j: "j \<in> set ?t" "id' j = jobId" and j': "id' j' = id' j"
      and t': "t' = map (\<lambda>r. if r = j then j' else r) ?t" by blast
    from replace_rows[OF j(1) j' pk] j(2) j' show ?thesis unfolding t' by auto
  qed
  show ?thesis
  proof (rule sys_inv_step[OF inv, where C = "{jobId}"])
    show "distinct (map id' (w_jobs (s_world ?s')))" using rows by simp
    show "\<forall>r\<in>set ?t. id' r \<notin> {jobId} \<longrightarrow> r \<in> set (w_jobs (s_world ?s'))"
      using rows by simp
    show "\<forall>r\<in>set (w_jobs (s_world ?s')). r \<in> set ?t \<or>
            (id' r \<notin> retried ?s' \<and> 1 \<le> max_retries r \<longrightarrow> job_ok r)"
      using rows by auto
    show "?R \<subseteq> retried ?s'" by auto
    show "distinct (filter (\<lambda>k. k \<notin> retried ?s') (map (\<lambda>x. id' (snd x)) (executing ?s')))"
      using exd by simp
    show "\<forall>x\<in>set (executing ?s'). id' (snd x) \<notin> retried ?s' \<longrightarrow>
            (x \<in> set (executing s) \<and> id' (snd x) \<notin> {jobId}) \<or>
            (\<exists>r\<in>set (w_jobs (s_world ?s')). id' r = id' (snd x) \<and> state r = PROCESSING \<and>
                locked_by r = Some (fst x) \<and> attempts r = attempts (snd x) \<and>
                max_retries r = max_retries (snd x))"
      by simp
    show "distinct (filter (\<lambda>k. k \<notin> retried ?s') (map snd (w_timers (s_world ?s'))))"
      using tmd by simp
    show "\<forall>k\<in>set (map snd (w_timers (s_world ?s'))). k \<notin> retried ?s' \<longrightarrow>
            (k \<in> set (map snd ?tm) \<and> k \<notin> {jobId}) \<or>
            (\<exists>r\<in>set (w_jobs (s_world ?s')). id' r = k \<and> state r = FAILED)"
      by simp
  qed
qed

lemma sys_inv_same:
  assumes "sys_inv s" "w_jobs (s_world s') = w_jobs (s_world s)"
    "w_timers (s_world s') = w_timers (s_world s)" "executing s' = executing s"
    "retried s' = retried s"
  shows "sys_inv s'"
  using assms unfolding sys_inv_def by simp

lemma reachable_sys_inv: "reachable s \<Longrightarrow> sys_inv s"
proof (induction rule: reachable.induct)
  case (init cfg)
  show ?case by (simp add: sys_inv_def exec_ok_def timers_ok_def)
next
  case (enqueue s now uuid spec t' j)
  show ?case by (rule sys_inv_enqueue[OF enqueue.IH enqueue.hyps(2)])
next
  case (config s cfg)
  show ?case by (rule sys_inv_same[OF config.IH]) simp_all
next
  case (claim s now jobId wid t' lockedJob)
  show ?case by (rule sys_inv_claim[OF claim.IH claim.hyps(2)])
next
  case (execute s wid lockedJob ev W' err)
  show ?case by (rule sys_inv_execute[OF execute.IH execute.hyps(2) execute.hyps(3)])
next
  case (timer s d jobId now fault)
  show ?case by (rule sys_inv_timer[OF timer.IH timer.hyps(2)])
next
  case (dlq_read s jobId t' job)
  show ?case by (rule sys_inv_same[OF dlq_read.IH]) simp_all
next
  case (dlq_write s jobId now t' job)
  show ?case by (rule sys_inv_dlq_write[OF dlq_write.IH dlq_write.hyps(3)])
qed

text \<open>
  Claim C2, as amended. The states are those that any number of workers, their timers,
  the \<^verbatim>\<open>enqueue\<close> command with any \<^verbatim>\<open>max_retries\<close>, changes of the configuration and
  \<^verbatim>\<open>dlq retry\<close> reach from an empty queue, whatever fails on the way. In every such state,
  every job that was created with a \<^verbatim>\<open>max_retries\<close> of at least 1 and that no \<^verbatim>\<open>dlq retry\<close>
  has requeued has \<^verbatim>\<open>attempts\<close> between 0 and \<^verbatim>\<open>max_retries\<close>, and is \<^verbatim>\<open>dead\<close> exactly when
  \<^verbatim>\<open>attempts\<close> equals \<^verbatim>\<open>max_retries\<close>; the other jobs of the store do not matter.
  \<^verbatim>\<open>dlq retry\<close> on a \<^verbatim>\<open>dead\<close> job makes it \<^verbatim>\<open>pending\<close> with its attempts as they were. And
  when a job whose \<^verbatim>\<open>attempts\<close> have reached \<^verbatim>\<open>max_retries\<close> or are beyond fails, as every
  job that was \<^verbatim>\<open>dead\<close> does, \<^verbatim>\<open>handleJobFailure\<close> stores one attempt more, which is above
  \<^verbatim>\<open>max_retries\<close>, makes the job \<^verbatim>\<open>dead\<close> at once and sets no timer.
\<close>

theorem attempts_bounded:
  "(reachable s \<longrightarrow>
      (\<forall>j\<in>set (w_jobs (s_world s)). id' j \<notin> retried s \<and> 1 \<le> max_retries j \<longrightarrow>
         0 \<le> attempts j \<and> attempts j \<le> max_retries j \<and>
         (state j = DEAD \<longleftrightarrow> attempts j = max_retries j)))
   \<and> (distinct (map id' t) \<and> j \<in> set t \<and> state j = DEAD \<longrightarrow>
        dlq_retry now (id' j) t =
          (map (\<lambda>r. if r = j
                     then j\<lparr>state := PENDING, locked_by := None, locked_at := None, updated_at := now\<rparr>
                     else r) t,
           Inr (j\<lparr>state := PENDING, locked_by := None, locked_at := None, updated_at := now\<rparr>)))
   \<and> (distinct (map id' (w_jobs W)) \<and> j \<in> set (w_jobs W) \<and> id' j = id' lj \<and>
       max_retries lj \<le> attempts lj \<and> - 2147483649 \<le> attempts lj \<and> attempts lj < 2147483647 \<and>
       CHR 0x00 \<notin> set msg \<and> f_failed ev = None \<longrightarrow>
        handleJobFailure ev lj msg W =
          (W\<lparr>w_jobs :=
               map (\<lambda>r. if r = j
                         then j\<lparr>state := DEAD, attempts := attempts lj + 1,
                                last_error := Some (str_or (Some msg) ''Unknown error''),
                                locked_by := None, locked_at := None, updated_at := t_done ev\<rparr>
                         else r) (w_jobs W)\<rparr>, None))"
proof (intro conjI impI)
  assume r: "reachable s"
  show "\<forall>j\<in>set (w_jobs (s_world s)). id' j \<notin> retried s \<and> 1 \<le> max_retries j \<longrightarrow>
         0 \<le> attempts j \<and> attempts j \<le> max_retries j \<and>
         (state j = DEAD \<longleftrightarrow> attempts j = max_retries j)"
  proof (intro ballI impI)
    fix j assume j: "j \<in> set (w_jobs (s_world s))" and c: "id' j \<notin> retried s \<and> 1 \<le> max_retries j"
    from row_ok[OF reachable_sys_inv[OF r] j] c have "job_ok j" by simp
    then show "0 \<le> attempts j \<and> attempts j \<le> max_retries j \<and>
           (state j = DEAD \<longleftrightarrow> attempts j = max_retries j)"
      by (auto simp: job_ok_def)
  qed
next
  assume a: "distinct (map id' t) \<and> j \<in> set t \<and> state j = DEAD"
  then have pk: "distinct (map id' t)" and j: "j \<in> set t" by simp_all
  have f: "filter (\<lambda>r. id' r = id' j) t = [j]"
    using filter_pk_hit[OF pk j, of "\<lambda>r. True"] by simp
  have g: "getJob (id' j) t = (t, Inr (Some j))"
    by (simp add: getJob_def f maybeSingle_def)
  show "dlq_retry now (id' j) t =
          (map (\<lambda>r. if r = j
                     then j\<lparr>state := PENDING, locked_by := None, locked_at := None, updated_at := now\<rparr>
                     else r) t,
           Inr (j\<lparr>state := PENDING, locked_by := None, locked_at := None, updated_at := now\<rparr>))"
    using a by (simp add: dlq_retry_def g requeueFailedJob_hit[OF pk j] thrown_def)
next
  assume a: "distinct (map id' (w_jobs W)) \<and> j \<in> set (w_jobs W) \<and> id' j = id' lj \<and>
       max_retries lj \<le> attempts lj \<and> - 2147483649 \<le> attempts lj \<and> attempts lj < 2147483647 \<and>
       CHR 0x00 \<notin> set msg \<and> f_failed ev = None"
  then have pk: "distinct (map id' (w_jobs W))" and j: "j \<in> set (w_jobs W)" by simp_all
  let ?e = "str_or (Some msg) ''Unknown error''"
  have te: "text_ok ?e" using a by (simp add: str_or_def text_ok_def)
  have ia: "in_int32 (attempts lj + 1)" using a by (simp add: in_int32_def)
  from markJobFailed_hit[OF pk j ia te, of "t_done ev" "max_retries lj"] a
  show "handleJobFailure ev lj msg W =
          (W\<lparr>w_jobs :=
               map (\<lambda>r. if r = j
                         then j\<lparr>state := DEAD, attempts := attempts lj + 1,
                                last_error := Some ?e,
                                locked_by := None, locked_at := None, updated_at := t_done ev\<rparr>
                         else r) (w_jobs W)\<rparr>, None)"
    by (simp add: handleJobFailure_def Let_def call_def)
qed

lemmas run_defs = enqueue_action_def str_or_def thrown_def enqueueJob_def insert_row_def
  single_def maybeSingle_def new_job_def store_time_def js_or_def js_truthy_def js_number_def store_int_def
  in_int32_def text_ok_def updates_ok_def lockJob_def update_where_def lock_row_def
  executeJob_def handleJobFailure_def call_def markJobFailed_def markJobCompleted_def updateJob_def
  apply_updates_def set_col_def no_updates_def getConfig_def parseInt_2 or_default_def Let_def
  setTimeout_delay_def requeue_callback_def requeueFailedJob_def getJob_def

text \<open>
  A run: a job with a negative limit is created, fails once, is \<^verbatim>\<open>dead\<close> and is brought
  back by \<^verbatim>\<open>dlq retry\<close>; beside it, a job with the limit 2 fails twice and is \<^verbatim>\<open>dead\<close>.
\<close>

lemma reach1: "reachable \<lparr>s_world = \<lparr>w_jobs = [\<lparr>id' = ''n1'', command = ''false'', state = PENDING, attempts = 0, max_retries = - 1,
          created_at = 1, updated_at = 1, scheduled_at = None, last_error = None,
          output' = None, locked_by = None, locked_at = None\<rparr>],
        w_config = [''backoff_base'' \<mapsto> ''2''], w_timers = []\<rparr>,
      executing = [], armed = {}, retried = {}\<rparr>"
  using reachable.enqueue [OF reachable.init [of "[''backoff_base'' \<mapsto> ''2'']"], where now = "1" and uuid = "''u''" and spec = "\<lparr>js_id = Some ''n1'', js_command = Some ''false'', js_max_retries = JNum (- 1), js_scheduled_at = NoTime\<rparr>" and t' = "[\<lparr>id' = ''n1'', command = ''false'', state = PENDING, attempts = 0, max_retries = - 1,
          created_at = 1, updated_at = 1, scheduled_at = None, last_error = None,
          output' = None, locked_by = None, locked_at = None\<rparr>]" and j = "\<lparr>id' = ''n1'', command = ''false'', state = PENDING, attempts = 0, max_retries = - 1,
          created_at = 1, updated_at = 1, scheduled_at = None, last_error = None,
          output' = None, locked_by = None, locked_at = None\<rparr>"]
  by (simp add: run_defs)

lemma reach2: "reachable \<lparr>s_world = \<lparr>w_jobs = [\<lparr>id' = ''n1'', command = ''false'', state = PENDING, attempts = 0, max_retries = - 1,
          created_at = 1, updated_at = 1, scheduled_at = None, last_error = None,
          output' = None, locked_by = None, locked_at = None\<rparr>,
          \<lparr>id' = ''t2'', command = ''false'', state = PENDING, attempts = 0, max_retries = 2,
          created_at = 2, updated_at = 2, scheduled_at = None, last_error = None,
          output' = None, locked_by = None, locked_at = None\<rparr>],
        w_config = [''backoff_base'' \<mapsto> ''2''], w_timers = []\<rparr>,
      executing = [], armed = {}, retried = {}\<rparr>"
  using reachable.enqueue [OF reach1, where now = "2" and uuid = "''u''" and spec = "\<lparr>js_id = Some ''t2'', js_command = Some ''false'', js_max_retries = JNum 2, js_scheduled_at = NoTime\<rparr>" and t' = "[\<lparr>id' = ''n1'', command = ''false'', state = PENDING, attempts = 0, max_retries = - 1,
          created_at = 1, updated_at = 1, scheduled_at = None, last_error = None,
          output' = None, locked_by = None, locked_at = None\<rparr>,
          \<lparr>id' = ''t2'', command = ''false'', state = PENDING, attempts = 0, max_retries = 2,
          created_at = 2, updated_at = 2, scheduled_at = None, last_error = None,
          output' = None, locked_by = None, locked_at = None\<rparr>]" and j = "\<lparr>id' = ''t2'', command = ''false'', state = PENDING, attempts = 0, max_retries = 2,
          created_at = 2, updated_at = 2, scheduled_at = None, last_error = None,
          output' = None, locked_by = None, locked_at = None\<rparr>"]
  by (simp add: run_defs)

lemma reach3: "reachable \<lparr>s_world = \<lparr>w_jobs = [\<lparr>id' = ''n1'', command = ''false'', state = PROCESSING, attempts = 0, max_retries = - 1,
          created_at = 1, updated_at = 3, scheduled_at = None, last_error = None,
          output' = None, locked_by = Some ''w1'', locked_at = Some 3\<rparr>,
          \<lparr>id' = ''t2'', command = ''false'', state = PENDING, attempts = 0, max_retries = 2,
          created_at = 2, updated_at = 2, scheduled_at = None, last_error = None,
          output' = None, locked_by = None, locked_at = None\<rparr>],
        w_config = [''backoff_base'' \<mapsto> ''2''], w_timers = []\<rparr>,
      executing = [(''w1'', \<lparr>id' = ''n1'', command = ''false'', state = PROCESSING, attempts = 0, max_retries = - 1,
          created_at = 1, updated_at = 3, scheduled_at = None, last_error = None,
          output' = None, locked_by = Some ''w1'', locked_at = Some 3\<rparr>)], armed = {}, retried = {}\<rparr>"
  using reachable.claim [OF reach2, where now = "3" and jobId = "''n1''" and wid = "''w1''" and t' = "[\<lparr>id' = ''n1'', command = ''false'', state = PROCESSING, attempts = 0, max_retries = - 1,
          created_at = 1, updated_at = 3, scheduled_at = None, last_error = None,
          output' = None, locked_by = Some ''w1'', locked_at = Some 3\<rparr>,
          \<lparr>id' = ''t2'', command = ''false'', state = PENDING, attempts = 0, max_retries = 2,
          created_at = 2, updated_at = 2, scheduled_at = None, last_error = None,
          output' = None, locked_by = None, locked_at = None\<rparr>]" and lockedJob = "\<lparr>id' = ''n1'', command = ''false'', state = PROCESSING, attempts = 0, max_retries = - 1,
          created_at = 1, updated_at = 3, scheduled_at = None, last_error = None,
          output' = None, locked_by = Some ''w1'', locked_at = Some 3\<rparr>"]
  by (simp add: run_defs)

lemma reach4: "reachable \<lparr>s_world = \<lparr>w_jobs = [\<lparr>id' = ''n1'', command = ''false'', state = DEAD, attempts = 1, max_retries = - 1,
          created_at = 1, updated_at = 4, scheduled_at = None, last_error = Some ''Command failed: false'',
          output' = None, locked_by = None, locked_at = None\<rparr>,
          \<lparr>id' = ''t2'', command = ''false'', state = PENDING, attempts = 0, max_retries = 2,
          created_at = 2, updated_at = 2, scheduled_at = None, last_error = None,
          output' = None, locked_by = None, locked_at = None\<rparr>],
        w_config = [''backoff_base'' \<mapsto> ''2''], w_timers = []\<rparr>,
      executing = [], armed = {}, retried = {}\<rparr>"
  using reachable.execute [OF reach3, where wid = "''w1''" and lockedJob = "\<lparr>id' = ''n1'', command = ''false'', state = PROCESSING, attempts = 0, max_retries = - 1,
          created_at = 1, updated_at = 3, scheduled_at = None, last_error = None,
          output' = None, locked_by = Some ''w1'', locked_at = Some 3\<rparr>" and ev = "\<lparr>t_poll = 2, t_lock = 3, t_done = 4, exec_res = ExecFailed ''Command failed: false'',
          f_getNext = None, f_lock = None, f_complete = None, f_failed = None, f_config = None\<rparr>" and W' = "\<lparr>w_jobs = [\<lparr>id' = ''n1'', command = ''false'', state = DEAD, attempts = 1, max_retries = - 1,
          created_at = 1, updated_at = 4, scheduled_at = None, last_error = Some ''Command failed: false'',
          output' = None, locked_by = None, locked_at = None\<rparr>,
          \<lparr>id' = ''t2'', command = ''false'', state = PENDING, attempts = 0, max_retries = 2,
          created_at = 2, updated_at = 2, scheduled_at = None, last_error = None,
          output' = None, locked_by = None, locked_at = None\<rparr>],
        w_config = [''backoff_base'' \<mapsto> ''2''], w_timers = []\<rparr>" and err = "None"]
  by (simp add: run_defs)

lemma reach5: "reachable \<lparr>s_world = \<lparr>w_jobs = [\<lparr>id' = ''n1'', command = ''false'', state = DEAD, attempts = 1, max_retries = - 1,
          created_at = 1, updated_at = 4, scheduled_at = None, last_error = Some ''Command failed: false'',
          output' = None, locked_by = None, locked_at = None\<rparr>,
          \<lparr>id' = ''t2'', command = ''false'', state = PENDING, attempts = 0, max_retries = 2,
          created_at = 2, updated_at = 2, scheduled_at = None, last_error = None,
          output' = None, locked_by = None, locked_at = None\<rparr>],
        w_config = [''backoff_base'' \<mapsto> ''2''], w_timers = []\<rparr>,
      executing = [], armed = {''n1''}, retried = {}\<rparr>"
  using reachable.dlq_read [OF reach4, where jobId = "''n1''" and t' = "[\<lparr>id' = ''n1'', command = ''false'', state = DEAD, attempts = 1, max_retries = - 1,
          created_at = 1, updated_at = 4, scheduled_at = None, last_error = Some ''Command failed: false'',
          output' = None, locked_by = None, locked_at = None\<rparr>,
          \<lparr>id' = ''t2'', command = ''false'', state = PENDING, attempts = 0, max_retries = 2,
          created_at = 2, updated_at = 2, scheduled_at = None, last_error = None,
          output' = None, locked_by = None, locked_at = None\<rparr>]" and job = "\<lparr>id' = ''n1'', command = ''false'', state = DEAD, attempts = 1, max_retries = - 1,
          created_at = 1, updated_at = 4, scheduled_at = None, last_error = Some ''Command failed: false'',
          output' = None, locked_by = None, locked_at = None\<rparr>"]
  by (simp add: run_defs)

lemma reach6: "reachable \<lparr>s_world = \<lparr>w_jobs = [\<lparr>id' = ''n1'', command = ''false'', state = PENDING, attempts = 1, max_retries = - 1,
          created_at = 1, updated_at = 6, scheduled_at = None, last_error = Some ''Command failed: false'',
          output' = None, locked_by = None, locked_at = None\<rparr>,
          \<lparr>id' = ''t2'', command = ''false'', state = PENDING, attempts = 0, max_retries = 2,
          created_at = 2, updated_at = 2, scheduled_at = None, last_error = None,
          output' = None, locked_by = None, locked_at = None\<rparr>],
        w_config = [''backoff_base'' \<mapsto> ''2''], w_timers = []\<rparr>,
      executing = [], armed = {''n1''}, retried = {''n1''}\<rparr>"
  using reachable.dlq_write [OF reach5, where jobId = "''n1''" and now = "6" and t' = "[\<lparr>id' = ''n1'', command = ''false'', state = PENDING, attempts = 1, max_retries = - 1,
          created_at = 1, updated_at = 6, scheduled_at = None, last_error = Some ''Command failed: false'',
          output' = None, locked_by = None, locked_at = None\<rparr>,
          \<lparr>id' = ''t2'', command = ''false'', state = PENDING, attempts = 0, max_retries = 2,
          created_at = 2, updated_at = 2, scheduled_at = None, last_error = None,
          output' = None, locked_by = None, locked_at = None\<rparr>]" and job = "\<lparr>id' = ''n1'', command = ''false'', state = PENDING, attempts = 1, max_retries = - 1,
          created_at = 1, updated_at = 6, scheduled_at = None, last_error = Some ''Command failed: false'',
          output' = None, locked_by = None, locked_at = None\<rparr>"]
  by (simp add: run_defs)

lemma reach7: "reachable \<lparr>s_world = \<lparr>w_jobs = [\<lparr>id' = ''n1'', command = ''false'', state = PENDING, attempts = 1, max_retries = - 1,
          created_at = 1, updated_at = 6, scheduled_at = None, last_error = Some ''Command failed: false'',
          output' = None, locked_by = None, locked_at = None\<rparr>,
          \<lparr>id' = ''t2'', command = ''false'', state = PROCESSING, attempts = 0, max_retries = 2,
          created_at = 2, updated_at = 7, scheduled_at = None, last_error = None,
          output' = None, locked_by = Some ''w1'', locked_at = Some 7\<rparr>],
        w_config = [''backoff_base'' \<mapsto> ''2''], w_timers = []\<rparr>,
      executing = [(''w1'', \<lparr>id' = ''t2'', command = ''false'', state = PROCESSING, attempts = 0, max_retries = 2,
          created_at = 2, updated_at = 7, scheduled_at = None, last_error = None,
          output' = None, locked_by = Some ''w1'', locked_at = Some 7\<rparr>)], armed = {''n1''}, retried = {''n1''}\<rparr>"
  using reachable.claim [OF reach6, where now = "7" and jobId = "''t2''" and wid = "''w1''" and t' = "[\<lparr>id' = ''n1'', command = ''false'', state = PENDING, attempts = 1, max_retries = - 1,
          created_at = 1, updated_at = 6, scheduled_at = None, last_error = Some ''Command failed: false'',
          output' = None, locked_by = None, locked_at = None\<rparr>,
          \<lparr>id' = ''t2'', command = ''false'', state = PROCESSING, attempts = 0, max_retries = 2,
          created_at = 2, updated_at = 7, scheduled_at = None, last_error = None,
          output' = None, locked_by = Some ''w1'', locked_at = Some 7\<rparr>]" and lockedJob = "\<lparr>id' = ''t2'', command = ''false'', state = PROCESSING, attempts = 0, max_retries = 2,
          created_at = 2, updated_at = 7, scheduled_at = None, last_error = None,
          output' = None, locked_by = Some ''w1'', locked_at = Some 7\<rparr>"]
  by (simp add: run_defs)

lemma reach8: "reachable \<lparr>s_world = \<lparr>w_jobs = [\<lparr>id' = ''n1'', command = ''false'', state = PENDING, attempts = 1, max_retries = - 1,
          created_at = 1, updated_at = 6, scheduled_at = None, last_error = Some ''Command failed: false'',
          output' = None, locked_by = None, locked_at = None\<rparr>,
          \<lparr>id' = ''t2'', command = ''false'', state = FAILED, attempts = 1, max_retries = 2,
          created_at = 2, updated_at = 8, scheduled_at = None, last_error = Some ''Command failed: false'',
          output' = None, locked_by = None, locked_at = None\<rparr>],
        w_config = [''backoff_base'' \<mapsto> ''2''], w_timers = [(2000, ''t2'')]\<rparr>,
      executing = [], armed = {''n1''}, retried = {''n1''}\<rparr>"
  using reachable.execute [OF reach7, where wid = "''w1''" and lockedJob = "\<lparr>id' = ''t2'', command = ''false'', state = PROCESSING, attempts = 0, max_retries = 2,
          created_at = 2, updated_at = 7, scheduled_at = None, last_error = None,
          output' = None, locked_by = Some ''w1'', locked_at = Some 7\<rparr>" and ev = "\<lparr>t_poll = 6, t_lock = 7, t_done = 8, exec_res = ExecFailed ''Command failed: false'',
          f_getNext = None, f_lock = None, f_complete = None, f_failed = None, f_config = None\<rparr>" and W' = "\<lparr>w_jobs = [\<lparr>id' = ''n1'', command = ''false'', state = PENDING, attempts = 1, max_retries = - 1,
          created_at = 1, updated_at = 6, scheduled_at = None, last_error = Some ''Command failed: false'',
          output' = None, locked_by = None, locked_at = None\<rparr>,
          \<lparr>id' = ''t2'', command = ''false'', state = FAILED, attempts = 1, max_retries = 2,
          created_at = 2, updated_at = 8, scheduled_at = None, last_error = Some ''Command failed: false'',
          output' = None, locked_by = None, locked_at = None\<rparr>],
        w_config = [''backoff_base'' \<mapsto> ''2''], w_timers = [(2000, ''t2'')]\<rparr>" and err = "None"]
  by (simp add: run_defs)

lemma reach9: "reachable \<lparr>s_world = \<lparr>w_jobs = [\<lparr>id' = ''n1'', command = ''false'', state = PENDING, attempts = 1, max_retries = - 1,
          created_at = 1, updated_at = 6, scheduled_at = None, last_error = Some ''Command failed: false'',
          output' = None, locked_by = None, locked_at = None\<rparr>,
          \<lparr>id' = ''t2'', command = ''false'', state = PENDING, attempts = 1, max_retries = 2,
          created_at = 2, updated_at = 2008, scheduled_at = None, last_error = Some ''Command failed: false'',
          output' = None, locked_by = None, locked_at = None\<rparr>],
        w_config = [''backoff_base'' \<mapsto> ''2''], w_timers = []\<rparr>,
      executing = [], armed = {''n1''}, retried = {''n1''}\<rparr>"
  using reachable.timer [OF reach8, where d = "2000" and jobId = "''t2''" and now = "2008" and fault = "None"]
  by (simp add: run_defs)

lemma reach10: "reachable \<lparr>s_world = \<lparr>w_jobs = [\<lparr>id' = ''n1'', command = ''false'', state = PENDING, attempts = 1, max_retries = - 1,
          created_at = 1, updated_at = 6, scheduled_at = None, last_error = Some ''Command failed: false'',
          output' = None, locked_by = None, locked_at = None\<rparr>,
          \<lparr>id' = ''t2'', command = ''false'', state = PROCESSING, attempts = 1, max_retries = 2,
          created_at = 2, updated_at = 2009, scheduled_at = None, last_error = Some ''Command failed: false'',
          output' = None, locked_by = Some ''w2'', locked_at = Some 2009\<rparr>],
        w_config = [''backoff_base'' \<mapsto> ''2''], w_timers = []\<rparr>,
      executing = [(''w2'', \<lparr>id' = ''t2'', command = ''false'', state = PROCESSING, attempts = 1, max_retries = 2,
          created_at = 2, updated_at = 2009, scheduled_at = None, last_error = Some ''Command failed: false'',
          output' = None, locked_by = Some ''w2'', locked_at = Some 2009\<rparr>)], armed = {''n1''}, retried = {''n1''}\<rparr>"
  using reachable.claim [OF reach9, where now = "2009" and jobId = "''t2''" and wid = "''w2''" and t' = "[\<lparr>id' = ''n1'', command = ''false'', state = PENDING, attempts = 1, max_retries = - 1,
          created_at = 1, updated_at = 6, scheduled_at = None, last_error = Some ''Command failed: false'',
          output' = None, locked_by = None, locked_at = None\<rparr>,
          \<lparr>id' = ''t2'', command = ''false'', state = PROCESSING, attempts = 1, max_retries = 2,
          created_at = 2, updated_at = 2009, scheduled_at = None, last_error = Some ''Command failed: false'',
          output' = None, locked_by = Some ''w2'', locked_at = Some 2009\<rparr>]" and lockedJob = "\<lparr>id' = ''t2'', command = ''false'', state = PROCESSING, attempts = 1, max_retries = 2,
          created_at = 2, updated_at = 2009, scheduled_at = None, last_error = Some ''Command failed: false'',
          output' = None, locked_by = Some ''w2'', locked_at = Some 2009\<rparr>"]
  by (simp add: run_defs)

lemma reach11: "reachable \<lparr>s_world = \<lparr>w_jobs = [\<lparr>id' = ''n1'', command = ''false'', state = PENDING, attempts = 1, max_retries = - 1,
          created_at = 1, updated_at = 6, scheduled_at = None, last_error = Some ''Command failed: false'',
          output' = None, locked_by = None, locked_at = None\<rparr>,
          \<lparr>id' = ''t2'', command = ''false'', state = DEAD, attempts = 2, max_retries = 2,
          created_at = 2, updated_at = 2010, scheduled_at = None, last_error = Some ''Command failed: false'',
          output' = None, locked_by = None, locked_at = None\<rparr>],
        w_config = [''backoff_base'' \<mapsto> ''2''], w_timers = []\<rparr>,
      executing = [], armed = {''n1''}, retried = {''n1''}\<rparr>"
  using reachable.execute [OF reach10, where wid = "''w2''" and lockedJob = "\<lparr>id' = ''t2'', command = ''false'', state = PROCESSING, attempts = 1, max_retries = 2,
          created_at = 2, updated_at = 2009, scheduled_at = None, last_error = Some ''Command failed: false'',
          output' = None, locked_by = Some ''w2'', locked_at = Some 2009\<rparr>" and ev = "\<lparr>t_poll = 2008, t_lock = 2009, t_done = 2010, exec_res = ExecFailed ''Command failed: false'',
          f_getNext = None, f_lock = None, f_complete = None, f_failed = None, f_config = None\<rparr>" and W' = "\<lparr>w_jobs = [\<lparr>id' = ''n1'', command = ''false'', state = PENDING, attempts = 1, max_retries = - 1,
          created_at = 1, updated_at = 6, scheduled_at = None, last_error = Some ''Command failed: false'',
          output' = None, locked_by = None, locked_at = None\<rparr>,
          \<lparr>id' = ''t2'', command = ''false'', state = DEAD, attempts = 2, max_retries = 2,
          created_at = 2, updated_at = 2010, scheduled_at = None, last_error = Some ''Command failed: false'',
          output' = None, locked_by = None, locked_at = None\<rparr>],
        w_config = [''backoff_base'' \<mapsto> ''2''], w_timers = []\<rparr>" and err = "None"]
  by (simp add: run_defs)

theorem attempts_bounded_witness:
  "reachable \<lparr>s_world = \<lparr>w_jobs = [\<lparr>id' = ''n1'', command = ''false'', state = PENDING, attempts = 1, max_retries = - 1,
          created_at = 1, updated_at = 6, scheduled_at = None, last_error = Some ''Command failed: false'',
          output' = None, locked_by = None, locked_at = None\<rparr>,
          \<lparr>id' = ''t2'', command = ''false'', state = DEAD, attempts = 2, max_retries = 2,
          created_at = 2, updated_at = 2010, scheduled_at = None, last_error = Some ''Command failed: false'',
          output' = None, locked_by = None, locked_at = None\<rparr>],
        w_config = [''backoff_base'' \<mapsto> ''2''], w_timers = []\<rparr>,
      executing = [], armed = {''n1''}, retried = {''n1''}\<rparr>
   \<and> \<lparr>id' = ''t2'', command = ''false'', state = DEAD, attempts = 2, max_retries = 2,
          created_at = 2, updated_at = 2010, scheduled_at = None, last_error = Some ''Command failed: false'',
          output' = None, locked_by = None, locked_at = None\<rparr>
       \<in> set (w_jobs (s_world \<lparr>s_world = \<lparr>w_jobs = [\<lparr>id' = ''n1'', command = ''false'', state = PENDING, attempts = 1, max_retries = - 1,
          created_at = 1, updated_at = 6, scheduled_at = None, last_error = Some ''Command failed: false'',
          output' = None, locked_by = None, locked_at = None\<rparr>,
          \<lparr>id' = ''t2'', command = ''false'', state = DEAD, attempts = 2, max_retries = 2,
          created_at = 2, updated_at = 2010, scheduled_at = None, last_error = Some ''Command failed: false'',
          output' = None, locked_by = None, locked_at = None\<rparr>],
        w_config = [''backoff_base'' \<mapsto> ''2''], w_timers = []\<rparr>,
      executing = [], armed = {''n1''}, retried = {''n1''}\<rparr>))
   \<and> id' \<lparr>id' = ''t2'', command = ''false'', state = DEAD, attempts = 2, max_retries = 2,
          created_at = 2, updated_at = 2010, scheduled_at = None, last_error = Some ''Command failed: false'',
          output' = None, locked_by = None, locked_at = None\<rparr> \<notin> retried \<lparr>s_world = \<lparr>w_jobs = [\<lparr>id' = ''n1'', command = ''false'', state = PENDING, attempts = 1, max_retries = - 1,
          created_at = 1, updated_at = 6, scheduled_at = None, last_error = Some ''Command failed: false'',
          output' = None, locked_by = None, locked_at = None\<rparr>,
          \<lparr>id' = ''t2'', command = ''false'', state = DEAD, attempts = 2, max_retries = 2,
          created_at = 2, updated_at = 2010, scheduled_at = None, last_error = Some ''Command failed: false'',
          output' = None, locked_by = None, locked_at = None\<rparr>],
        w_config = [''backoff_base'' \<mapsto> ''2''], w_timers = []\<rparr>,
      executing = [], armed = {''n1''}, retried = {''n1''}\<rparr>
   \<and> 1 \<le> max_retries \<lparr>id' = ''t2'', command = ''false'', state = DEAD, attempts = 2, max_retries = 2,
          created_at = 2, updated_at = 2010, scheduled_at = None, last_error = Some ''Command failed: false'',
          output' = None, locked_by = None, locked_at = None\<rparr>
   \<and> attempts \<lparr>id' = ''t2'', command = ''false'', state = DEAD, attempts = 2, max_retries = 2,
          created_at = 2, updated_at = 2010, scheduled_at = None, last_error = Some ''Command failed: false'',
          output' = None, locked_by = None, locked_at = None\<rparr> = 2
   \<and> max_retries \<lparr>id' = ''t2'', command = ''false'', state = DEAD, attempts = 2, max_retries = 2,
          created_at = 2, updated_at = 2010, scheduled_at = None, last_error = Some ''Command failed: false'',
          output' = None, locked_by = None, locked_at = None\<rparr> = 2
   \<and> state \<lparr>id' = ''t2'', command = ''false'', state = DEAD, attempts = 2, max_retries = 2,
          created_at = 2, updated_at = 2010, scheduled_at = None, last_error = Some ''Command failed: false'',
          output' = None, locked_by = None, locked_at = None\<rparr> = DEAD
   \<and> dlq_retry 3000 ''t2'' [\<lparr>id' = ''n1'', command = ''false'', state = PENDING, attempts = 1, max_retries = - 1,
          created_at = 1, updated_at = 6, scheduled_at = None, last_error = Some ''Command failed: false'',
          output' = None, locked_by = None, locked_at = None\<rparr>,
          \<lparr>id' = ''t2'', command = ''false'', state = DEAD, attempts = 2, max_retries = 2,
          created_at = 2, updated_at = 2010, scheduled_at = None, last_error = Some ''Command failed: false'',
          output' = None, locked_by = None, locked_at = None\<rparr>]
     = ([\<lparr>id' = ''n1'', command = ''false'', state = PENDING, attempts = 1, max_retries = - 1,
          created_at = 1, updated_at = 6, scheduled_at = None, last_error = Some ''Command failed: false'',
          output' = None, locked_by = None, locked_at = None\<rparr>,
          \<lparr>id' = ''t2'', command = ''false'', state = PENDING, attempts = 2, max_retries = 2,
          created_at = 2, updated_at = 3000, scheduled_at = None, last_error = Some ''Command failed: false'',
          output' = None, locked_by = None, locked_at = None\<rparr>],
        Inr (\<lparr>id' = ''t2'', command = ''false'', state = PENDING, attempts = 2, max_retries = 2,
          created_at = 2, updated_at = 3000, scheduled_at = None, last_error = Some ''Command failed: false'',
          output' = None, locked_by = None, locked_at = None\<rparr>))
   \<and> handleJobFailure \<lparr>t_poll = 3001, t_lock = 3002, t_done = 3003, exec_res = ExecFailed ''Command failed: false'',
          f_getNext = None, f_lock = None, f_complete = None, f_failed = None, f_config = None\<rparr>
        \<lparr>id' = ''t2'', command = ''false'', state = PROCESSING, attempts = 2, max_retries = 2,
          created_at = 2, updated_at = 3002, scheduled_at = None, last_error = Some ''Command failed: false'',
          output' = None, locked_by = Some ''w1'', locked_at = Some 3002\<rparr> ''Command failed: false''
        \<lparr>w_jobs = [\<lparr>id' = ''n1'', command = ''false'', state = PENDING, attempts = 1, max_retries = - 1,
          created_at = 1, updated_at = 6, scheduled_at = None, last_error = Some ''Command failed: false'',
          output' = None, locked_by = None, locked_at = None\<rparr>,
          \<lparr>id' = ''t2'', command = ''false'', state = PROCESSING, attempts = 2, max_retries = 2,
          created_at = 2, updated_at = 3002, scheduled_at = None, last_error = Some ''Command failed: false'',
          output' = None, locked_by = Some ''w1'', locked_at = Some 3002\<rparr>],
        w_config = [''backoff_base'' \<mapsto> ''2''], w_timers = []\<rparr>
     = (\<lparr>w_jobs = [\<lparr>id' = ''n1'', command = ''false'', state = PENDING, attempts = 1, max_retries = - 1,
          created_at = 1, updated_at = 6, scheduled_at = None, last_error = Some ''Command failed: false'',
          output' = None, locked_by = None, locked_at = None\<rparr>,
          \<lparr>id' = ''t2'', command = ''false'', state = DEAD, attempts = 3, max_retries = 2,
          created_at = 2, updated_at = 3003, scheduled_at = None, last_error = Some ''Command failed: false'',
          output' = None, locked_by = None, locked_at = None\<rparr>],
        w_config = [''backoff_base'' \<mapsto> ''2''], w_timers = []\<rparr>, None)"
  using reach11
        attempts_bounded [THEN conjunct1, THEN mp, OF reach11]
        attempts_bounded [where t = "[\<lparr>id' = ''n1'', command = ''false'', state = PENDING, attempts = 1, max_retries = - 1,
          created_at = 1, updated_at = 6, scheduled_at = None, last_error = Some ''Command failed: false'',
          output' = None, locked_by = None, locked_at = None\<rparr>,
          \<lparr>id' = ''t2'', command = ''false'', state = DEAD, attempts = 2, max_retries = 2,
          created_at = 2, updated_at = 2010, scheduled_at = None, last_error = Some ''Command failed: false'',
          output' = None, locked_by = None, locked_at = None\<rparr>]" and now = 3000
          and j = "\<lparr>id' = ''t2'', command = ''false'', state = DEAD, attempts = 2, max_retries = 2,
          created_at = 2, updated_at = 2010, scheduled_at = None, last_error = Some ''Command failed: false'',
          output' = None, locked_by = None, locked_at = None\<rparr>", THEN conjunct2, THEN conjunct1]
        attempts_bounded [where W = "\<lparr>w_jobs = [\<lparr>id' = ''n1'', command = ''false'', state = PENDING, attempts = 1, max_retries = - 1,
          created_at = 1, updated_at = 6, scheduled_at = None, last_error = Some ''Command failed: false'',
          output' = None, locked_by = None, locked_at = None\<rparr>,
          \<lparr>id' = ''t2'', command = ''false'', state = PROCESSING, attempts = 2, max_retries = 2,
          created_at = 2, updated_at = 3002, scheduled_at = None, last_error = Some ''Command failed: false'',
          output' = None, locked_by = Some ''w1'', locked_at = Some 3002\<rparr>],
        w_config = [''backoff_base'' \<mapsto> ''2''], w_timers = []\<rparr>"
          and ev = "\<lparr>t_poll = 3001, t_lock = 3002, t_done = 3003, exec_res = ExecFailed ''Command failed: false'',
          f_getNext = None, f_lock = None, f_complete = None, f_failed = None, f_config = None\<rparr>" and msg = "''Command failed: false''"
          and lj = "\<lparr>id' = ''t2'', command = ''false'', state = PROCESSING, attempts = 2, max_retries = 2,
          created_at = 2, updated_at = 3002, scheduled_at = None, last_error = Some ''Command failed: false'',
          output' = None, locked_by = Some ''w1'', locked_at = Some 3002\<rparr>"
          and j = "\<lparr>id' = ''t2'', command = ''false'', state = PROCESSING, attempts = 2, max_retries = 2,
          created_at = 2, updated_at = 3002, scheduled_at = None, last_error = Some ''Command failed: false'',
          output' = None, locked_by = Some ''w1'', locked_at = Some 3002\<rparr>", THEN conjunct2, THEN conjunct2]
  by (simp add: str_or_def)

text \<open>
  Claim C2 as it is written fails on a job that \<^verbatim>\<open>dlq retry\<close> brings back. The run:
  \<^verbatim>\<open>enqueue\<close> of \<^verbatim>\<open>t2\<close> with \<^verbatim>\<open>max_retries = 2\<close>; the worker's step fails it
  (\<^verbatim>\<open>failed\<close>, one attempt, a timer of 2000 ms); the timer requeues it; the worker's
  step fails it again (\<^verbatim>\<open>dead\<close>, two attempts); \<^verbatim>\<open>dlq retry\<close> makes it \<^verbatim>\<open>pending\<close>
  with its two attempts; the worker's step fails it once more, and the job is \<^verbatim>\<open>dead\<close>
  with three attempts against a \<^verbatim>\<open>max_retries\<close> of 2.
\<close>

theorem attempts_exceed_counterexample:
  "enqueue_action 1 ''u'' [''backoff_base'' \<mapsto> ''2'']
       \<lparr>js_id = Some ''t2'', js_command = Some ''false'', js_max_retries = JNum 2, js_scheduled_at = NoTime\<rparr> []
     = ([\<lparr>id' = ''t2'', command = ''false'', state = PENDING, attempts = 0, max_retries = 2,
          created_at = 1, updated_at = 1, scheduled_at = None, last_error = None,
          output' = None, locked_by = None, locked_at = None\<rparr>],
        Inr \<lparr>id' = ''t2'', command = ''false'', state = PENDING, attempts = 0, max_retries = 2,
          created_at = 1, updated_at = 1, scheduled_at = None, last_error = None,
          output' = None, locked_by = None, locked_at = None\<rparr>)
   \<and> processNextJob
       \<lparr>t_poll = 2, t_lock = 3, t_done = 4, exec_res = ExecFailed ''Command failed: false'',
          f_getNext = None, f_lock = None, f_complete = None, f_failed = None, f_config = None\<rparr>
       (\<lparr>w_jobs = [\<lparr>id' = ''t2'', command = ''false'', state = PENDING, attempts = 0, max_retries = 2,
          created_at = 1, updated_at = 1, scheduled_at = None, last_error = None,
          output' = None, locked_by = None, locked_at = None\<rparr>],
        w_config = [''backoff_base'' \<mapsto> ''2''], w_timers = []\<rparr>,
        \<lparr>workerId = ''w1'', isRunning = True, currentJob = None\<rparr>)
     = (\<lparr>w_jobs = [\<lparr>id' = ''t2'', command = ''false'', state = FAILED, attempts = 1, max_retries = 2,
          created_at = 1, updated_at = 4, scheduled_at = None, last_error = Some ''Command failed: false'',
          output' = None, locked_by = None, locked_at = None\<rparr>],
        w_config = [''backoff_base'' \<mapsto> ''2''], w_timers = [(2000, ''t2'')]\<rparr>,
        \<lparr>workerId = ''w1'', isRunning = True, currentJob = None\<rparr>)
   \<and> requeue_callback 2004 None ''t2''
       \<lparr>w_jobs = [\<lparr>id' = ''t2'', command = ''false'', state = FAILED, attempts = 1, max_retries = 2,
          created_at = 1, updated_at = 4, scheduled_at = None, last_error = Some ''Command failed: false'',
          output' = None, locked_by = None, locked_at = None\<rparr>],
        w_config = [''backoff_base'' \<mapsto> ''2''], w_timers = []\<rparr>
     = \<lparr>w_jobs = [\<lparr>id' = ''t2'', command = ''false'', state = PENDING, attempts = 1, max_retries = 2,
          created_at = 1, updated_at = 2004, scheduled_at = None, last_error = Some ''Command failed: false'',
          output' = None, locked_by = None, locked_at = None\<rparr>],
        w_config = [''backoff_base'' \<mapsto> ''2''], w_timers = []\<rparr>
   \<and> processNextJob
       \<lparr>t_poll = 2005, t_lock = 2006, t_done = 2007, exec_res = ExecFailed ''Command failed: false'',
          f_getNext = None, f_lock = None, f_complete = None, f_failed = None, f_config = None\<rparr>
       (\<lparr>w_jobs = [\<lparr>id' = ''t2'', command = ''false'', state = PENDING, attempts = 1, max_retries = 2,
          created_at = 1, updated_at = 2004, scheduled_at = None, last_error = Some ''Command failed: false'',
          output' = None, locked_by = None, locked_at = None\<rparr>],
        w_config = [''backoff_base'' \<mapsto> ''2''], w_timers = []\<rparr>,
        \<lparr>workerId = ''w1'', isRunning = True, currentJob = None\<rparr>)
     = (\<lparr>w_jobs = [\<lparr>id' = ''t2'', command = ''false'', state = DEAD, attempts = 2, max_retries = 2,
          created_at = 1, updated_at = 2007, scheduled_at = None, last_error = Some ''Command failed: false'',
          output' = None, locked_by = None, locked_at = None\<rparr>],
        w_config = [''backoff_base'' \<mapsto> ''2''], w_timers = []\<rparr>,
        \<lparr>workerId = ''w1'', isRunning = True, currentJob = None\<rparr>)
   \<and> dlq_retry 3000 ''t2''
       [\<lparr>id' = ''t2'', command = ''false'', state = DEAD, attempts = 2, max_retries = 2,
          created_at = 1, updated_at = 2007, scheduled_at = None, last_error = Some ''Command failed: false'',
          output' = None, locked_by = None, locked_at = None\<rparr>]
     = ([\<lparr>id' = ''t2'', command = ''false'', state = PENDING, attempts = 2, max_retries = 2,
          created_at = 1, updated_at = 3000, scheduled_at = None, last_error = Some ''Command failed: false'',
          output' = None, locked_by = None, locked_at = None\<rparr>],
        Inr \<lparr>id' = ''t2'', command = ''false'', state = PENDING, attempts = 2, max_retries = 2,
          created_at = 1, updated_at = 3000, scheduled_at = None, last_error = Some ''Command failed: false'',
          output' = None, locked_by = None, locked_at = None\<rparr>)
   \<and> processNextJob
       \<lparr>t_poll = 3001, t_lock = 3002, t_done = 3003, exec_res = ExecFailed ''Command failed: false'',
          f_getNext = None, f_lock = None, f_complete = None, f_failed = None, f_config = None\<rparr>
       (\<lparr>w_jobs = [\<lparr>id' = ''t2'', command = ''false'', state = PENDING, attempts = 2, max_retries = 2,
          created_at = 1, updated_at = 3000, scheduled_at = None, last_error = Some ''Command failed: false'',
          output' = None, locked_by = None, locked_at = None\<rparr>],
        w_config = [''backoff_base'' \<mapsto> ''2''], w_timers = []\<rparr>,
        \<lparr>workerId = ''w1'', isRunning = True, currentJob = None\<rparr>)
     = (\<lparr>w_jobs = [\<lparr>id' = ''t2'', command = ''false'', state = DEAD, attempts = 3, max_retries = 2,
          created_at = 1, updated_at = 3003, scheduled_at = None, last_error = Some ''Command failed: false'',
          output' = None, locked_by = None, locked_at = None\<rparr>],
        w_config = [''backoff_base'' \<mapsto> ''2''], w_timers = []\<rparr>,
        \<lparr>workerId = ''w1'', isRunning = True, currentJob = None\<rparr>)
   \<and> max_retries \<lparr>id' = ''t2'', command = ''false'', state = DEAD, attempts = 3, max_retries = 2,
          created_at = 1, updated_at = 3003, scheduled_at = None, last_error = Some ''Command failed: false'',
          output' = None, locked_by = None, locked_at = None\<rparr>
       < attempts \<lparr>id' = ''t2'', command = ''false'', state = DEAD, attempts = 3, max_retries = 2,
          created_at = 1, updated_at = 3003, scheduled_at = None, last_error = Some ''Command failed: false'',
          output' = None, locked_by = None, locked_at = None\<rparr>"
  by (simp add: dlq_retry_def getJob_def processNextJob_def processNextJob_try_def
                getNextPendingJob_def eligible_def run_defs)

end
